theory Spec2Isabelle
  imports Main "HOL-Library.Sublist"
begin

section \<open>Values exchanged with the Mattermost server\<close>

text \<open>
  A \<open>time.Time\<close> is modelled as an instant on the UTC time line, counted in nanoseconds
  since the Unix epoch; a \<open>*time.Time\<close> is a \<open>Time option\<close>, \<open>None\<close> for \<open>nil\<close>.
  Go's \<open>int\<close> and \<open>int64\<close> are modelled as \<open>int\<close>: every number of the audit is a
  timestamp, a page index or a count of records held in memory, far from 64-bit overflow.
\<close>

type_synonym Time = int

text \<open>
  The fields of \<open>model.User\<close>, \<open>model.Team\<close> and \<open>model.Channel\<close> (types of the
  Mattermost client library) that the audit reads.
\<close>

record User =
  User_Id :: string
  User_Username :: string
  User_FirstName :: string
  User_LastName :: string
  User_Email :: string
  User_CreateAt :: int
  User_LastActivityAt :: int
  User_DeleteAt :: int

record Team =
  Team_Id :: string
  Team_DisplayName :: string

record Channel =
  Channel_Id :: string
  Channel_DisplayName :: string

section \<open>The result model (audit.go)\<close>

record TeamInfo =
  TeamInfo_ID :: string
  TeamInfo_DisplayName :: string

record ChannelInfo =
  TeamName :: string
  ChannelName :: string

record GuestRecord =
  Username :: string
  DisplayName :: string
  Email :: string
  CreatedAt :: "Time option"
  LastLogin :: "Time option"
  LastPost :: "Time option"
  Teams :: "TeamInfo list"
  Channels :: "ChannelInfo list"
  Active :: bool
  Inactive :: bool
  Error :: string

record AuditSummary =
  TotalGuests :: int
  ActiveGuests :: int
  InactiveGuests :: int
  DeactivatedGuests :: int
  FailedLookups :: int

record AuditResult =
  Guests :: "GuestRecord list"
  Summary :: AuditSummary
  InactiveDays :: int

text \<open>The exit codes of errors.go.\<close>

definition ExitSuccess :: int where "ExitSuccess = 0"
definition ExitConfigError :: int where "ExitConfigError = 1"
definition ExitAPIError :: int where "ExitAPIError = 2"
definition ExitPartialFailure :: int where "ExitPartialFailure = 3"
definition ExitOutputError :: int where "ExitOutputError = 4"

section \<open>The client interface (client.go)\<close>

text \<open>
  \<open>MattermostClient\<close> is an interface: the audit knows nothing of an implementation
  but the five methods. A method is modelled as a function on the state \<open>'s\<close> of the
  world behind the interface (the server, the network, the clock), which it may change,
  so that two calls with the same arguments may answer differently. A Go result
  \<open>(v, err)\<close> is a sum: \<open>Inl msg\<close> when \<open>err \<noteq> nil\<close>, with \<open>msg = err.Error()\<close>, and
  \<open>Inr v\<close> otherwise. Both implementations of the repository, \<open>mmClient\<close> and the
  \<open>mockClient\<close> of the tests, return \<open>nil\<close> beside every error.
\<close>

record 's MattermostClient =
  GetGuestUsers :: "int \<Rightarrow> int \<Rightarrow> 's \<Rightarrow> (string + User list) \<times> 's"
  GetTeamByName :: "string \<Rightarrow> 's \<Rightarrow> (string + Team) \<times> 's"
  GetTeamsForUser :: "string \<Rightarrow> 's \<Rightarrow> (string + Team list) \<times> 's"
  GetChannelsForTeamForUser :: "string \<Rightarrow> string \<Rightarrow> 's \<Rightarrow> (string + Channel list) \<times> 's"
  GetLastPostDateForUser ::
    "string \<Rightarrow> string \<Rightarrow> string list \<Rightarrow> 's \<Rightarrow> (string + Time option) \<times> 's"

section \<open>Pure helpers (audit.go)\<close>

definition nsPerDay :: int where
  "nsPerDay = 86400 * 1000000000"

text \<open>
  \<open>t.AddDate(0, 0, days)\<close> of the standard library: the same clock reading \<open>days\<close>
  calendar days later. On the UTC time line every day has 86400 seconds.
\<close>

definition AddDays :: "Time \<Rightarrow> int \<Rightarrow> Time" where
  "AddDays t days = t + days * nsPerDay"

text \<open>\<open>t.Before(u)\<close>: the instant \<open>t\<close> is strictly earlier than \<open>u\<close>.\<close>

definition Before :: "Time \<Rightarrow> Time \<Rightarrow> bool" where
  "Before t u = (t < u)"


text \<open>
  \<open>IsInactive\<close> reads the clock itself; \<open>time_Now\<close> is the reading of \<open>time.Now()\<close>
  in the current state of the world.
\<close>

definition IsInactive :: "('s \<Rightarrow> Time) \<Rightarrow> Time option \<Rightarrow> int \<Rightarrow> 's \<Rightarrow> bool" where
  "IsInactive time_Now lastLogin inactiveDays s =
     (if inactiveDays \<le> 0 then False
      else case lastLogin of
             None \<Rightarrow> True
           | Some t \<Rightarrow> (let cutoff = AddDays (time_Now s) (- inactiveDays) in Before t cutoff))"

definition BuildDisplayName :: "string \<Rightarrow> string \<Rightarrow> string" where
  "BuildDisplayName firstName lastName =
     (if firstName \<noteq> [] \<and> lastName \<noteq> [] then firstName @ '' '' @ lastName
      else if firstName \<noteq> [] then firstName
      else if lastName \<noteq> [] then lastName
      else [])"

definition MillisToTime :: "int \<Rightarrow> Time option" where
  "MillisToTime millis = (if millis = 0 then None else Some (millis * 1000000))"

text \<open>
  The verb \<open>%q\<close> of \<open>fmt\<close> writes a string as a Go string literal. The model puts
  the double quotes and escapes the double quote and the backslash; the escape sequences Go writes for
  control and non-printable characters are left out, the character is copied.
\<close>

definition quoteChar :: "char \<Rightarrow> string" where
  "quoteChar c = (if c = CHR 0x22 \<or> c = CHR 0x5C then [CHR 0x5C, c] else [c])"

definition fmt_q :: "string \<Rightarrow> string" where
  "fmt_q s = CHR 0x22 # concat (map quoteChar s) @ [CHR 0x22]"

section \<open>The audit (audit.go)\<close>

text \<open>
  What the audit writes to \<open>os.Stderr\<close> is diagnostic text and is not modelled; the
  parameter \<open>verbose\<close> guards nothing else and is kept for the signature only.
\<close>

text \<open>
  The loop of \<open>processGuest\<close> over the teams of a guest: a team is kept unless team
  scoping is active (\<open>filterTeamID \<noteq> ""\<close>) and the team is another one.
\<close>

fun filterTeams :: "string \<Rightarrow> Team list \<Rightarrow> TeamInfo list" where
  "filterTeams filterTeamID [] = []"
| "filterTeams filterTeamID (t # ts) =
     (if filterTeamID \<noteq> [] \<and> Team_Id t \<noteq> filterTeamID then filterTeams filterTeamID ts
      else \<lparr>TeamInfo_ID = Team_Id t, TeamInfo_DisplayName = Team_DisplayName t\<rparr>
             # filterTeams filterTeamID ts)"

text \<open>
  The loop of \<open>processGuest\<close> over the kept teams, with its two accumulators
  \<open>channels\<close> and \<open>teamIDs\<close>; the first channel lookup that fails ends the loop
  and the function.
\<close>

fun getChannels ::
  "'s MattermostClient \<Rightarrow> string \<Rightarrow> TeamInfo list \<Rightarrow> ChannelInfo list \<Rightarrow> string list \<Rightarrow> 's
     \<Rightarrow> (string + ChannelInfo list \<times> string list) \<times> 's" where
  "getChannels client userID [] channels teamIDs s = (Inr (channels, teamIDs), s)"
| "getChannels client userID (ti # tis) channels teamIDs s =
     (case GetChannelsForTeamForUser client (TeamInfo_ID ti) userID s of
        (Inl err, s') \<Rightarrow>
          (Inl (''failed to get channels for team '' @ fmt_q (TeamInfo_DisplayName ti)
                  @ '': '' @ err), s')
      | (Inr chs, s') \<Rightarrow>
          getChannels client userID tis
            (channels @ map (\<lambda>ch. \<lparr>TeamName = TeamInfo_DisplayName ti,
                                    ChannelName = Channel_DisplayName ch\<rparr>) chs)
            (teamIDs @ [TeamInfo_ID ti]) s')"

text \<open>
  \<open>processGuest\<close> returns \<open>(nil, err)\<close>, modelled \<open>Inl msg\<close>; \<open>(nil, nil)\<close> for a
  guest outside the filtered team, modelled \<open>Inr None\<close>; or \<open>(record, nil)\<close>,
  modelled \<open>Inr (Some record)\<close>.
\<close>

definition processGuest ::
  "('s \<Rightarrow> Time) \<Rightarrow> 's MattermostClient \<Rightarrow> User \<Rightarrow> string \<Rightarrow> int \<Rightarrow> bool \<Rightarrow> 's
     \<Rightarrow> (string + GuestRecord option) \<times> 's" where
  "processGuest time_Now client u filterTeamID inactiveDays verbose s =
     (case GetTeamsForUser client (User_Id u) s of
        (Inl err, s1) \<Rightarrow> (Inl (''failed to get teams: '' @ err), s1)
      | (Inr teams, s1) \<Rightarrow>
          (let teamInfos = filterTeams filterTeamID teams in
           if filterTeamID \<noteq> [] \<and> length teamInfos = 0 then (Inr None, s1)
           else
             (case getChannels client (User_Id u) teamInfos [] [] s1 of
                (Inl err, s2) \<Rightarrow> (Inl err, s2)
              | (Inr (channels, teamIDs), s2) \<Rightarrow>
                  (let (lastPost, s3) =
                         (if length teamIDs > 0
                          then (case GetLastPostDateForUser client (User_Id u)
                                       (User_Username u) teamIDs s2 of
                                  (Inl err, s3) \<Rightarrow> (None, s3)
                                | (Inr t, s3) \<Rightarrow> (t, s3))
                          else (None, s2));
                       lastLogin = MillisToTime (User_LastActivityAt u);
                       active = (User_DeleteAt u = 0);
                       inactive = IsInactive time_Now lastLogin inactiveDays s3
                   in (Inr (Some \<lparr>Username = User_Username u,
                                   DisplayName = BuildDisplayName (User_FirstName u)
                                                   (User_LastName u),
                                   Email = User_Email u,
                                   CreatedAt = MillisToTime (User_CreateAt u),
                                   LastLogin = lastLogin,
                                   LastPost = lastPost,
                                   Teams = teamInfos,
                                   Channels = channels,
                                   Active = active,
                                   Inactive = inactive,
                                   Error = []\<rparr>), s3)))))"

text \<open>
  The pagination loop of \<open>RunAudit\<close>. It ends when a page fails or is shorter than
  \<open>perPage\<close>; against a client that always answers with full pages it never ends,
  which is the value \<open>None\<close>.
\<close>

definition perPage :: int where
  "perPage = 200"

partial_function (option) fetchGuests ::
  "'s MattermostClient \<Rightarrow> int \<Rightarrow> User list \<Rightarrow> 's \<Rightarrow> ((string + User list) \<times> 's) option" where
  "fetchGuests client page allGuests s =
     (case GetGuestUsers client page perPage s of
        (Inl err, s') \<Rightarrow> Some (Inl err, s')
      | (Inr users, s') \<Rightarrow>
          (if int (length users) < perPage then Some (Inr (allGuests @ users), s')
           else fetchGuests client (page + 1) (allGuests @ users) s'))"

declare fetchGuests.simps [code]

text \<open>The record that \<open>RunAudit\<close> builds for a guest whose processing failed.\<close>

definition stubRecord :: "User \<Rightarrow> string \<Rightarrow> GuestRecord" where
  "stubRecord u err =
     \<lparr>Username = User_Username u,
      DisplayName = BuildDisplayName (User_FirstName u) (User_LastName u),
      Email = User_Email u,
      CreatedAt = MillisToTime (User_CreateAt u),
      LastLogin = None,
      LastPost = None,
      Teams = [],
      Channels = [],
      Active = (User_DeleteAt u = 0),
      Inactive = False,
      Error = err\<rparr>"

text \<open>
  The loop of \<open>RunAudit\<close> over the guests; it updates \<open>result\<close> and \<open>exitCode\<close>.
\<close>

fun processGuests ::
  "('s \<Rightarrow> Time) \<Rightarrow> 's MattermostClient \<Rightarrow> string \<Rightarrow> int \<Rightarrow> bool \<Rightarrow> User list
     \<Rightarrow> AuditResult \<Rightarrow> int \<Rightarrow> 's \<Rightarrow> (AuditResult \<times> int) \<times> 's" where
  "processGuests time_Now client filterTeamID inactiveDays verbose [] result exitCode s =
     ((result, exitCode), s)"
| "processGuests time_Now client filterTeamID inactiveDays verbose (u # us) result exitCode s =
     (case processGuest time_Now client u filterTeamID inactiveDays verbose s of
        (Inl err, s') \<Rightarrow>
          processGuests time_Now client filterTeamID inactiveDays verbose us
            (result\<lparr>Guests := Guests result @ [stubRecord u err],
                    Summary := (Summary result)
                      \<lparr>FailedLookups := FailedLookups (Summary result) + 1\<rparr>\<rparr>)
            ExitPartialFailure s'
      | (Inr None, s') \<Rightarrow>
          processGuests time_Now client filterTeamID inactiveDays verbose us result exitCode s'
      | (Inr (Some record), s') \<Rightarrow>
          processGuests time_Now client filterTeamID inactiveDays verbose us
            (result\<lparr>Guests := Guests result @ [record]\<rparr>) exitCode s')"

text \<open>The loop of \<open>RunAudit\<close> that tallies the records.\<close>

fun calcSummary :: "GuestRecord list \<Rightarrow> AuditSummary \<Rightarrow> AuditSummary" where
  "calcSummary [] summary = summary"
| "calcSummary (g # gs) summary =
     (if Error g \<noteq> [] then calcSummary gs summary
      else if \<not> Active g
        then calcSummary gs (summary\<lparr>DeactivatedGuests := DeactivatedGuests summary + 1\<rparr>)
      else if Inactive g
        then calcSummary gs (summary\<lparr>InactiveGuests := InactiveGuests summary + 1\<rparr>)
      else calcSummary gs (summary\<lparr>ActiveGuests := ActiveGuests summary + 1\<rparr>))"

text \<open>The number of records that carry an error description.\<close>

definition errorCount :: "GuestRecord list \<Rightarrow> int" where
  "errorCount gs = int (length (filter (\<lambda>g. Error g \<noteq> []) gs))"

text \<open>
  The first step of \<open>RunAudit\<close>: the identity of the team to scope to, \<open>""\<close> without
  a filter, or the error of the lookup.
\<close>

definition resolveTeamFilter ::
  "'s MattermostClient \<Rightarrow> string \<Rightarrow> 's \<Rightarrow> (string + string) \<times> 's" where
  "resolveTeamFilter client teamFilter s =
     (if teamFilter \<noteq> []
      then (case GetTeamByName client teamFilter s of
              (Inl err, s') \<Rightarrow> (Inl err, s')
            | (Inr team, s') \<Rightarrow> (Inr (Team_Id team), s'))
      else (Inr [], s))"

definition emptySummary :: AuditSummary where
  "emptySummary = \<lparr>TotalGuests = 0, ActiveGuests = 0, InactiveGuests = 0,
                   DeactivatedGuests = 0, FailedLookups = 0\<rparr>"

text \<open>
  \<open>RunAudit\<close> returns \<open>(*AuditResult, int)\<close>: the result, \<open>None\<close> for \<open>nil\<close>, and
  the exit code. The outer \<open>option\<close> is \<open>None\<close> when the pagination never ends.
\<close>

definition RunAudit ::
  "('s \<Rightarrow> Time) \<Rightarrow> 's MattermostClient \<Rightarrow> string \<Rightarrow> int \<Rightarrow> bool \<Rightarrow> 's
     \<Rightarrow> ((AuditResult option \<times> int) \<times> 's) option" where
  "RunAudit time_Now client teamFilter inactiveDays verbose s =
     (case resolveTeamFilter client teamFilter s of
        (Inl err, s1) \<Rightarrow> Some ((None, ExitConfigError), s1)
      | (Inr filterTeamID, s1) \<Rightarrow>
          (case fetchGuests client 0 [] s1 of
             None \<Rightarrow> None
           | Some (Inl err, s2) \<Rightarrow> Some ((None, ExitAPIError), s2)
           | Some (Inr allGuests, s2) \<Rightarrow>
               (case processGuests time_Now client filterTeamID inactiveDays verbose allGuests
                       \<lparr>Guests = [], Summary = emptySummary, InactiveDays = inactiveDays\<rparr>
                       ExitSuccess s2 of
                  ((result, exitCode), s3) \<Rightarrow>
                    (let summary = calcSummary (Guests result) (Summary result);
                         result' = result\<lparr>Summary :=
                                     summary\<lparr>TotalGuests := int (length (Guests result))\<rparr>\<rparr>
                     in Some ((Some result', exitCode), s3)))))"

section \<open>Observing the calls of a run\<close>

text \<open>
  An event is one call of a method of the client, with its arguments and its answer.
  \<open>logged client\<close> is \<open>client\<close> with a log beside its state: every method behaves as
  before and appends its event. The log of a run of the audit against \<open>logged client\<close>
  is the sequence of the calls the audit made.
\<close>

datatype Event =
    EvGetGuestUsers int int "string + User list"
  | EvGetTeamByName string "string + Team"
  | EvGetTeamsForUser string "string + Team list"
  | EvGetChannelsForTeamForUser string string "string + Channel list"
  | EvGetLastPostDateForUser string string "string list" "string + Time option"

definition logged :: "'s MattermostClient \<Rightarrow> ('s \<times> Event list) MattermostClient" where
  "logged client =
     \<lparr>GetGuestUsers = (\<lambda>page n (s, log).
        case GetGuestUsers client page n s of
          (r, s') \<Rightarrow> (r, (s', log @ [EvGetGuestUsers page n r]))),
      GetTeamByName = (\<lambda>name (s, log).
        case GetTeamByName client name s of
          (r, s') \<Rightarrow> (r, (s', log @ [EvGetTeamByName name r]))),
      GetTeamsForUser = (\<lambda>userID (s, log).
        case GetTeamsForUser client userID s of
          (r, s') \<Rightarrow> (r, (s', log @ [EvGetTeamsForUser userID r]))),
      GetChannelsForTeamForUser = (\<lambda>teamID userID (s, log).
        case GetChannelsForTeamForUser client teamID userID s of
          (r, s') \<Rightarrow> (r, (s', log @ [EvGetChannelsForTeamForUser teamID userID r]))),
      GetLastPostDateForUser = (\<lambda>userID username teamIDs (s, log).
        case GetLastPostDateForUser client userID username teamIDs s of
          (r, s') \<Rightarrow> (r, (s', log @ [EvGetLastPostDateForUser userID username teamIDs r])))\<rparr>"

text \<open>
  The clock of the logged world is the clock of the world; \<open>dropLog\<close> forgets the
  log of what a function returned against a logged client.
\<close>

definition loggedNow :: "('s \<Rightarrow> Time) \<Rightarrow> 's \<times> Event list \<Rightarrow> Time" where
  "loggedNow time_Now = (\<lambda>(s, log). time_Now s)"

definition dropLog :: "'a \<times> 's \<times> Event list \<Rightarrow> 'a \<times> 's" where
  "dropLog = (\<lambda>(out, (s, log)). (out, s))"

text \<open>The call of the event failed: it returned an error.\<close>

fun failedEv :: "Event \<Rightarrow> bool" where
  "failedEv (EvGetGuestUsers page n r) = isl r"
| "failedEv (EvGetTeamByName name r) = isl r"
| "failedEv (EvGetTeamsForUser userID r) = isl r"
| "failedEv (EvGetChannelsForTeamForUser teamID userID r) = isl r"
| "failedEv (EvGetLastPostDateForUser userID username teamIDs r) = isl r"

fun isGetGuestUsers :: "Event \<Rightarrow> bool" where
  "isGetGuestUsers (EvGetGuestUsers page n r) = True"
| "isGetGuestUsers ev = False"

fun isGetLastPostDateForUser :: "Event \<Rightarrow> bool" where
  "isGetLastPostDateForUser (EvGetLastPostDateForUser userID username teamIDs r) = True"
| "isGetLastPostDateForUser ev = False"

text \<open>
  A failed call that fails the guest or the run: every failed call but the estimate of
  the last post.
\<close>

definition fatalEv :: "Event \<Rightarrow> bool" where
  "fatalEv ev = (failedEv ev \<and> \<not> isGetLastPostDateForUser ev)"

text \<open>The guests that the guest-listing calls of a log returned, in the order of the calls.\<close>

fun listedGuests :: "Event list \<Rightarrow> User list" where
  "listedGuests [] = []"
| "listedGuests (EvGetGuestUsers page n (Inr users) # evs) = users @ listedGuests evs"
| "listedGuests (ev # evs) = listedGuests evs"

text \<open>
  Of a guest-listing call: the page and the page size it asked for, whether it answered
  with a full page, and whether it answered with a page shorter than the page size.
\<close>

fun pageCall :: "Event \<Rightarrow> int \<times> int" where
  "pageCall (EvGetGuestUsers page n r) = (page, n)"
| "pageCall ev = (0, 0)"

fun fullPageEv :: "Event \<Rightarrow> bool" where
  "fullPageEv (EvGetGuestUsers page n (Inr users)) = (\<not> int (length users) < n)"
| "fullPageEv ev = False"

fun shortPageEv :: "Event \<Rightarrow> bool" where
  "shortPageEv (EvGetGuestUsers page n (Inr users)) = (int (length users) < n)"
| "shortPageEv ev = False"

text \<open>
  \<open>fullPages client k page s\<close> describes \<open>k\<close> guest-listing calls made one after the
  other from state \<open>s\<close>, for the pages \<open>page\<close>, \<open>page + 1\<close>, ... with the page size
  \<open>perPage\<close>, each of which answered with a full page: it is the users of these pages,
  in the order of the calls, and the state after the last call. It is \<open>None\<close> when one of
  the calls fails or answers with fewer than \<open>perPage\<close> users.
\<close>

fun fullPages :: "'s MattermostClient \<Rightarrow> nat \<Rightarrow> int \<Rightarrow> 's \<Rightarrow> (User list \<times> 's) option" where
  "fullPages client 0 page s = Some ([], s)"
| "fullPages client (Suc k) page s =
     (case GetGuestUsers client page perPage s of
        (Inl err, s') \<Rightarrow> None
      | (Inr users, s') \<Rightarrow>
          (if int (length users) < perPage then None
           else (case fullPages client k (page + 1) s' of
                   None \<Rightarrow> None
                 | Some (rest, s'') \<Rightarrow> Some (users @ rest, s''))))"

section \<open>The mock client of the tests (the tests of audit.go)\<close>

text \<open>
  The maps of errors hold an error message for the keys whose call is to fail. The
  map of last posts holds the pointer, \<open>nil\<close> for a missing key.
\<close>

record mockClient =
  guests :: "User list"
  guestsErr :: "string option"
  teams :: "string \<rightharpoonup> Team list"
  teamsErr :: "string \<rightharpoonup> string"
  teamByName :: "string \<rightharpoonup> Team"
  teamByNameErr :: "string \<rightharpoonup> string"
  channels :: "string \<rightharpoonup> Channel list"
  channelsErr :: "string \<rightharpoonup> string"
  lastPostDate :: "string \<rightharpoonup> Time"
  lastPostDateErr :: "string \<rightharpoonup> string"

text \<open>
  The slice \<open>m.guests[start:end]\<close>; the audit calls with \<open>page \<ge> 0\<close> and a positive
  page size only, so that \<open>0 \<le> start \<le> end \<le> len(m.guests)\<close> where the slice is taken.
\<close>

definition mock_GetGuestUsers :: "mockClient \<Rightarrow> int \<Rightarrow> int \<Rightarrow> string + User list" where
  "mock_GetGuestUsers m page n =
     (case guestsErr m of
        Some err \<Rightarrow> Inl err
      | None \<Rightarrow>
          (let start = page * n in
           if start \<ge> int (length (guests m)) then Inr []
           else (let end0 = start + n;
                     end1 = (if end0 > int (length (guests m)) then int (length (guests m))
                             else end0)
                 in Inr (take (nat (end1 - start)) (drop (nat start) (guests m))))))"

definition mock_GetTeamByName :: "mockClient \<Rightarrow> string \<Rightarrow> string + Team" where
  "mock_GetTeamByName m name =
     (case teamByNameErr m name of
        Some err \<Rightarrow> Inl err
      | None \<Rightarrow>
          (case teamByName m name of
             Some t \<Rightarrow> Inr t
           | None \<Rightarrow> Inl (''error: team '' @ fmt_q name
                           @ '' not found. Please check the name and try again'')))"

definition mock_GetTeamsForUser :: "mockClient \<Rightarrow> string \<Rightarrow> string + Team list" where
  "mock_GetTeamsForUser m userID =
     (case teamsErr m userID of
        Some err \<Rightarrow> Inl err
      | None \<Rightarrow> Inr (case teams m userID of Some ts \<Rightarrow> ts | None \<Rightarrow> []))"

definition mock_GetChannelsForTeamForUser ::
  "mockClient \<Rightarrow> string \<Rightarrow> string \<Rightarrow> string + Channel list" where
  "mock_GetChannelsForTeamForUser m teamID userID =
     (let key = teamID @ '':'' @ userID in
      case channelsErr m key of
        Some err \<Rightarrow> Inl err
      | None \<Rightarrow> Inr (case channels m key of Some chs \<Rightarrow> chs | None \<Rightarrow> []))"

definition mock_GetLastPostDateForUser ::
  "mockClient \<Rightarrow> string \<Rightarrow> string \<Rightarrow> string list \<Rightarrow> string + Time option" where
  "mock_GetLastPostDateForUser m userID username teamIDs =
     (case lastPostDateErr m userID of
        Some err \<Rightarrow> Inl err
      | None \<Rightarrow> Inr (lastPostDate m userID))"

text \<open>The mock as a client: it answers from its fields and leaves the world as it is.\<close>

definition mockAsClient :: "mockClient \<Rightarrow> 's MattermostClient" where
  "mockAsClient m =
     \<lparr>GetGuestUsers = (\<lambda>page n s. (mock_GetGuestUsers m page n, s)),
      GetTeamByName = (\<lambda>name s. (mock_GetTeamByName m name, s)),
      GetTeamsForUser = (\<lambda>userID s. (mock_GetTeamsForUser m userID, s)),
      GetChannelsForTeamForUser = (\<lambda>teamID userID s.
        (mock_GetChannelsForTeamForUser m teamID userID, s)),
      GetLastPostDateForUser = (\<lambda>userID username teamIDs s.
        (mock_GetLastPostDateForUser m userID username teamIDs, s))\<rparr>"

section \<open>Writing the output (output.go)\<close>

text \<open>
  The \<open>io.Writer\<close> that \<open>WriteOutput\<close> renders to: \<open>os.Stdout\<close> or the file it
  created.
\<close>

datatype 'f Writer = Stdout | FileWriter 'f

text \<open>
  What \<open>WriteOutput\<close> calls, as functions on the state \<open>'w\<close> of the operating system:
  \<open>os.Create\<close>, which returns a file \<open>'f\<close> or an error, the deferred \<open>f.Close()\<close>,
  and the three renderers of output.go. A renderer returns its \<open>error\<close>, \<open>None\<close> for
  \<open>nil\<close>. The renderers are built on \<open>text/tabwriter\<close>, \<open>encoding/csv\<close> and
  \<open>encoding/json\<close>; \<open>WriteOutput\<close> only chooses among them and hands them the writer,
  so they are parameters here. The warning that \<open>WriteOutput\<close> prints to \<open>os.Stderr\<close>
  is diagnostic text and is not modelled.
\<close>

record ('f, 'w) OutputEnv =
  os_Create :: "string \<Rightarrow> 'w \<Rightarrow> (string + 'f) \<times> 'w"
  file_Close :: "'f \<Rightarrow> 'w \<Rightarrow> 'w"
  writeTable :: "'f Writer \<Rightarrow> AuditResult \<Rightarrow> 'w \<Rightarrow> string option \<times> 'w"
  writeCSV :: "'f Writer \<Rightarrow> AuditResult \<Rightarrow> 'w \<Rightarrow> string option \<times> 'w"
  writeJSON :: "'f Writer \<Rightarrow> AuditResult \<Rightarrow> 'w \<Rightarrow> string option \<times> 'w"

text \<open>
  The first part of \<open>WriteOutput\<close>: the writer, the file to close on return if one was
  opened, and the state of the operating system.
\<close>

definition chooseWriter ::
  "('f, 'w) OutputEnv \<Rightarrow> string \<Rightarrow> 'w \<Rightarrow> 'f Writer \<times> 'f option \<times> 'w" where
  "chooseWriter env outputPath world =
     (if outputPath \<noteq> []
      then (case os_Create env outputPath world of
              (Inl err, world') \<Rightarrow> (Stdout, None, world')
            | (Inr f, world') \<Rightarrow> (FileWriter f, Some f, world'))
      else (Stdout, None, world))"

text \<open>The \<open>switch\<close> of \<open>WriteOutput\<close> on the format.\<close>

definition render ::
  "('f, 'w) OutputEnv \<Rightarrow> string \<Rightarrow> 'f Writer \<Rightarrow> AuditResult \<Rightarrow> 'w \<Rightarrow> string option \<times> 'w" where
  "render env format w result world =
     (if format = ''csv'' then writeCSV env w result world
      else if format = ''json'' then writeJSON env w result world
      else writeTable env w result world)"

definition WriteOutput ::
  "('f, 'w) OutputEnv \<Rightarrow> AuditResult \<Rightarrow> string \<Rightarrow> string \<Rightarrow> 'w \<Rightarrow> string option \<times> 'w" where
  "WriteOutput env result format outputPath world =
     (case chooseWriter env outputPath world of
        (w, opened, world1) \<Rightarrow>
          (case render env format w result world1 of
             (err, world2) \<Rightarrow>
               (err, (case opened of
                        Some f \<Rightarrow> file_Close env f world2
                      | None \<Rightarrow> world2))))"

section \<open>Test data (the tests of audit.go)\<close>

text \<open>
  The users, teams and channels of the tests. The clock of the examples stands at
  \<open>nowMillis\<close> milliseconds after the epoch; the state of the world of a mock client
  is the reading of the clock.
\<close>

definition nowMillis :: int where
  "nowMillis = 1731000000000"

definition startTime :: Time where
  "startTime = nowMillis * 1000000"

definition jane :: User where
  "jane = \<lparr>User_Id = ''user1'', User_Username = ''jane.doe'', User_FirstName = ''Jane'',
           User_LastName = ''Doe'', User_Email = ''jane@example.com'',
           User_CreateAt = 1709280000000, User_LastActivityAt = 1730568000000,
           User_DeleteAt = 0\<rparr>"

definition bob :: User where
  "bob = \<lparr>User_Id = ''user2'', User_Username = ''bob.smith'', User_FirstName = ''Bob'',
          User_LastName = ''Smith'', User_Email = ''bob@example.com'',
          User_CreateAt = 1709280000000, User_LastActivityAt = 1730568000000,
          User_DeleteAt = 0\<rparr>"

definition alice :: User where
  "alice = \<lparr>User_Id = ''user3'', User_Username = ''alice.jones'', User_FirstName = ''Alice'',
            User_LastName = ''Jones'', User_Email = ''alice@example.com'',
            User_CreateAt = 1709280000000, User_LastActivityAt = 0,
            User_DeleteAt = 1710000000000\<rparr>"

definition engineering :: Team where
  "engineering = \<lparr>Team_Id = ''team1'', Team_DisplayName = ''Engineering''\<rparr>"

definition sales :: Team where
  "sales = \<lparr>Team_Id = ''team2'', Team_DisplayName = ''Sales''\<rparr>"

definition general :: Channel where
  "general = \<lparr>Channel_Id = ''ch1'', Channel_DisplayName = ''General''\<rparr>"

definition devBackend :: Channel where
  "devBackend = \<lparr>Channel_Id = ''ch2'', Channel_DisplayName = ''Dev Backend''\<rparr>"

definition partnerUpdates :: Channel where
  "partnerUpdates = \<lparr>Channel_Id = ''ch3'', Channel_DisplayName = ''Partner Updates''\<rparr>"

definition http500 :: string where
  "http500 = ''error: API request failed (HTTP 500)''"

text \<open>A mock client with no guests, no teams and no errors.\<close>

definition emptyMock :: mockClient where
  "emptyMock = \<lparr>guests = [], guestsErr = None, teams = Map.empty, teamsErr = Map.empty,
                teamByName = Map.empty, teamByNameErr = Map.empty, channels = Map.empty,
                channelsErr = Map.empty, lastPostDate = Map.empty,
                lastPostDateErr = Map.empty\<rparr>"

text \<open>The error of the mock for a team it does not know (\<open>TestRunAudit_TeamFilterNotFound\<close>).\<close>

definition notFoundError :: string where
  "notFoundError = ''error: team '' @ fmt_q ''NonExistent''
                     @ '' not found. Please check the name and try again''"

text \<open>The client of \<open>TestRunAudit_BasicScenario\<close>.\<close>

definition basicScenario :: mockClient where
  "basicScenario = emptyMock
     \<lparr>guests := [jane, bob, alice],
      teams := [''user1'' \<mapsto> [engineering], ''user2'' \<mapsto> [engineering, sales],
                ''user3'' \<mapsto> [engineering]],
      channels := [''team1:user1'' \<mapsto> [general], ''team1:user2'' \<mapsto> [general, devBackend],
                   ''team2:user2'' \<mapsto> [partnerUpdates], ''team1:user3'' \<mapsto> [general]],
      lastPostDate := [''user1'' \<mapsto> 1730827200000000000, ''user2'' \<mapsto> 1730136000000000000]\<rparr>"

text \<open>The client of \<open>TestRunAudit_PartialFailure\<close>: the teams of the second guest fail.\<close>

definition partialFailure :: mockClient where
  "partialFailure = emptyMock
     \<lparr>guests := [jane, bob],
      teams := [''user1'' \<mapsto> [engineering]],
      teamsErr := [''user2'' \<mapsto> http500],
      channels := [''team1:user1'' \<mapsto> [general]]\<rparr>"

text \<open>The calls of the run against this client without team filter.\<close>

definition partialFailureLog :: "Event list" where
  "partialFailureLog =
     [EvGetGuestUsers 0 200 (Inr [jane, bob]),
      EvGetTeamsForUser ''user1'' (Inr [engineering]),
      EvGetChannelsForTeamForUser ''team1'' ''user1'' (Inr [general]),
      EvGetLastPostDateForUser ''user1'' ''jane.doe'' [''team1''] (Inr None),
      EvGetTeamsForUser ''user2'' (Inl http500)]"

text \<open>The client of \<open>TestRunAudit_TeamFilter\<close>, to be run with the filter \<open>Sales\<close>.\<close>

definition teamFilterScenario :: mockClient where
  "teamFilterScenario = emptyMock
     \<lparr>guests := [jane, bob],
      teamByName := [''Sales'' \<mapsto> sales],
      teams := [''user1'' \<mapsto> [engineering], ''user2'' \<mapsto> [engineering, sales]],
      channels := [''team2:user2'' \<mapsto> [partnerUpdates]],
      lastPostDate := [''user2'' \<mapsto> 1730740800000000000]\<rparr>"

text \<open>The calls of the run against this client with the filter \<open>Sales\<close>.\<close>

definition teamFilterLog :: "Event list" where
  "teamFilterLog =
     [EvGetTeamByName ''Sales'' (Inr sales),
      EvGetGuestUsers 0 200 (Inr [jane, bob]),
      EvGetTeamsForUser ''user1'' (Inr [engineering]),
      EvGetTeamsForUser ''user2'' (Inr [engineering, sales]),
      EvGetChannelsForTeamForUser ''team2'' ''user2'' (Inr [partnerUpdates]),
      EvGetLastPostDateForUser ''user2'' ''bob.smith'' [''team2'']
        (Inr (Some 1730740800000000000))]"

text \<open>
  The same client when the lookup of the teams of the first guest, who is in
  Engineering only, fails.
\<close>

definition teamFilterFailure :: mockClient where
  "teamFilterFailure = teamFilterScenario\<lparr>teamsErr := [''user1'' \<mapsto> http500]\<rparr>"

text \<open>The calls of the run against this client with the filter \<open>Sales\<close>.\<close>

definition teamFilterFailureLog :: "Event list" where
  "teamFilterFailureLog =
     [EvGetTeamByName ''Sales'' (Inr sales),
      EvGetGuestUsers 0 200 (Inr [jane, bob]),
      EvGetTeamsForUser ''user1'' (Inl http500),
      EvGetTeamsForUser ''user2'' (Inr [engineering, sales]),
      EvGetChannelsForTeamForUser ''team2'' ''user2'' (Inr [partnerUpdates]),
      EvGetLastPostDateForUser ''user2'' ''bob.smith'' [''team2'']
        (Inr (Some 1730740800000000000))]"

text \<open>The basic scenario when the estimate of the last post of the first guest fails.\<close>

definition lastPostFailure :: mockClient where
  "lastPostFailure = basicScenario\<lparr>lastPostDateErr := [''user1'' \<mapsto> http500]\<rparr>"

text \<open>The calls of the run against this client without team filter.\<close>

definition lastPostFailureLog :: "Event list" where
  "lastPostFailureLog =
     [EvGetGuestUsers 0 200 (Inr [jane, bob, alice]),
      EvGetTeamsForUser ''user1'' (Inr [engineering]),
      EvGetChannelsForTeamForUser ''team1'' ''user1'' (Inr [general]),
      EvGetLastPostDateForUser ''user1'' ''jane.doe'' [''team1''] (Inl http500),
      EvGetTeamsForUser ''user2'' (Inr [engineering, sales]),
      EvGetChannelsForTeamForUser ''team1'' ''user2'' (Inr [general, devBackend]),
      EvGetChannelsForTeamForUser ''team2'' ''user2'' (Inr [partnerUpdates]),
      EvGetLastPostDateForUser ''user2'' ''bob.smith'' [''team1'', ''team2'']
        (Inr (Some 1730136000000000000)),
      EvGetTeamsForUser ''user3'' (Inr [engineering]),
      EvGetChannelsForTeamForUser ''team1'' ''user3'' (Inr [general]),
      EvGetLastPostDateForUser ''user3'' ''alice.jones'' [''team1''] (Inr None)]"

text \<open>A client whose guest listing fails.\<close>

definition listingFailure :: mockClient where
  "listingFailure = emptyMock\<lparr>guestsErr := Some http500\<rparr>"

text \<open>
  A client whose guest listing answers the first call with a full page and fails from
  the second call on; its state counts the listing calls.
\<close>

definition flakyListing :: "nat MattermostClient" where
  "flakyListing =
     \<lparr>GetGuestUsers = (\<lambda>page n calls.
        (if calls = 0 then Inr (replicate 200 jane) else Inl http500, Suc calls)),
      GetTeamByName = (\<lambda>name calls. (Inl http500, calls)),
      GetTeamsForUser = (\<lambda>userID calls. (Inr [engineering], calls)),
      GetChannelsForTeamForUser = (\<lambda>teamID userID calls. (Inr [general], calls)),
      GetLastPostDateForUser = (\<lambda>userID username teamIDs calls. (Inr None, calls))\<rparr>"

text \<open>
  The client of \<open>TestRunAudit_Pagination\<close>: 250 guests \<open>guest0\<close>, \<open>guest1\<close>, ...,
  each in one team with one channel.
\<close>

fun itoa :: "nat \<Rightarrow> string" where
  "itoa n = (if n < 10 then [''0123456789'' ! n]
             else itoa (n div 10) @ [''0123456789'' ! (n mod 10)])"

definition guestNo :: "nat \<Rightarrow> User" where
  "guestNo i = \<lparr>User_Id = ''user'' @ itoa i, User_Username = ''guest'' @ itoa i,
                User_FirstName = [], User_LastName = [],
                User_Email = ''guest'' @ itoa i @ ''@example.com'',
                User_CreateAt = 1709280000000, User_LastActivityAt = 0, User_DeleteAt = 0\<rparr>"

definition manyGuests :: mockClient where
  "manyGuests = emptyMock
     \<lparr>guests := map guestNo [0..<250],
      teams := (\<lambda>userID. Some [engineering]),
      channels := (\<lambda>key. Some [general])\<rparr>"

text \<open>The records and results that the runs of these clients produce.\<close>

definition engineeringInfo :: TeamInfo where
  "engineeringInfo = \<lparr>TeamInfo_ID = ''team1'', TeamInfo_DisplayName = ''Engineering''\<rparr>"

definition salesInfo :: TeamInfo where
  "salesInfo = \<lparr>TeamInfo_ID = ''team2'', TeamInfo_DisplayName = ''Sales''\<rparr>"

definition janeRecord :: GuestRecord where
  "janeRecord =
     \<lparr>Username = ''jane.doe'', DisplayName = ''Jane Doe'', Email = ''jane@example.com'',
      CreatedAt = Some 1709280000000000000, LastLogin = Some 1730568000000000000,
      LastPost = Some 1730827200000000000, Teams = [engineeringInfo],
      Channels = [\<lparr>TeamName = ''Engineering'', ChannelName = ''General''\<rparr>],
      Active = True, Inactive = False, Error = []\<rparr>"

definition bobRecord :: GuestRecord where
  "bobRecord =
     \<lparr>Username = ''bob.smith'', DisplayName = ''Bob Smith'', Email = ''bob@example.com'',
      CreatedAt = Some 1709280000000000000, LastLogin = Some 1730568000000000000,
      LastPost = Some 1730136000000000000, Teams = [engineeringInfo, salesInfo],
      Channels = [\<lparr>TeamName = ''Engineering'', ChannelName = ''General''\<rparr>,
                  \<lparr>TeamName = ''Engineering'', ChannelName = ''Dev Backend''\<rparr>,
                  \<lparr>TeamName = ''Sales'', ChannelName = ''Partner Updates''\<rparr>],
      Active = True, Inactive = False, Error = []\<rparr>"

definition bobSalesRecord :: GuestRecord where
  "bobSalesRecord =
     \<lparr>Username = ''bob.smith'', DisplayName = ''Bob Smith'', Email = ''bob@example.com'',
      CreatedAt = Some 1709280000000000000, LastLogin = Some 1730568000000000000,
      LastPost = Some 1730740800000000000, Teams = [salesInfo],
      Channels = [\<lparr>TeamName = ''Sales'', ChannelName = ''Partner Updates''\<rparr>],
      Active = True, Inactive = False, Error = []\<rparr>"

definition aliceRecord :: GuestRecord where
  "aliceRecord =
     \<lparr>Username = ''alice.jones'', DisplayName = ''Alice Jones'', Email = ''alice@example.com'',
      CreatedAt = Some 1709280000000000000, LastLogin = None, LastPost = None,
      Teams = [engineeringInfo],
      Channels = [\<lparr>TeamName = ''Engineering'', ChannelName = ''General''\<rparr>],
      Active = False, Inactive = False, Error = []\<rparr>"

definition janeStub :: GuestRecord where
  "janeStub =
     \<lparr>Username = ''jane.doe'', DisplayName = ''Jane Doe'', Email = ''jane@example.com'',
      CreatedAt = Some 1709280000000000000, LastLogin = None, LastPost = None,
      Teams = [], Channels = [], Active = True, Inactive = False,
      Error = ''failed to get teams: error: API request failed (HTTP 500)''\<rparr>"

definition bobStub :: GuestRecord where
  "bobStub =
     \<lparr>Username = ''bob.smith'', DisplayName = ''Bob Smith'', Email = ''bob@example.com'',
      CreatedAt = Some 1709280000000000000, LastLogin = None, LastPost = None,
      Teams = [], Channels = [], Active = True, Inactive = False,
      Error = ''failed to get teams: error: API request failed (HTTP 500)''\<rparr>"

text \<open>The basic scenario with a threshold of 30 days.\<close>

definition basicScenarioResult :: AuditResult where
  "basicScenarioResult =
     \<lparr>Guests = [janeRecord, bobRecord, aliceRecord\<lparr>Inactive := True\<rparr>],
      Summary = \<lparr>TotalGuests = 3, ActiveGuests = 2, InactiveGuests = 0,
                 DeactivatedGuests = 1, FailedLookups = 0\<rparr>,
      InactiveDays = 30\<rparr>"

definition partialFailureResult :: AuditResult where
  "partialFailureResult =
     \<lparr>Guests = [janeRecord\<lparr>LastPost := None\<rparr>, bobStub],
      Summary = \<lparr>TotalGuests = 2, ActiveGuests = 1, InactiveGuests = 0,
                 DeactivatedGuests = 0, FailedLookups = 1\<rparr>,
      InactiveDays = 0\<rparr>"

definition teamFilterResult :: AuditResult where
  "teamFilterResult =
     \<lparr>Guests = [bobSalesRecord],
      Summary = \<lparr>TotalGuests = 1, ActiveGuests = 1, InactiveGuests = 0,
                 DeactivatedGuests = 0, FailedLookups = 0\<rparr>,
      InactiveDays = 0\<rparr>"

definition teamFilterFailureResult :: AuditResult where
  "teamFilterFailureResult =
     \<lparr>Guests = [janeStub, bobSalesRecord],
      Summary = \<lparr>TotalGuests = 2, ActiveGuests = 1, InactiveGuests = 0,
                 DeactivatedGuests = 0, FailedLookups = 1\<rparr>,
      InactiveDays = 0\<rparr>"

definition lastPostFailureResult :: AuditResult where
  "lastPostFailureResult =
     \<lparr>Guests = [janeRecord\<lparr>LastPost := None\<rparr>, bobRecord, aliceRecord],
      Summary = \<lparr>TotalGuests = 3, ActiveGuests = 2, InactiveGuests = 0,
                 DeactivatedGuests = 1, FailedLookups = 0\<rparr>,
      InactiveDays = 0\<rparr>"

text \<open>
  An operating system for \<open>WriteOutput\<close>: its state is the text on the standard
  output and the files with their contents. No file can be created under
  \<open>/readonly/\<close>. Each renderer writes the name of its format.
\<close>

definition demoWrite ::
  "string \<Rightarrow> string Writer \<Rightarrow> string \<times> (string \<times> string) list
     \<Rightarrow> string option \<times> string \<times> (string \<times> string) list" where
  "demoWrite txt w world =
     (case w of
        Stdout \<Rightarrow> (None, (fst world @ txt, snd world))
      | FileWriter path \<Rightarrow>
          (None, (fst world, map (\<lambda>(p, c). if p = path then (p, c @ txt) else (p, c))
                               (snd world))))"

definition demoEnv :: "(string, string \<times> (string \<times> string) list) OutputEnv" where
  "demoEnv =
     \<lparr>os_Create = (\<lambda>path world.
        if take 10 path = ''/readonly/''
        then (Inl (''open '' @ path @ '': permission denied''), world)
        else (Inr path, (fst world, (path, []) # filter (\<lambda>(p, c). p \<noteq> path) (snd world)))),
      file_Close = (\<lambda>f world. world),
      writeTable = (\<lambda>w result. demoWrite ''table'' w),
      writeCSV = (\<lambda>w result. demoWrite ''csv'' w),
      writeJSON = (\<lambda>w result. demoWrite ''json'' w)\<rparr>"

section \<open>The inactivity classifier\<close>



section \<open>Evaluating the examples\<close>

lemmas audit_defs =
  RunAudit_def resolveTeamFilter_def fetchGuests.simps processGuest_def perPage_def
  emptySummary_def IsInactive_def AddDays_def Before_def nsPerDay_def MillisToTime_def
  BuildDisplayName_def stubRecord_def Let_def
  ExitSuccess_def ExitConfigError_def ExitAPIError_def ExitPartialFailure_def

lemmas mock_defs =
  mockAsClient_def mock_GetGuestUsers_def mock_GetTeamByName_def mock_GetTeamsForUser_def
  mock_GetChannelsForTeamForUser_def mock_GetLastPostDateForUser_def emptyMock_def
  jane_def bob_def alice_def engineering_def sales_def general_def devBackend_def
  partnerUpdates_def http500_def nowMillis_def startTime_def

lemmas record_defs =
  engineeringInfo_def salesInfo_def janeRecord_def bobRecord_def bobSalesRecord_def
  aliceRecord_def janeStub_def bobStub_def

section \<open>Records and errors of the guest loop\<close>

lemma getChannels_Inl_nonempty:
  "getChannels client userID tis chs ids s = (Inl err, s') \<Longrightarrow> err \<noteq> []"
  by (induction tis arbitrary: chs ids s) (auto split: prod.splits sum.splits)

lemma processGuest_Inl_nonempty:
  "processGuest time_Now client u filterTeamID inactiveDays verbose s = (Inl err, s') \<Longrightarrow> err \<noteq> []"
  by (auto simp: processGuest_def Let_def split: prod.splits sum.splits if_splits
      dest: getChannels_Inl_nonempty)

lemma processGuest_record_no_error:
  "processGuest time_Now client u filterTeamID inactiveDays verbose s = (Inr (Some record), s')
     \<Longrightarrow> Error record = []"
  by (auto simp: processGuest_def Let_def split: prod.splits sum.splits if_splits)

lemma processGuests_invariant:
  "processGuests time_Now client filterTeamID inactiveDays verbose us result exitCode s
     = ((result', exitCode'), s')
   \<Longrightarrow> \<exists>recs. Guests result' = Guests result @ recs
        \<and> InactiveDays result' = InactiveDays result
        \<and> Summary result' = (Summary result)
             \<lparr>FailedLookups := FailedLookups (Summary result) + errorCount recs\<rparr>
        \<and> exitCode' = (if errorCount recs = 0 then exitCode else ExitPartialFailure)"
proof (induction us arbitrary: result exitCode s)
  case Nil
  then show ?case by (simp add: errorCount_def)
next
  case (Cons u us)
  show ?case
  proof (cases "processGuest time_Now client u filterTeamID inactiveDays verbose s")
    case (Pair out s1)
    show ?thesis
    proof (cases out)
      case (Inl err)
      with Pair Cons.prems have run:
        "processGuests time_Now client filterTeamID inactiveDays verbose us
            (result\<lparr>Guests := Guests result @ [stubRecord u err],
                    Summary := (Summary result)
                      \<lparr>FailedLookups := FailedLookups (Summary result) + 1\<rparr>\<rparr>)
            ExitPartialFailure s1 = ((result', exitCode'), s')"
        by simp
      from Pair Inl have ne: "err \<noteq> []" by (auto dest: processGuest_Inl_nonempty)
      from Cons.IH [OF run] obtain recs where
        "Guests result' = (Guests result @ [stubRecord u err]) @ recs"
        "InactiveDays result' = InactiveDays result"
        "Summary result' = (Summary result)
             \<lparr>FailedLookups := FailedLookups (Summary result) + 1 + errorCount recs\<rparr>"
        "exitCode' = ExitPartialFailure"
        by auto
      with ne show ?thesis
        by (intro exI [of _ "stubRecord u err # recs"]) (simp add: errorCount_def stubRecord_def)
    next
      case (Inr opt)
      show ?thesis
      proof (cases opt)
        case None
        with Pair Inr Cons.prems have
          "processGuests time_Now client filterTeamID inactiveDays verbose us result exitCode s1
             = ((result', exitCode'), s')"
          by simp
        then show ?thesis by (rule Cons.IH)
      next
        case (Some g)
        with Pair Inr Cons.prems have run:
          "processGuests time_Now client filterTeamID inactiveDays verbose us
             (result\<lparr>Guests := Guests result @ [g]\<rparr>) exitCode s1
             = ((result', exitCode'), s')"
          by simp
        from Pair Inr Some have ne: "Error g = []"
          by (auto dest: processGuest_record_no_error)
        from Cons.IH [OF run] obtain recs where
          "Guests result' = (Guests result @ [g]) @ recs"
          "InactiveDays result' = InactiveDays result"
          "Summary result' = (Summary result)
             \<lparr>FailedLookups := FailedLookups (Summary result) + errorCount recs\<rparr>"
          "exitCode' = (if errorCount recs = 0 then exitCode else ExitPartialFailure)"
          by auto
        with ne show ?thesis
          by (intro exI [of _ "g # recs"]) (simp add: errorCount_def)
      qed
    qed
  qed
qed

lemma calcSummary_counts:
  "FailedLookups (calcSummary gs summary) = FailedLookups summary
   \<and> DeactivatedGuests (calcSummary gs summary)
       = DeactivatedGuests summary + int (length [g\<leftarrow>gs. Error g = [] \<and> \<not> Active g])
   \<and> InactiveGuests (calcSummary gs summary)
       = InactiveGuests summary + int (length [g\<leftarrow>gs. Error g = [] \<and> Active g \<and> Inactive g])
   \<and> ActiveGuests (calcSummary gs summary)
       = ActiveGuests summary
         + int (length [g\<leftarrow>gs. Error g = [] \<and> Active g \<and> \<not> Inactive g])"
  by (induction gs arbitrary: summary) simp_all

lemma bucket_partition:
  "length gs = length [g\<leftarrow>gs. Error g = [] \<and> Active g \<and> \<not> Inactive g]
     + length [g\<leftarrow>gs. Error g = [] \<and> Active g \<and> Inactive g]
     + length [g\<leftarrow>gs. Error g = [] \<and> \<not> Active g]
     + length [g\<leftarrow>gs. Error g \<noteq> []]"
  by (induction gs) auto

section \<open>The summary\<close>

text \<open>
  C1. After every run of the audit that produces a result, the total of the summary is
  the sum of the active, inactive, deactivated and failed counts. The total counts
  every record; the failed count counts the records that carry an error description,
  and no other count does; a record without error counts in exactly one of the other
  three: deactivated when the account is not enabled, else inactive when it is flagged
  inactive, else active.
\<close>

theorem summary_invariant:
  assumes "RunAudit time_Now client teamFilter inactiveDays verbose s
             = Some ((Some result, exitCode), s')"
  shows "TotalGuests (Summary result)
           = ActiveGuests (Summary result) + InactiveGuests (Summary result)
             + DeactivatedGuests (Summary result) + FailedLookups (Summary result)
     \<and> TotalGuests (Summary result) = int (length (Guests result))
     \<and> FailedLookups (Summary result) = int (length [g\<leftarrow>Guests result. Error g \<noteq> []])
     \<and> DeactivatedGuests (Summary result)
         = int (length [g\<leftarrow>Guests result. Error g = [] \<and> \<not> Active g])
     \<and> InactiveGuests (Summary result)
         = int (length [g\<leftarrow>Guests result. Error g = [] \<and> Active g \<and> Inactive g])
     \<and> ActiveGuests (Summary result)
         = int (length [g\<leftarrow>Guests result. Error g = [] \<and> Active g \<and> \<not> Inactive g])"
proof -
  from assms obtain filterTeamID allGuests s2 result0 where
    loop: "processGuests time_Now client filterTeamID inactiveDays verbose allGuests
             \<lparr>Guests = [], Summary = emptySummary, InactiveDays = inactiveDays\<rparr>
             ExitSuccess s2 = ((result0, exitCode), s')"
    and res: "result = result0\<lparr>Summary := (calcSummary (Guests result0) (Summary result0))
                \<lparr>TotalGuests := int (length (Guests result0))\<rparr>\<rparr>"
    by (auto simp: RunAudit_def Let_def split: prod.splits sum.splits option.splits)
  from processGuests_invariant [OF loop] have
    failed: "Summary result0 = emptySummary\<lparr>FailedLookups := errorCount (Guests result0)\<rparr>"
    by (auto simp: emptySummary_def)
  have parts: "FailedLookups (Summary result) = errorCount (Guests result)"
    "DeactivatedGuests (Summary result)
       = int (length [g\<leftarrow>Guests result. Error g = [] \<and> \<not> Active g])"
    "InactiveGuests (Summary result)
       = int (length [g\<leftarrow>Guests result. Error g = [] \<and> Active g \<and> Inactive g])"
    "ActiveGuests (Summary result)
       = int (length [g\<leftarrow>Guests result. Error g = [] \<and> Active g \<and> \<not> Inactive g])"
    "TotalGuests (Summary result) = int (length (Guests result))"
    using calcSummary_counts [of "Guests result0" "Summary result0"]
    by (simp_all add: res failed emptySummary_def)
  from parts bucket_partition [of "Guests result"] show ?thesis
    by (simp add: errorCount_def)
qed

theorem summary_invariant_witness:
  "RunAudit (\<lambda>s. s) (mockAsClient basicScenario) [] 30 False startTime
     = Some ((Some basicScenarioResult, ExitSuccess), startTime)
   \<and> TotalGuests (Summary basicScenarioResult)
       = ActiveGuests (Summary basicScenarioResult)
         + InactiveGuests (Summary basicScenarioResult)
         + DeactivatedGuests (Summary basicScenarioResult)
         + FailedLookups (Summary basicScenarioResult)
   \<and> TotalGuests (Summary basicScenarioResult) = int (length (Guests basicScenarioResult))
   \<and> FailedLookups (Summary basicScenarioResult)
       = int (length [g\<leftarrow>Guests basicScenarioResult. Error g \<noteq> []])
   \<and> DeactivatedGuests (Summary basicScenarioResult)
       = int (length [g\<leftarrow>Guests basicScenarioResult. Error g = [] \<and> \<not> Active g])
   \<and> InactiveGuests (Summary basicScenarioResult)
       = int (length [g\<leftarrow>Guests basicScenarioResult.
                       Error g = [] \<and> Active g \<and> Inactive g])
   \<and> ActiveGuests (Summary basicScenarioResult)
       = int (length [g\<leftarrow>Guests basicScenarioResult.
                       Error g = [] \<and> Active g \<and> \<not> Inactive g])"
proof -
  have run: "RunAudit (\<lambda>s. s) (mockAsClient basicScenario) [] 30 False startTime
               = Some ((Some basicScenarioResult, ExitSuccess), startTime)"
    by (simp add: audit_defs mock_defs record_defs basicScenario_def basicScenarioResult_def)
  from run summary_invariant [OF run] show ?thesis by (rule conjI)
qed

section \<open>Pagination\<close>

lemma fetchGuests_fullPages:
  "fullPages client k page s = Some (users, s1)
     \<Longrightarrow> fetchGuests client page acc s = fetchGuests client (page + int k) (acc @ users) s1"
proof (induction k arbitrary: page acc s users)
  case 0
  then show ?case by simp
next
  case (Suc k)
  from Suc.prems obtain first s0 rest where
    call: "GetGuestUsers client page perPage s = (Inr first, s0)"
    and full: "\<not> int (length first) < perPage"
    and rest: "fullPages client k (page + 1) s0 = Some (rest, s1)"
    and users: "users = first @ rest"
    by (auto split: prod.splits sum.splits if_splits option.splits)
  have "fetchGuests client page acc s = fetchGuests client (page + 1) (acc @ first) s0"
    using call full by (subst fetchGuests.simps) simp
  also have "\<dots> = fetchGuests client (page + 1 + int k) ((acc @ first) @ rest) s1"
    by (rule Suc.IH [OF rest])
  finally show ?case by (simp add: users add.assoc)
qed

lemma fetchGuests_failing_page:
  assumes "fullPages client k page s = Some (users, s1)"
    and "GetGuestUsers client (page + int k) perPage s1 = (Inl err, s2)"
  shows "fetchGuests client page acc s = Some (Inl err, s2)"
  using assms(2) by (subst fetchGuests_fullPages [OF assms(1)], subst fetchGuests.simps) simp

lemma fetchGuests_short_page:
  assumes "fullPages client k page s = Some (users, s1)"
    and "GetGuestUsers client (page + int k) perPage s1 = (Inr lastPage, s2)"
    and "int (length lastPage) < perPage"
  shows "fetchGuests client page acc s = Some (Inr (acc @ users @ lastPage), s2)"
  using assms(2,3) by (subst fetchGuests_fullPages [OF assms(1)], subst fetchGuests.simps) simp

lemma failing_page_aborts_run:
  assumes "resolveTeamFilter client teamFilter s = (Inr filterTeamID, s1)"
    and "fullPages client k 0 s1 = Some (users, s2)"
    and "GetGuestUsers client (int k) perPage s2 = (Inl err, s3)"
  shows "RunAudit time_Now client teamFilter inactiveDays verbose s
           = Some ((None, ExitAPIError), s3)"
  using assms(1) fetchGuests_failing_page [OF assms(2), of err s3 "[]"] assms(3)
  by (simp add: RunAudit_def)

section \<open>The calls of a run\<close>

lemma logged_calls:
  "GetGuestUsers (logged client) page n (s, log) =
     (case GetGuestUsers client page n s of
        (r, s') \<Rightarrow> (r, (s', log @ [EvGetGuestUsers page n r])))"
  "GetTeamByName (logged client) name (s, log) =
     (case GetTeamByName client name s of
        (r2, s') \<Rightarrow> (r2, (s', log @ [EvGetTeamByName name r2])))"
  "GetTeamsForUser (logged client) userID (s, log) =
     (case GetTeamsForUser client userID s of
        (r3, s') \<Rightarrow> (r3, (s', log @ [EvGetTeamsForUser userID r3])))"
  "GetChannelsForTeamForUser (logged client) teamID userID (s, log) =
     (case GetChannelsForTeamForUser client teamID userID s of
        (r4, s') \<Rightarrow> (r4, (s', log @ [EvGetChannelsForTeamForUser teamID userID r4])))"
  "GetLastPostDateForUser (logged client) userID username teamIDs (s, log) =
     (case GetLastPostDateForUser client userID username teamIDs s of
        (r5, s') \<Rightarrow> (r5, (s', log @ [EvGetLastPostDateForUser userID username teamIDs r5])))"
  by (simp_all add: logged_def)

lemma getChannels_logged:
  "getChannels (logged client) userID tis chs ids (s, log) = (r, (s', log'))
   \<Longrightarrow> \<exists>es. log' = log @ es \<and> filter isGetGuestUsers es = []
        \<and> (case r of
             Inl e \<Rightarrow> (\<exists>teamID m. filter failedEv es
                                     = [EvGetChannelsForTeamForUser teamID userID (Inl m)])
           | Inr x \<Rightarrow> filter failedEv es = [])"
proof (induction tis arbitrary: chs ids s log)
  case Nil
  then show ?case by auto
next
  case (Cons ti tis)
  show ?case
  proof (cases "GetChannelsForTeamForUser client (TeamInfo_ID ti) userID s")
    case (Pair out s1)
    show ?thesis
    proof (cases out)
      case (Inl m)
      with Pair Cons.prems show ?thesis
        by (intro exI [of _ "[EvGetChannelsForTeamForUser (TeamInfo_ID ti) userID (Inl m)]"])
           (auto simp: logged_calls)
    next
      case (Inr found)
      let ?ev = "EvGetChannelsForTeamForUser (TeamInfo_ID ti) userID (Inr found)"
      from Pair Inr Cons.prems have
        "getChannels (logged client) userID tis
           (chs @ map (\<lambda>ch. \<lparr>TeamName = TeamInfo_DisplayName ti,
                               ChannelName = Channel_DisplayName ch\<rparr>) found)
           (ids @ [TeamInfo_ID ti]) (s1, log @ [?ev]) = (r, (s', log'))"
        by (simp add: logged_calls)
      from Cons.IH [OF this] obtain es where
        "log' = (log @ [?ev]) @ es" "filter isGetGuestUsers es = []"
        "case r of
           Inl e \<Rightarrow> (\<exists>teamID m. filter failedEv es
                                   = [EvGetChannelsForTeamForUser teamID userID (Inl m)])
         | Inr x \<Rightarrow> filter failedEv es = []"
        by blast
      then show ?thesis
        by (intro exI [of _ "?ev # es"]) (auto split: sum.splits)
    qed
  qed
qed

lemma processGuest_logged:
  assumes "processGuest time_Now (logged client) u filterTeamID inactiveDays verbose (s, log)
             = (r, (s', log'))"
  shows "\<exists>es. log' = log @ es \<and> filter isGetGuestUsers es = []
        \<and> (case r of
             Inl e \<Rightarrow>
               (\<exists>m. filter failedEv es = [EvGetTeamsForUser (User_Id u) (Inl m)]
                     \<and> e = ''failed to get teams: '' @ m)
               \<or> (\<exists>teamID m. filter failedEv es
                                 = [EvGetChannelsForTeamForUser teamID (User_Id u) (Inl m)])
           | Inr x \<Rightarrow> (\<forall>ev\<in>set (filter failedEv es). isGetLastPostDateForUser ev))"
proof (cases "GetTeamsForUser client (User_Id u) s")
  case (Pair out s1)
  show ?thesis
  proof (cases out)
    case (Inl m)
    with Pair assms show ?thesis
      by (intro exI [of _ "[EvGetTeamsForUser (User_Id u) (Inl m)]"])
         (auto simp: processGuest_def logged_calls)
  next
    case (Inr found)
    let ?ev = "EvGetTeamsForUser (User_Id u) (Inr found)"
    let ?tis = "filterTeams filterTeamID found"
    show ?thesis
    proof (cases "filterTeamID \<noteq> [] \<and> length ?tis = 0")
      case True
      with Pair Inr assms show ?thesis
        by (intro exI [of _ "[?ev]"]) (auto simp: processGuest_def logged_calls)
    next
      case False
      obtain rc s2 log2 where
        ch: "getChannels (logged client) (User_Id u) ?tis [] [] (s1, log @ [?ev])
               = (rc, (s2, log2))"
        by (metis surj_pair)
      from getChannels_logged [OF ch] obtain es where
        es: "log2 = (log @ [?ev]) @ es" "filter isGetGuestUsers es = []"
        "case rc of
           Inl e \<Rightarrow> (\<exists>teamID m. filter failedEv es
                                   = [EvGetChannelsForTeamForUser teamID (User_Id u) (Inl m)])
         | Inr x \<Rightarrow> filter failedEv es = []"
        by blast
      show ?thesis
      proof (cases rc)
        case (Inl e)
        with Pair Inr False ch assms es show ?thesis
          by (intro exI [of _ "?ev # es"])
             (auto simp: processGuest_def logged_calls Let_def)
      next
        case (Inr pair)
        obtain channels0 teamIDs where pair: "pair = (channels0, teamIDs)"
          by (cases pair)
        show ?thesis
        proof (cases "length teamIDs > 0")
          case no_ids: False
          with Pair \<open>out = Inr found\<close> False ch assms es Inr pair show ?thesis
            by (intro exI [of _ "?ev # es"])
               (auto simp: processGuest_def logged_calls Let_def)
        next
          case ids: True
          obtain rp s3 where
            lp: "GetLastPostDateForUser client (User_Id u) (User_Username u) teamIDs s2
                   = (rp, s3)"
            by (cases "GetLastPostDateForUser client (User_Id u) (User_Username u) teamIDs s2")
          let ?lp = "EvGetLastPostDateForUser (User_Id u) (User_Username u) teamIDs rp"
          from Pair \<open>out = Inr found\<close> False ch assms es Inr pair ids lp show ?thesis
            by (intro exI [of _ "?ev # es @ [?lp]"])
               (auto simp: processGuest_def logged_calls Let_def split: sum.splits)
        qed
      qed
    qed
  qed
qed

lemma listedGuests_append: "listedGuests (es @ es') = listedGuests es @ listedGuests es'"
  by (induction es rule: listedGuests.induct) simp_all

lemma listedGuests_no_listing: "filter isGetGuestUsers es = [] \<Longrightarrow> listedGuests es = []"
  by (induction es rule: listedGuests.induct) (simp_all split: if_splits)

lemma fatalEv_filter: "filter fatalEv es = filter (\<lambda>ev. \<not> isGetLastPostDateForUser ev) (filter failedEv es)"
  by (induction es) (auto simp: fatalEv_def)

lemma fetchGuests_logged_aux:
  "fetchGuests client page acc w = Some y
   \<Longrightarrow> \<forall>c s log r s' log'. client = logged c \<longrightarrow> w = (s, log) \<longrightarrow> y = (r, (s', log')) \<longrightarrow>
        (\<exists>es. log' = log @ es \<and> es \<noteq> [] \<and> (\<forall>ev\<in>set es. isGetGuestUsers ev)
           \<and> filter failedEv (butlast es) = []
           \<and> (case r of
                Inl e \<Rightarrow> failedEv (last es)
              | Inr gs \<Rightarrow> \<not> failedEv (last es) \<and> gs = acc @ listedGuests es))"
proof (induction client page acc w y rule: fetchGuests.raw_induct [rotated 1, consumes 1])
  case (1 fetch client page acc w y)
  show ?case
  proof (intro allI impI)
    fix c s log r s' log'
    assume cl: "client = logged c" and w: "w = (s, log)" and y: "y = (r, (s', log'))"
    obtain out s1 where call: "GetGuestUsers c page perPage s = (out, s1)"
      by (cases "GetGuestUsers c page perPage s")
    let ?ev = "EvGetGuestUsers page perPage out"
    show "\<exists>es. log' = log @ es \<and> es \<noteq> [] \<and> (\<forall>ev\<in>set es. isGetGuestUsers ev)
           \<and> filter failedEv (butlast es) = []
           \<and> (case r of
                Inl e \<Rightarrow> failedEv (last es)
              | Inr gs \<Rightarrow> \<not> failedEv (last es) \<and> gs = acc @ listedGuests es)"
    proof (cases out)
      case (Inl e)
      with 1(2) cl w y call show ?thesis
        by (intro exI [of _ "[?ev]"]) (auto simp: logged_calls)
    next
      case (Inr users)
      show ?thesis
      proof (cases "int (length users) < perPage")
        case True
        with Inr 1(2) cl w y call show ?thesis
          by (intro exI [of _ "[?ev]"]) (auto simp: logged_calls)
      next
        case False
        with Inr 1(2) cl w y call have step:
          "fetch (logged c) (page + 1) (acc @ users) (s1, log @ [?ev]) = Some (r, (s', log'))"
          by (simp add: logged_calls)
        from 1(1) [OF step] obtain es where
          es: "log' = (log @ [?ev]) @ es" "es \<noteq> []" "\<forall>ev\<in>set es. isGetGuestUsers ev"
          "filter failedEv (butlast es) = []"
          "case r of
             Inl e \<Rightarrow> failedEv (last es)
           | Inr gs \<Rightarrow> \<not> failedEv (last es) \<and> gs = (acc @ users) @ listedGuests es"
          by (elim allE [of _ c] allE [of _ s1] allE [of _ "log @ [?ev]"] allE [of _ r]
                allE [of _ s'] allE [of _ log']) auto
        with Inr show ?thesis
          by (intro exI [of _ "?ev # es"]) (auto split: sum.splits)
      qed
    qed
  qed
qed

lemma fetchGuests_logged:
  assumes "fetchGuests (logged client) page acc (s, log) = Some (r, (s', log'))"
  shows "\<exists>es. log' = log @ es \<and> es \<noteq> [] \<and> (\<forall>ev\<in>set es. isGetGuestUsers ev)
           \<and> filter failedEv (butlast es) = []
           \<and> (case r of
                Inl e \<Rightarrow> failedEv (last es)
              | Inr gs \<Rightarrow> \<not> failedEv (last es) \<and> gs = acc @ listedGuests es)"
  using fetchGuests_logged_aux [OF assms] by blast

lemma processGuest_record_fields:
  "processGuest time_Now client u filterTeamID inactiveDays verbose s = (Inr (Some g), s')
     \<Longrightarrow> Username g = User_Username u \<and> Error g = []"
  by (auto simp: processGuest_def Let_def split: prod.splits sum.splits if_splits)

lemma processGuest_no_filter:
  "processGuest time_Now client u [] inactiveDays verbose s \<noteq> (Inr None, s')"
  by (auto simp: processGuest_def Let_def split: prod.splits sum.splits if_splits)

lemma fatalEv_single:
  assumes "filter failedEv es = [ev]" and "\<not> isGetLastPostDateForUser ev"
  shows "filter fatalEv es = [ev]"
proof -
  have "filter fatalEv es = filter (\<lambda>ev. \<not> isGetLastPostDateForUser ev) (filter failedEv es)"
    by (rule fatalEv_filter)
  also have "\<dots> = filter (\<lambda>ev. \<not> isGetLastPostDateForUser ev) [ev]"
    by (simp only: assms(1))
  also have "\<dots> = [ev]" using assms(2) by simp
  finally show ?thesis .
qed

lemma fatal_of_outcome:
  assumes "case r of
             Inl e \<Rightarrow>
               (\<exists>m. filter failedEv es = [EvGetTeamsForUser userID (Inl m)]
                     \<and> e = ''failed to get teams: '' @ m)
               \<or> (\<exists>teamID m. filter failedEv es
                                 = [EvGetChannelsForTeamForUser teamID userID (Inl m)])
           | Inr x \<Rightarrow> (\<forall>ev\<in>set (filter failedEv es). isGetLastPostDateForUser ev)"
  shows "case r of
           Inl e \<Rightarrow>
             (\<exists>m. filter fatalEv es = [EvGetTeamsForUser userID (Inl m)]
                   \<and> e = ''failed to get teams: '' @ m)
             \<or> (\<exists>teamID m. filter fatalEv es
                               = [EvGetChannelsForTeamForUser teamID userID (Inl m)])
         | Inr x \<Rightarrow> filter fatalEv es = []"
proof (cases r)
  case (Inl e)
  with assms consider
    (teams) m where "filter failedEv es = [EvGetTeamsForUser userID (Inl m)]"
      "e = ''failed to get teams: '' @ m"
    | (chans) teamID m where
      "filter failedEv es = [EvGetChannelsForTeamForUser teamID userID (Inl m)]"
    by auto
  then show ?thesis
  proof cases
    case teams
    from teams(1) have "filter fatalEv es = [EvGetTeamsForUser userID (Inl m)]"
      by (rule fatalEv_single) simp
    with Inl teams(2) show ?thesis by simp
  next
    case chans
    from chans have "filter fatalEv es = [EvGetChannelsForTeamForUser teamID userID (Inl m)]"
      by (rule fatalEv_single) simp
    with Inl show ?thesis by simp
  qed
next
  case (Inr x)
  with assms have "\<forall>ev\<in>set (filter failedEv es). isGetLastPostDateForUser ev" by simp
  then have "filter (\<lambda>ev. \<not> isGetLastPostDateForUser ev) (filter failedEv es) = []"
    by (simp only: filter_empty_conv) blast
  then have "filter fatalEv es = []" by (simp only: fatalEv_filter)
  with Inr show ?thesis by simp
qed

lemma processGuests_logged:
  "processGuests time_Now (logged client) filterTeamID inactiveDays verbose us result exitCode
       (s, log) = ((result', exitCode'), (s', log'))
   \<Longrightarrow> \<exists>es recs. log' = log @ es \<and> filter isGetGuestUsers es = []
        \<and> Guests result' = Guests result @ recs
        \<and> (filterTeamID = [] \<longrightarrow> map Username recs = map User_Username us)
        \<and> (filter fatalEv es = [] \<longrightarrow> (\<forall>g\<in>set recs. Error g = []))
        \<and> (filterTeamID = [] \<longrightarrow>
             (\<forall>userID m. filter fatalEv es = [EvGetTeamsForUser userID (Inl m)] \<longrightarrow>
                (\<exists>i<length us. User_Id (us ! i) = userID
                   \<and> recs ! i = stubRecord (us ! i) (''failed to get teams: '' @ m)
                   \<and> (\<forall>j<length us. j \<noteq> i \<longrightarrow> Error (recs ! j) = []))))"
proof (induction us arbitrary: result exitCode s log)
  case Nil
  then show ?case by auto
next
  case (Cons u us)
  obtain out s1 log1 where
    pg: "processGuest time_Now (logged client) u filterTeamID inactiveDays verbose (s, log)
           = (out, (s1, log1))"
    by (metis surj_pair)
  from processGuest_logged [OF pg] obtain es1 where
    es1: "log1 = log @ es1" "filter isGetGuestUsers es1 = []"
    and "case out of
           Inl e \<Rightarrow>
             (\<exists>m. filter failedEv es1 = [EvGetTeamsForUser (User_Id u) (Inl m)]
                   \<and> e = ''failed to get teams: '' @ m)
             \<or> (\<exists>teamID m. filter failedEv es1
                               = [EvGetChannelsForTeamForUser teamID (User_Id u) (Inl m)])
         | Inr x \<Rightarrow> (\<forall>ev\<in>set (filter failedEv es1). isGetLastPostDateForUser ev)"
    by blast
  from fatal_of_outcome [OF this(3)] have
    fatal: "case out of
           Inl e \<Rightarrow>
             (\<exists>m. filter fatalEv es1 = [EvGetTeamsForUser (User_Id u) (Inl m)]
                   \<and> e = ''failed to get teams: '' @ m)
             \<or> (\<exists>teamID m. filter fatalEv es1
                               = [EvGetChannelsForTeamForUser teamID (User_Id u) (Inl m)])
         | Inr x \<Rightarrow> filter fatalEv es1 = []" .
  show ?case
  proof (cases out)
    case (Inl e)
    let ?result1 = "result\<lparr>Guests := Guests result @ [stubRecord u e],
                    Summary := (Summary result)
                      \<lparr>FailedLookups := FailedLookups (Summary result) + 1\<rparr>\<rparr>"
    from Inl pg Cons.prems have
      "processGuests time_Now (logged client) filterTeamID inactiveDays verbose us ?result1
         ExitPartialFailure (s1, log1) = ((result', exitCode'), (s', log'))"
      by simp
    from Cons.IH [OF this] obtain es recs where
      ih: "log' = log1 @ es" "filter isGetGuestUsers es = []"
      "Guests result' = Guests ?result1 @ recs"
      "filterTeamID = [] \<longrightarrow> map Username recs = map User_Username us"
      "filter fatalEv es = [] \<longrightarrow> (\<forall>g\<in>set recs. Error g = [])"
      by blast
    from fatal Inl obtain ev where ev: "filter fatalEv es1 = [ev]" by auto
    have one: "\<exists>i<length (u # us). User_Id ((u # us) ! i) = userID
                   \<and> (stubRecord u e # recs) ! i
                       = stubRecord ((u # us) ! i) (''failed to get teams: '' @ m)
                   \<and> (\<forall>j<length (u # us). j \<noteq> i \<longrightarrow> Error ((stubRecord u e # recs) ! j) = [])"
      if none: "filterTeamID = []"
        and only: "filter fatalEv (es1 @ es) = [EvGetTeamsForUser userID (Inl m)]"
      for userID m
    proof -
      from only ev have first: "filter fatalEv es1 = [EvGetTeamsForUser userID (Inl m)]"
        and rest: "filter fatalEv es = []"
        by auto
      from first fatal Inl have "userID = User_Id u" "e = ''failed to get teams: '' @ m"
        by auto
      moreover from rest ih(5) have "\<forall>g\<in>set recs. Error g = []" by simp
      moreover from none ih(4) have "length recs = length us"
        by (metis length_map)
      ultimately show ?thesis
        by (intro exI [of _ 0]) (auto simp: nth_Cons split: nat.splits)
    qed
    from es1 ih ev show ?thesis
      by (intro exI [of _ "es1 @ es"] exI [of _ "stubRecord u e # recs"])
         (use one in \<open>auto simp: stubRecord_def\<close>)
  next
    case (Inr opt)
    with fatal have nofatal: "filter fatalEv es1 = []" by simp
    show ?thesis
    proof (cases opt)
      case None
      with Inr pg Cons.prems have run:
        "processGuests time_Now (logged client) filterTeamID inactiveDays verbose us result
           exitCode (s1, log1) = ((result', exitCode'), (s', log'))"
        by simp
      from None Inr pg have filt: "filterTeamID \<noteq> []"
        using processGuest_no_filter by metis
      from Cons.IH [OF run] obtain es recs where
        ih: "log' = log1 @ es" "filter isGetGuestUsers es = []"
        "Guests result' = Guests result @ recs"
        "filter fatalEv es = [] \<longrightarrow> (\<forall>g\<in>set recs. Error g = [])"
        by blast
      with es1 nofatal filt show ?thesis
        by (intro exI [of _ "es1 @ es"] exI [of _ recs]) auto
    next
      case (Some g)
      let ?result1 = "result\<lparr>Guests := Guests result @ [g]\<rparr>"
      from Some Inr pg Cons.prems have run:
        "processGuests time_Now (logged client) filterTeamID inactiveDays verbose us ?result1
           exitCode (s1, log1) = ((result', exitCode'), (s', log'))"
        by simp
      from Some Inr pg have g: "Username g = User_Username u" "Error g = []"
        using processGuest_record_fields by metis+
      from Cons.IH [OF run] obtain es recs where
        ih: "log' = log1 @ es" "filter isGetGuestUsers es = []"
        "Guests result' = Guests ?result1 @ recs"
        "filterTeamID = [] \<longrightarrow> map Username recs = map User_Username us"
        "filter fatalEv es = [] \<longrightarrow> (\<forall>g\<in>set recs. Error g = [])"
        "filterTeamID = [] \<longrightarrow>
             (\<forall>userID m. filter fatalEv es = [EvGetTeamsForUser userID (Inl m)] \<longrightarrow>
                (\<exists>i<length us. User_Id (us ! i) = userID
                   \<and> recs ! i = stubRecord (us ! i) (''failed to get teams: '' @ m)
                   \<and> (\<forall>j<length us. j \<noteq> i \<longrightarrow> Error (recs ! j) = [])))"
        by blast
      have one: "\<exists>i<length (u # us). User_Id ((u # us) ! i) = userID
                   \<and> (g # recs) ! i
                       = stubRecord ((u # us) ! i) (''failed to get teams: '' @ m)
                   \<and> (\<forall>j<length (u # us). j \<noteq> i \<longrightarrow> Error ((g # recs) ! j) = [])"
        if none: "filterTeamID = []"
          and only: "filter fatalEv (es1 @ es) = [EvGetTeamsForUser userID (Inl m)]"
        for userID m
      proof -
        from only nofatal have "filter fatalEv es = [EvGetTeamsForUser userID (Inl m)]"
          by simp
        with none ih(6) obtain i where
          i: "i < length us" "User_Id (us ! i) = userID"
          "recs ! i = stubRecord (us ! i) (''failed to get teams: '' @ m)"
          "\<forall>j<length us. j \<noteq> i \<longrightarrow> Error (recs ! j) = []"
          by blast
        with g show ?thesis
          by (intro exI [of _ "Suc i"]) (auto simp: nth_Cons split: nat.splits)
      qed
      from es1 ih(1-5) nofatal g show ?thesis
        by (intro exI [of _ "es1 @ es"] exI [of _ "g # recs"]) (use one in auto)
    qed
  qed
qed

lemma filter_single_index:
  assumes "i < length xs" and "P (xs ! i)" and "\<forall>j<length xs. j \<noteq> i \<longrightarrow> \<not> P (xs ! j)"
  shows "length (filter P xs) = 1"
proof -
  have xs: "xs = take i xs @ xs ! i # drop (Suc i) xs"
    using assms(1) by (rule id_take_nth_drop)
  have "filter P (take i xs) = []"
    using assms(1,3) by (auto simp: filter_empty_conv in_set_conv_nth)
  moreover have "filter P (drop (Suc i) xs) = []"
    using assms(1,3) by (auto simp: filter_empty_conv in_set_conv_nth)
  ultimately have "filter P (take i xs @ xs ! i # drop (Suc i) xs) = [xs ! i]"
    using assms(2) by simp
  with xs show ?thesis by (metis length_Cons list.size(3) One_nat_def)
qed

lemma filter_butlast_last:
  "es \<noteq> [] \<Longrightarrow> filter P es = filter P (butlast es) @ filter P [last es]"
  by (metis append_butlast_last_id filter_append)

lemma RunAudit_unfiltered:
  "RunAudit time_Now client [] inactiveDays verbose s =
     (case fetchGuests client 0 [] s of
        None \<Rightarrow> None
      | Some (Inl err, s2) \<Rightarrow> Some ((None, ExitAPIError), s2)
      | Some (Inr allGuests, s2) \<Rightarrow>
          (case processGuests time_Now client [] inactiveDays verbose allGuests
                  \<lparr>Guests = [], Summary = emptySummary, InactiveDays = inactiveDays\<rparr>
                  ExitSuccess s2 of
             ((result, exitCode), s3) \<Rightarrow>
               Some ((Some (result\<lparr>Summary := (calcSummary (Guests result) (Summary result))
                                  \<lparr>TotalGuests := int (length (Guests result))\<rparr>\<rparr>),
                      exitCode), s3)))"
  by (simp add: RunAudit_def resolveTeamFilter_def Let_def
      split: option.splits prod.splits sum.splits)

lemma RunAudit_resolved:
  "resolveTeamFilter client teamFilter s = (Inr filterTeamID, s1) \<Longrightarrow>
   RunAudit time_Now client teamFilter inactiveDays verbose s =
     (case fetchGuests client 0 [] s1 of
        None \<Rightarrow> None
      | Some (Inl err, s2) \<Rightarrow> Some ((None, ExitAPIError), s2)
      | Some (Inr allGuests, s2) \<Rightarrow>
          (case processGuests time_Now client filterTeamID inactiveDays verbose allGuests
                  \<lparr>Guests = [], Summary = emptySummary, InactiveDays = inactiveDays\<rparr>
                  ExitSuccess s2 of
             ((result, exitCode), s3) \<Rightarrow>
               Some ((Some (result\<lparr>Summary := (calcSummary (Guests result) (Summary result))
                                  \<lparr>TotalGuests := int (length (Guests result))\<rparr>\<rparr>),
                      exitCode), s3)))"
  by (simp add: RunAudit_def Let_def split: option.splits prod.splits sum.splits)

lemma resolveTeamFilter_logged:
  assumes "resolveTeamFilter (logged client) teamFilter (s, log) = (r, (s1, log1))"
  shows "\<exists>es. log1 = log @ es \<and> filter isGetGuestUsers es = []
        \<and> (case r of
             Inl e \<Rightarrow> es = [EvGetTeamByName teamFilter (Inl e)]
           | Inr x \<Rightarrow> filter failedEv es = [])"
proof (cases "teamFilter = []")
  case True
  with assms show ?thesis
    by (intro exI [of _ "[]"]) (auto simp: resolveTeamFilter_def)
next
  case False
  obtain out s0 where call: "GetTeamByName client teamFilter s = (out, s0)"
    by (cases "GetTeamByName client teamFilter s")
  with False assms show ?thesis
    by (intro exI [of _ "[EvGetTeamByName teamFilter out]"])
       (cases out; auto simp: resolveTeamFilter_def logged_calls)
qed

lemma processGuests_order:
  "processGuests time_Now client filterTeamID inactiveDays verbose us result exitCode s
     = ((result', exitCode'), s')
   \<Longrightarrow> \<exists>recs. Guests result' = Guests result @ recs
        \<and> subseq (map Username recs) (map User_Username us)
        \<and> (filterTeamID = [] \<longrightarrow> map Username recs = map User_Username us)"
proof (induction us arbitrary: result exitCode s)
  case Nil
  then show ?case by simp
next
  case (Cons u us)
  obtain out s1 where
    pg: "processGuest time_Now client u filterTeamID inactiveDays verbose s = (out, s1)"
    by (metis surj_pair)
  show ?case
  proof (cases out)
    case (Inl e)
    let ?result1 = "result\<lparr>Guests := Guests result @ [stubRecord u e],
                    Summary := (Summary result)
                      \<lparr>FailedLookups := FailedLookups (Summary result) + 1\<rparr>\<rparr>"
    from Inl pg Cons.prems have
      "processGuests time_Now client filterTeamID inactiveDays verbose us ?result1
         ExitPartialFailure s1 = ((result', exitCode'), s')"
      by simp
    from Cons.IH [OF this] obtain recs where
      "Guests result' = Guests ?result1 @ recs"
      "subseq (map Username recs) (map User_Username us)"
      "filterTeamID = [] \<longrightarrow> map Username recs = map User_Username us"
      by blast
    then show ?thesis
      by (intro exI [of _ "stubRecord u e # recs"]) (simp add: stubRecord_def)
  next
    case (Inr opt)
    show ?thesis
    proof (cases opt)
      case None
      with Inr pg Cons.prems have run:
        "processGuests time_Now client filterTeamID inactiveDays verbose us result
           exitCode s1 = ((result', exitCode'), s')"
        by simp
      from None Inr pg have filt: "filterTeamID \<noteq> []"
        using processGuest_no_filter by metis
      from Cons.IH [OF run] obtain recs where
        "Guests result' = Guests result @ recs"
        "subseq (map Username recs) (map User_Username us)"
        by blast
      with filt show ?thesis
        by (intro exI [of _ recs]) (simp add: list_emb_Cons)
    next
      case (Some g)
      let ?result1 = "result\<lparr>Guests := Guests result @ [g]\<rparr>"
      from Some Inr pg Cons.prems have run:
        "processGuests time_Now client filterTeamID inactiveDays verbose us ?result1
           exitCode s1 = ((result', exitCode'), s')"
        by simp
      from Some Inr pg have g: "Username g = User_Username u"
        using processGuest_record_fields by metis
      from Cons.IH [OF run] obtain recs where
        "Guests result' = Guests ?result1 @ recs"
        "subseq (map Username recs) (map User_Username us)"
        "filterTeamID = [] \<longrightarrow> map Username recs = map User_Username us"
        by blast
      with g show ?thesis
        by (intro exI [of _ "g # recs"]) simp
    qed
  qed
qed

lemma RunAudit_after_listing:
  assumes "resolveTeamFilter client teamFilter s = (Inr filterTeamID, s1)"
    and "fetchGuests client 0 [] s1 = Some (Inr allGuests, s2)"
  shows "\<exists>result exitCode s'.
           RunAudit time_Now client teamFilter inactiveDays verbose s
             = Some ((Some result, exitCode), s')
         \<and> subseq (map Username (Guests result)) (map User_Username allGuests)
         \<and> (filterTeamID = [] \<longrightarrow> map Username (Guests result) = map User_Username allGuests)"
proof -
  obtain result0 code0 s3 where
    loop: "processGuests time_Now client filterTeamID inactiveDays verbose allGuests
             \<lparr>Guests = [], Summary = emptySummary, InactiveDays = inactiveDays\<rparr>
             ExitSuccess s2 = ((result0, code0), s3)"
    by (metis surj_pair)
  from processGuests_order [OF loop] have
    "subseq (map Username (Guests result0)) (map User_Username allGuests)"
    "filterTeamID = [] \<longrightarrow> map Username (Guests result0) = map User_Username allGuests"
    by auto
  with loop assms show ?thesis
    by (simp add: RunAudit_resolved)
qed

text \<open>
  Logging changes nothing but the log: against \<open>logged client\<close> every function of
  the audit returns what it returns against \<open>client\<close>, and a run that does not end
  against the one does not end against the other.
\<close>

lemma getChannels_same:
  "dropLog (getChannels (logged client) userID tis chs ids (s, log))
     = getChannels client userID tis chs ids s"
proof (induction tis arbitrary: chs ids s log)
  case Nil
  then show ?case by (simp add: dropLog_def)
next
  case (Cons ti tis)
  obtain out s1 where call: "GetChannelsForTeamForUser client (TeamInfo_ID ti) userID s = (out, s1)"
    by (cases "GetChannelsForTeamForUser client (TeamInfo_ID ti) userID s")
  show ?case
  proof (cases out)
    case (Inl e)
    with call show ?thesis by (simp add: logged_calls dropLog_def)
  next
    case (Inr found)
    with call Cons.IH show ?thesis by (simp add: logged_calls)
  qed
qed

lemma processGuest_same:
  "dropLog (processGuest (loggedNow time_Now) (logged client) u filterTeamID inactiveDays verbose
              (s, log))
     = processGuest time_Now client u filterTeamID inactiveDays verbose s"
proof -
  obtain out s1 where teams: "GetTeamsForUser client (User_Id u) s = (out, s1)"
    by (cases "GetTeamsForUser client (User_Id u) s")
  show ?thesis
  proof (cases out)
    case (Inl e)
    with teams show ?thesis by (simp add: processGuest_def logged_calls dropLog_def)
  next
    case (Inr found)
    let ?log1 = "log @ [EvGetTeamsForUser (User_Id u) (Inr found)]"
    let ?tis = "filterTeams filterTeamID found"
    obtain rc s2 log2 where
      ch: "getChannels (logged client) (User_Id u) ?tis [] [] (s1, ?log1) = (rc, (s2, log2))"
      by (metis surj_pair)
    with getChannels_same [of client "User_Id u" ?tis "[]" "[]" s1 ?log1]
    have ch': "getChannels client (User_Id u) ?tis [] [] s1 = (rc, s2)"
      by (simp add: dropLog_def)
    show ?thesis
    proof (cases rc)
      case (Inl e)
      with teams Inr ch ch' show ?thesis
        by (auto simp: processGuest_def logged_calls dropLog_def Let_def)
    next
      case inner: (Inr pair)
      obtain chs ids where pair: "pair = (chs, ids)" by (cases pair)
      obtain rp s3 where
        lp: "GetLastPostDateForUser client (User_Id u) (User_Username u) ids s2 = (rp, s3)"
        by (cases "GetLastPostDateForUser client (User_Id u) (User_Username u) ids s2")
      with teams Inr ch ch' inner pair show ?thesis
        by (cases rp)
           (auto simp: processGuest_def logged_calls dropLog_def Let_def loggedNow_def
              IsInactive_def)
    qed
  qed
qed

lemma processGuests_same:
  "dropLog (processGuests (loggedNow time_Now) (logged client) filterTeamID inactiveDays verbose
              us result exitCode (s, log))
     = processGuests time_Now client filterTeamID inactiveDays verbose us result exitCode s"
proof (induction us arbitrary: result exitCode s log)
  case Nil
  then show ?case by (simp add: dropLog_def)
next
  case (Cons u us)
  obtain out s1 log1 where
    pg: "processGuest (loggedNow time_Now) (logged client) u filterTeamID inactiveDays verbose
           (s, log) = (out, (s1, log1))"
    by (metis surj_pair)
  with processGuest_same [of time_Now client u filterTeamID inactiveDays verbose s log]
  have pg': "processGuest time_Now client u filterTeamID inactiveDays verbose s = (out, s1)"
    by (simp add: dropLog_def)
  from pg pg' Cons.IH show ?case
    by (cases out) (simp_all split: option.splits)
qed

lemma fetchGuests_logged_plain:
  "fetchGuests client page acc w = Some y
   \<Longrightarrow> \<forall>c s log. client = logged c \<longrightarrow> w = (s, log) \<longrightarrow>
         fetchGuests c page acc s = Some (dropLog y)"
proof (induction client page acc w y rule: fetchGuests.raw_induct [rotated 1, consumes 1])
  case (1 fetch client page acc w y)
  show ?case
  proof (intro allI impI)
    fix c s log
    assume cl: "client = logged c" and w: "w = (s, log)"
    obtain out s1 where call: "GetGuestUsers c page perPage s = (out, s1)"
      by (cases "GetGuestUsers c page perPage s")
    let ?ev = "EvGetGuestUsers page perPage out"
    show "fetchGuests c page acc s = Some (dropLog y)"
    proof (cases out)
      case (Inl e)
      with 1(2) cl w call show ?thesis
        by (subst fetchGuests.simps) (auto simp: logged_calls dropLog_def)
    next
      case (Inr users)
      show ?thesis
      proof (cases "int (length users) < perPage")
        case True
        with Inr 1(2) cl w call show ?thesis
          by (subst fetchGuests.simps) (auto simp: logged_calls dropLog_def)
      next
        case False
        with Inr 1(2) cl w call have step:
          "fetch (logged c) (page + 1) (acc @ users) (s1, log @ [?ev]) = Some y"
          by (simp add: logged_calls)
        from 1(1) [OF step] have "fetchGuests c (page + 1) (acc @ users) s1 = Some (dropLog y)"
          by blast
        with Inr False call show ?thesis
          by (subst fetchGuests.simps) simp
      qed
    qed
  qed
qed

lemma fetchGuests_plain_logged:
  "fetchGuests client page acc s = Some y
   \<Longrightarrow> \<forall>log. \<exists>y'. fetchGuests (logged client) page acc (s, log) = Some y' \<and> dropLog y' = y"
proof (induction client page acc s y rule: fetchGuests.raw_induct [rotated 1, consumes 1])
  case (1 fetch client page acc s y)
  show ?case
  proof
    fix log
    obtain out s1 where call: "GetGuestUsers client page perPage s = (out, s1)"
      by (cases "GetGuestUsers client page perPage s")
    let ?ev = "EvGetGuestUsers page perPage out"
    show "\<exists>y'. fetchGuests (logged client) page acc (s, log) = Some y' \<and> dropLog y' = y"
    proof (cases out)
      case (Inl e)
      with 1(2) call show ?thesis
        by (subst fetchGuests.simps) (auto simp: logged_calls dropLog_def)
    next
      case (Inr users)
      show ?thesis
      proof (cases "int (length users) < perPage")
        case True
        with Inr 1(2) call show ?thesis
          by (subst fetchGuests.simps) (auto simp: logged_calls dropLog_def)
      next
        case False
        with Inr 1(2) call have step: "fetch client (page + 1) (acc @ users) s1 = Some y"
          by simp
        from 1(1) [OF step] obtain y' where
          "fetchGuests (logged client) (page + 1) (acc @ users) (s1, log @ [?ev]) = Some y'"
          "dropLog y' = y"
          by blast
        with Inr False call show ?thesis
          by (subst fetchGuests.simps) (simp add: logged_calls)
      qed
    qed
  qed
qed

lemma fetchGuests_same:
  "map_option dropLog (fetchGuests (logged client) page acc (s, log))
     = fetchGuests client page acc s"
proof (cases "fetchGuests (logged client) page acc (s, log)")
  case None
  show ?thesis
  proof (cases "fetchGuests client page acc s")
    case inner: None
    with None show ?thesis by simp
  next
    case (Some y)
    from fetchGuests_plain_logged [OF Some] obtain y' where
      "fetchGuests (logged client) page acc (s, log) = Some y'"
      by blast
    with None show ?thesis by simp
  qed
next
  case (Some y')
  from fetchGuests_logged_plain [OF Some] Some show ?thesis by simp
qed

lemma resolveTeamFilter_same:
  "dropLog (resolveTeamFilter (logged client) teamFilter (s, log))
     = resolveTeamFilter client teamFilter s"
proof (cases "teamFilter = []")
  case True
  then show ?thesis by (simp add: resolveTeamFilter_def dropLog_def)
next
  case False
  obtain out s1 where "GetTeamByName client teamFilter s = (out, s1)"
    by (cases "GetTeamByName client teamFilter s")
  with False show ?thesis
    by (cases out) (simp_all add: resolveTeamFilter_def logged_calls dropLog_def)
qed

lemma RunAudit_same:
  "map_option dropLog
     (RunAudit (loggedNow time_Now) (logged client) teamFilter inactiveDays verbose (s, log))
     = RunAudit time_Now client teamFilter inactiveDays verbose s"
proof -
  obtain r s1 log1 where
    resolve: "resolveTeamFilter (logged client) teamFilter (s, log) = (r, (s1, log1))"
    by (metis surj_pair)
  with resolveTeamFilter_same [of client teamFilter s log]
  have resolve': "resolveTeamFilter client teamFilter s = (r, s1)"
    by (simp add: dropLog_def)
  show ?thesis
  proof (cases r)
    case (Inl e)
    with resolve resolve' show ?thesis by (simp add: RunAudit_def dropLog_def)
  next
    case (Inr filterTeamID)
    note unfold = RunAudit_resolved [OF resolve [unfolded Inr]]
      RunAudit_resolved [OF resolve' [unfolded Inr]]
    show ?thesis
    proof (cases "fetchGuests (logged client) 0 [] (s1, log1)")
      case None
      with fetchGuests_same [of client 0 "[]" s1 log1] show ?thesis
        by (simp add: unfold)
    next
      case (Some y)
      obtain fr s2 log2 where y: "y = (fr, (s2, log2))" by (metis surj_pair)
      with Some fetchGuests_same [of client 0 "[]" s1 log1]
      have fetch': "fetchGuests client 0 [] s1 = Some (fr, s2)"
        by (simp add: dropLog_def)
      show ?thesis
      proof (cases fr)
        case (Inl e)
        with Some y fetch' show ?thesis by (simp add: unfold dropLog_def)
      next
        case inner: (Inr gs)
        let ?init = "\<lparr>Guests = [], Summary = emptySummary, InactiveDays = inactiveDays\<rparr>"
        obtain result0 code0 s3 log3 where
          loop: "processGuests (loggedNow time_Now) (logged client) filterTeamID inactiveDays
                   verbose gs ?init ExitSuccess (s2, log2) = ((result0, code0), (s3, log3))"
          by (metis surj_pair)
        with processGuests_same [of time_Now client filterTeamID inactiveDays verbose gs ?init
            ExitSuccess s2 log2]
        have loop': "processGuests time_Now client filterTeamID inactiveDays verbose gs ?init
                       ExitSuccess s2 = ((result0, code0), s3)"
          by (simp add: dropLog_def)
        from Some y fetch' inner loop loop' show ?thesis
          by (simp add: unfold dropLog_def)
      qed
    qed
  qed
qed

section \<open>A guest whose teams cannot be fetched\<close>

text \<open>
  C3. A run without team filter in which exactly one call fails, the lookup of the teams
  of one guest, while every other call of the client succeeds: the result has one record
  for each listed guest, in the order of the listing; the record of the guest whose
  lookup failed carries a non-empty error description and is a stub, with the username,
  display name, email, creation time and enabled flag of the account, no teams, no
  channels, no last login, no last post and the inactive flag false; every other record
  has no error; the failed count is 1 and the exit code is \<open>ExitPartialFailure\<close>.
\<close>

theorem one_team_fetch_failure:
  assumes run: "RunAudit time_Now (logged client) [] inactiveDays verbose (s, [])
                  = Some ((res, exitCode), (s', log))"
    and one: "filter failedEv log = [EvGetTeamsForUser userID (Inl err)]"
  shows "\<exists>result i. res = Some result \<and> exitCode = ExitPartialFailure
      \<and> FailedLookups (Summary result) = 1
      \<and> length (Guests result) = length (listedGuests log)
      \<and> map Username (Guests result) = map User_Username (listedGuests log)
      \<and> i < length (listedGuests log) \<and> User_Id (listedGuests log ! i) = userID
      \<and> Guests result ! i =
          \<lparr>Username = User_Username (listedGuests log ! i),
           DisplayName = BuildDisplayName (User_FirstName (listedGuests log ! i))
                           (User_LastName (listedGuests log ! i)),
           Email = User_Email (listedGuests log ! i),
           CreatedAt = MillisToTime (User_CreateAt (listedGuests log ! i)),
           LastLogin = None, LastPost = None, Teams = [], Channels = [],
           Active = (User_DeleteAt (listedGuests log ! i) = 0),
           Inactive = False,
           Error = ''failed to get teams: '' @ err\<rparr>
      \<and> Error (Guests result ! i) \<noteq> []
      \<and> (\<forall>j<length (Guests result). j \<noteq> i \<longrightarrow> Error (Guests result ! j) = [])"
proof -
  from run obtain fr s2 log2 where
    fetch: "fetchGuests (logged client) 0 [] (s, []) = Some (fr, (s2, log2))"
    by (auto simp: RunAudit_unfiltered split: option.splits)
  from fetchGuests_logged [OF fetch] obtain es1 where
    es1: "log2 = es1" "es1 \<noteq> []" "\<forall>ev\<in>set es1. isGetGuestUsers ev"
    "filter failedEv (butlast es1) = []"
    "case fr of
       Inl e \<Rightarrow> failedEv (last es1)
     | Inr gs \<Rightarrow> \<not> failedEv (last es1) \<and> gs = [] @ listedGuests es1"
    by auto
  show ?thesis
  proof (cases fr)
    case (Inl e)
    with run fetch es1 have "log = es1" by (simp add: RunAudit_unfiltered)
    with one es1(2,4,5) Inl have "[last es1] = [EvGetTeamsForUser userID (Inl err)]"
      by (simp add: filter_butlast_last)
    with es1(2,3) have False
      by (metis isGetGuestUsers.simps(3) last_in_set list.inject)
    then show ?thesis ..
  next
    case (Inr gs)
    with es1 have gs: "gs = listedGuests es1" and ok1: "filter failedEv es1 = []"
      by (simp_all add: filter_butlast_last)
    obtain result0 code0 s3 log3 where
      loop: "processGuests time_Now (logged client) [] inactiveDays verbose gs
               \<lparr>Guests = [], Summary = emptySummary, InactiveDays = inactiveDays\<rparr>
               ExitSuccess (s2, es1) = ((result0, code0), (s3, log3))"
      by (metis surj_pair)
    with run fetch Inr es1(1) have
      res: "res = Some (result0\<lparr>Summary := (calcSummary (Guests result0) (Summary result0))
                                  \<lparr>TotalGuests := int (length (Guests result0))\<rparr>\<rparr>)"
      and code: "exitCode = code0" and log: "log = log3"
      by (simp_all add: RunAudit_unfiltered)
    from processGuests_logged [OF loop] obtain es2 recs where
      es2: "log3 = es1 @ es2" "filter isGetGuestUsers es2 = []"
      and recs: "Guests result0 = recs" "map Username recs = map User_Username gs"
      and stub: "\<forall>userID m. filter fatalEv es2 = [EvGetTeamsForUser userID (Inl m)] \<longrightarrow>
                (\<exists>i<length gs. User_Id (gs ! i) = userID
                   \<and> recs ! i = stubRecord (gs ! i) (''failed to get teams: '' @ m)
                   \<and> (\<forall>j<length gs. j \<noteq> i \<longrightarrow> Error (recs ! j) = []))"
      by auto
    from one log es2(1) ok1 have "filter failedEv es2 = [EvGetTeamsForUser userID (Inl err)]"
      by simp
    then have "filter fatalEv es2 = [EvGetTeamsForUser userID (Inl err)]"
      by (rule fatalEv_single) simp
    with stub obtain i where
      i: "i < length gs" "User_Id (gs ! i) = userID"
      "recs ! i = stubRecord (gs ! i) (''failed to get teams: '' @ err)"
      "\<forall>j<length gs. j \<noteq> i \<longrightarrow> Error (recs ! j) = []"
      by blast
    from recs(2) have len: "length recs = length gs" by (metis length_map)
    have listed: "listedGuests log = gs"
      using log es2 gs by (simp add: listedGuests_append listedGuests_no_listing)
    have "length (filter (\<lambda>g. Error g \<noteq> []) recs) = 1"
      using i len by (intro filter_single_index [of i]) (simp_all add: stubRecord_def)
    then have count: "errorCount recs = 1" by (simp add: errorCount_def)
    from processGuests_invariant [OF loop] recs(1) count have
      failed: "FailedLookups (Summary result0) = 1" and "code0 = ExitPartialFailure"
      by (auto simp: emptySummary_def)
    with res code recs len listed i
      calcSummary_counts [of "Guests result0" "Summary result0"]
    show ?thesis
      by (intro exI [of _ "result0\<lparr>Summary := (calcSummary (Guests result0) (Summary result0))
                                  \<lparr>TotalGuests := int (length (Guests result0))\<rparr>\<rparr>"]
            exI [of _ i])
         (simp add: stubRecord_def)
  qed
qed

theorem one_team_fetch_failure_witness:
  "RunAudit fst (logged (mockAsClient partialFailure)) [] 0 False (startTime, [])
     = Some ((Some partialFailureResult, ExitPartialFailure), (startTime, partialFailureLog))
   \<and> filter failedEv partialFailureLog = [EvGetTeamsForUser ''user2'' (Inl http500)]
   \<and> listedGuests partialFailureLog = [jane, bob]
   \<and> Guests partialFailureResult = [janeRecord\<lparr>LastPost := None\<rparr>, bobStub]
   \<and> (\<exists>result i. Some partialFailureResult = Some result
        \<and> ExitPartialFailure = ExitPartialFailure
        \<and> FailedLookups (Summary result) = 1
        \<and> length (Guests result) = length (listedGuests partialFailureLog)
        \<and> map Username (Guests result) = map User_Username (listedGuests partialFailureLog)
        \<and> i < length (listedGuests partialFailureLog)
        \<and> User_Id (listedGuests partialFailureLog ! i) = ''user2''
        \<and> Guests result ! i =
            \<lparr>Username = User_Username (listedGuests partialFailureLog ! i),
             DisplayName = BuildDisplayName (User_FirstName (listedGuests partialFailureLog ! i))
                             (User_LastName (listedGuests partialFailureLog ! i)),
             Email = User_Email (listedGuests partialFailureLog ! i),
             CreatedAt = MillisToTime (User_CreateAt (listedGuests partialFailureLog ! i)),
             LastLogin = None, LastPost = None, Teams = [], Channels = [],
             Active = (User_DeleteAt (listedGuests partialFailureLog ! i) = 0),
             Inactive = False,
             Error = ''failed to get teams: '' @ http500\<rparr>
        \<and> Error (Guests result ! i) \<noteq> []
        \<and> (\<forall>j<length (Guests result). j \<noteq> i \<longrightarrow> Error (Guests result ! j) = []))"
proof -
  have run: "RunAudit fst (logged (mockAsClient partialFailure)) [] 0 False (startTime, [])
     = Some ((Some partialFailureResult, ExitPartialFailure), (startTime, partialFailureLog))"
    by (simp add: audit_defs mock_defs record_defs logged_calls partialFailure_def
          partialFailureLog_def partialFailureResult_def)
  have failed: "filter failedEv partialFailureLog = [EvGetTeamsForUser ''user2'' (Inl http500)]"
    by (simp add: partialFailureLog_def)
  have listed: "listedGuests partialFailureLog = [jane, bob]"
    by (simp add: partialFailureLog_def)
  have guests: "Guests partialFailureResult = [janeRecord\<lparr>LastPost := None\<rparr>, bobStub]"
    by (simp add: partialFailureResult_def)
  from run failed listed guests one_team_fetch_failure [OF run failed] show ?thesis
    by (intro conjI)
qed

section \<open>A team filter that does not resolve\<close>

text \<open>
  C4. When the team filter is not empty and the lookup of the team by name fails,
  whatever the failure, the run returns no result and the exit code
  \<open>ExitConfigError\<close>, and the lookup is the only call it makes of the client: it
  makes no guest-listing call.
\<close>

theorem team_lookup_failure:
  assumes "teamFilter \<noteq> []"
    and "GetTeamByName client teamFilter s = (Inl err, s1)"
  shows "RunAudit time_Now client teamFilter inactiveDays verbose s
           = Some ((None, ExitConfigError), s1)
     \<and> RunAudit time_Now' (logged client) teamFilter inactiveDays verbose (s, log)
           = Some ((None, ExitConfigError), (s1, log @ [EvGetTeamByName teamFilter (Inl err)]))
     \<and> filter isGetGuestUsers [EvGetTeamByName teamFilter (Inl err)] = []"
  using assms by (simp add: RunAudit_def resolveTeamFilter_def logged_calls)

theorem team_lookup_failure_witness:
  "''NonExistent'' \<noteq> []
   \<and> GetTeamByName (mockAsClient emptyMock) ''NonExistent'' startTime
       = (Inl notFoundError, startTime)
   \<and> RunAudit (\<lambda>s. s) (mockAsClient emptyMock) ''NonExistent'' 0 False startTime
       = Some ((None, ExitConfigError), startTime)
   \<and> RunAudit fst (logged (mockAsClient emptyMock)) ''NonExistent'' 0 False (startTime, [])
       = Some ((None, ExitConfigError),
               (startTime, [] @ [EvGetTeamByName ''NonExistent'' (Inl notFoundError)]))
   \<and> filter isGetGuestUsers [EvGetTeamByName ''NonExistent'' (Inl notFoundError)] = []"
proof -
  have filt: "''NonExistent'' \<noteq> []" by simp
  have lookup: "GetTeamByName (mockAsClient emptyMock) ''NonExistent'' startTime
                  = (Inl notFoundError, startTime)"
    by (simp add: mock_defs notFoundError_def)
  note claim = team_lookup_failure
    [OF filt lookup, where time_Now = "\<lambda>s. s" and inactiveDays = 0 and verbose = False
       and time_Now' = fst and log = "[]"]
  from filt lookup claim show ?thesis by blast
qed

section \<open>A guest listing that fails\<close>

lemma listing_failure_in_log:
  assumes run: "RunAudit time_Now (logged client) teamFilter inactiveDays verbose (s, [])
                  = Some ((res, exitCode), (s', log))"
    and ev: "EvGetGuestUsers page n (Inl err) \<in> set log"
  shows "res = None \<and> exitCode = ExitAPIError \<and> last log = EvGetGuestUsers page n (Inl err)"
proof -
  let ?ev = "EvGetGuestUsers page n (Inl err)"
  obtain r s1 log1 where
    resolve: "resolveTeamFilter (logged client) teamFilter (s, []) = (r, (s1, log1))"
    by (metis surj_pair)
  from resolveTeamFilter_logged [OF resolve] have
    no1: "filter isGetGuestUsers log1 = []"
    and r: "case r of Inl e \<Rightarrow> log1 = [EvGetTeamByName teamFilter (Inl e)]
              | Inr x \<Rightarrow> filter failedEv log1 = []"
    by auto
  from no1 have notin1: "?ev \<notin> set log1"
    by (auto simp: filter_empty_conv)
  show ?thesis
  proof (cases r)
    case (Inl e)
    with run resolve have "log = log1" by (simp add: RunAudit_def)
    with ev notin1 show ?thesis by simp
  next
    case (Inr filterTeamID)
    note unfold = RunAudit_resolved [OF resolve [unfolded Inr]]
    from run obtain fr s2 log2 where
      fetch: "fetchGuests (logged client) 0 [] (s1, log1) = Some (fr, (s2, log2))"
      by (auto simp: unfold split: option.splits)
    from fetchGuests_logged [OF fetch] obtain es1 where
      es1: "log2 = log1 @ es1" "es1 \<noteq> []"
      "filter failedEv (butlast es1) = []"
      "case fr of
         Inl e \<Rightarrow> failedEv (last es1)
       | Inr gs \<Rightarrow> \<not> failedEv (last es1) \<and> gs = [] @ listedGuests es1"
      by auto
    show ?thesis
    proof (cases fr)
      case (Inl e)
      with run fetch have out: "res = None" "exitCode = ExitAPIError" "log = log2"
        by (simp_all add: unfold)
      from ev out(3) es1(1) notin1 have "?ev \<in> set es1" by simp
      moreover have "?ev \<notin> set (butlast es1)"
        using es1(3) by (auto simp: filter_empty_conv)
      ultimately have "?ev = last es1"
        using es1(2) by (metis append_butlast_last_id insert_iff list.simps(15)
            rotate1.simps(2) set_rotate1)
      with out es1(1,2) show ?thesis by simp
    next
      case (Inr gs)
      with es1 have ok1: "filter failedEv es1 = []"
        by (simp add: filter_butlast_last)
      obtain result0 code0 s3 log3 where
        loop: "processGuests time_Now (logged client) filterTeamID inactiveDays verbose gs
                 \<lparr>Guests = [], Summary = emptySummary, InactiveDays = inactiveDays\<rparr>
                 ExitSuccess (s2, log2) = ((result0, code0), (s3, log3))"
        by (metis surj_pair)
      with run fetch Inr have log: "log = log3"
        by (simp add: unfold)
      from processGuests_logged [OF loop] obtain es2 where
        es2: "log3 = log2 @ es2" "filter isGetGuestUsers es2 = []"
        by auto
      from ok1 have "?ev \<notin> set es1" by (auto simp: filter_empty_conv)
      moreover from es2(2) have "?ev \<notin> set es2" by (auto simp: filter_empty_conv)
      ultimately have False using ev log es2(1) es1(1) notin1 by simp
      then show ?thesis ..
    qed
  qed
qed

text \<open>
  C5. When a guest-listing call fails, after any number of full pages, the run ends
  there: it returns no result, whatever the earlier pages held, and the exit code
  \<open>ExitAPIError\<close>, in the state the failed call left. Read on the log of a run:
  if a guest-listing call of the run failed, the run returned no result and
  \<open>ExitAPIError\<close>, and the failed call is the last call it made.
\<close>

theorem pagination_failure_aborts_run:
  "(resolveTeamFilter client teamFilter s = (Inr filterTeamID, s1) \<longrightarrow>
    fullPages client k 0 s1 = Some (users, s2) \<longrightarrow>
    GetGuestUsers client (int k) perPage s2 = (Inl err, s3) \<longrightarrow>
      RunAudit time_Now client teamFilter inactiveDays verbose s
        = Some ((None, ExitAPIError), s3))
   \<and> (RunAudit time_Now' (logged client') teamFilter' inactiveDays' verbose' (s', [])
          = Some ((res, exitCode), (s'', log)) \<longrightarrow>
        EvGetGuestUsers page n (Inl err') \<in> set log \<longrightarrow>
          res = None \<and> exitCode = ExitAPIError
          \<and> last log = EvGetGuestUsers page n (Inl err'))"
proof (rule conjI)
  show "resolveTeamFilter client teamFilter s = (Inr filterTeamID, s1) \<longrightarrow>
    fullPages client k 0 s1 = Some (users, s2) \<longrightarrow>
    GetGuestUsers client (int k) perPage s2 = (Inl err, s3) \<longrightarrow>
      RunAudit time_Now client teamFilter inactiveDays verbose s
        = Some ((None, ExitAPIError), s3)"
    using failing_page_aborts_run by (intro impI)
  show "RunAudit time_Now' (logged client') teamFilter' inactiveDays' verbose' (s', [])
          = Some ((res, exitCode), (s'', log)) \<longrightarrow>
        EvGetGuestUsers page n (Inl err') \<in> set log \<longrightarrow>
          res = None \<and> exitCode = ExitAPIError
          \<and> last log = EvGetGuestUsers page n (Inl err')"
    using listing_failure_in_log by (intro impI)
qed

theorem pagination_failure_aborts_run_witness:
  "resolveTeamFilter flakyListing [] 0 = (Inr [], 0)
   \<and> fullPages flakyListing 1 0 0 = Some (replicate 200 jane, 1)
   \<and> GetGuestUsers flakyListing (int 1) perPage 1 = (Inl http500, 2)
   \<and> RunAudit (\<lambda>calls. startTime) flakyListing [] 0 False 0
       = Some ((None, ExitAPIError), 2)
   \<and> RunAudit fst (logged (mockAsClient listingFailure)) [] 0 False (startTime, [])
       = Some ((None, ExitAPIError), (startTime, [EvGetGuestUsers 0 200 (Inl http500)]))
   \<and> EvGetGuestUsers 0 200 (Inl http500) \<in> set [EvGetGuestUsers 0 200 (Inl http500)]
   \<and> last [EvGetGuestUsers 0 200 (Inl http500)] = EvGetGuestUsers 0 200 (Inl http500)"
proof -
  have resolve: "resolveTeamFilter flakyListing [] 0 = (Inr [], 0)"
    by (simp add: resolveTeamFilter_def)
  have full: "fullPages flakyListing 1 0 0 = Some (replicate 200 jane, 1)"
    by (simp add: flakyListing_def perPage_def)
  have fail: "GetGuestUsers flakyListing (int 1) perPage 1 = (Inl http500, 2)"
    by (simp add: flakyListing_def)
  have run: "RunAudit fst (logged (mockAsClient listingFailure)) [] 0 False (startTime, [])
       = Some ((None, ExitAPIError), (startTime, [EvGetGuestUsers 0 200 (Inl http500)]))"
    by (simp add: audit_defs mock_defs logged_calls listingFailure_def)
  have ev: "EvGetGuestUsers 0 200 (Inl http500) \<in> set [EvGetGuestUsers 0 200 (Inl http500)]"
    by simp
  note claim = pagination_failure_aborts_run
    [where client = flakyListing and teamFilter = "[]" and s = 0 and filterTeamID = "[]"
       and ?s1.0 = 0 and k = 1 and users = "replicate 200 jane" and ?s2.0 = 1
       and err = http500 and ?s3.0 = 2 and time_Now = "\<lambda>calls. startTime"
       and inactiveDays = 0 and verbose = False
       and client' = "mockAsClient listingFailure" and time_Now' = fst and teamFilter' = "[]"
       and inactiveDays' = 0 and verbose' = False and s' = startTime and res = None
       and exitCode = ExitAPIError and s'' = startTime
       and log = "[EvGetGuestUsers 0 200 (Inl http500)]" and page = 0 and n = 200
       and err' = http500]
  from claim resolve full fail have
    "RunAudit (\<lambda>calls. startTime) flakyListing [] 0 False 0 = Some ((None, ExitAPIError), 2)"
    by blast
  moreover from claim run ev have
    "last [EvGetGuestUsers 0 200 (Inl http500)] = EvGetGuestUsers 0 200 (Inl http500)"
    by blast
  ultimately show ?thesis using resolve full fail run ev by (intro conjI)
qed

section \<open>The team filter\<close>

lemma filterTeams_scoped:
  "filterTeamID \<noteq> [] \<Longrightarrow>
   filterTeams filterTeamID ts =
     map (\<lambda>t. \<lparr>TeamInfo_ID = Team_Id t, TeamInfo_DisplayName = Team_DisplayName t\<rparr>)
       (filter (\<lambda>t. Team_Id t = filterTeamID) ts)"
  by (induction ts) simp_all

lemma processGuest_scoped_teams:
  assumes "filterTeamID \<noteq> []"
    and "GetTeamsForUser client (User_Id u) s = (Inr found, s1)"
    and "processGuest time_Now client u filterTeamID inactiveDays verbose s = (Inr (Some g), s2)"
  shows "Teams g =
           map (\<lambda>t. \<lparr>TeamInfo_ID = Team_Id t, TeamInfo_DisplayName = Team_DisplayName t\<rparr>)
             (filter (\<lambda>t. Team_Id t = filterTeamID) found)
         \<and> Teams g \<noteq> []"
  using assms filterTeams_scoped [OF assms(1), of found]
  by (auto simp: processGuest_def Let_def split: prod.splits sum.splits if_splits)

lemma processGuest_scoped_record:
  assumes "filterTeamID \<noteq> []"
    and "processGuest time_Now client u filterTeamID inactiveDays verbose s = (Inr (Some g), s2)"
  shows "Teams g \<noteq> [] \<and> (\<forall>t\<in>set (Teams g). TeamInfo_ID t = filterTeamID)"
proof -
  obtain out s1 where call: "GetTeamsForUser client (User_Id u) s = (out, s1)"
    by (cases "GetTeamsForUser client (User_Id u) s")
  with assms(2) obtain found where "out = Inr found"
    by (cases out) (auto simp: processGuest_def)
  with call processGuest_scoped_teams [OF assms(1) _ assms(2)] show ?thesis
    by auto
qed

lemma processGuest_skips:
  assumes "filterTeamID \<noteq> []"
    and "GetTeamsForUser client (User_Id u) s = (Inr found, s1)"
    and "filter (\<lambda>t. Team_Id t = filterTeamID) found = []"
  shows "processGuest time_Now client u filterTeamID inactiveDays verbose s = (Inr None, s1)"
  using assms filterTeams_scoped [OF assms(1), of found]
  by (simp add: processGuest_def)

lemma processGuests_scoped:
  assumes "filterTeamID \<noteq> []"
  shows "processGuests time_Now client filterTeamID inactiveDays verbose us result exitCode s
           = ((result', exitCode'), s')
   \<Longrightarrow> \<exists>recs. Guests result' = Guests result @ recs
        \<and> (\<forall>g\<in>set recs. Error g = [] \<longrightarrow>
              Teams g \<noteq> [] \<and> (\<forall>t\<in>set (Teams g). TeamInfo_ID t = filterTeamID))"
proof (induction us arbitrary: result exitCode s)
  case Nil
  then show ?case by simp
next
  case (Cons u us)
  obtain out s1 where
    pg: "processGuest time_Now client u filterTeamID inactiveDays verbose s = (out, s1)"
    by (metis surj_pair)
  show ?case
  proof (cases out)
    case (Inl e)
    let ?result1 = "result\<lparr>Guests := Guests result @ [stubRecord u e],
                    Summary := (Summary result)
                      \<lparr>FailedLookups := FailedLookups (Summary result) + 1\<rparr>\<rparr>"
    from Inl pg have "e \<noteq> []" by (auto dest: processGuest_Inl_nonempty)
    moreover from Inl pg Cons.prems have
      "processGuests time_Now client filterTeamID inactiveDays verbose us ?result1
         ExitPartialFailure s1 = ((result', exitCode'), s')"
      by simp
    from Cons.IH [OF this] obtain recs where
      "Guests result' = Guests ?result1 @ recs"
      "\<forall>g\<in>set recs. Error g = [] \<longrightarrow>
              Teams g \<noteq> [] \<and> (\<forall>t\<in>set (Teams g). TeamInfo_ID t = filterTeamID)"
      by blast
    ultimately show ?thesis
      by (intro exI [of _ "stubRecord u e # recs"]) (simp add: stubRecord_def)
  next
    case (Inr opt)
    show ?thesis
    proof (cases opt)
      case None
      with Inr pg Cons.prems have
        "processGuests time_Now client filterTeamID inactiveDays verbose us result
           exitCode s1 = ((result', exitCode'), s')"
        by simp
      then show ?thesis by (rule Cons.IH)
    next
      case (Some g)
      let ?result1 = "result\<lparr>Guests := Guests result @ [g]\<rparr>"
      from Some Inr pg Cons.prems have run:
        "processGuests time_Now client filterTeamID inactiveDays verbose us ?result1
           exitCode s1 = ((result', exitCode'), s')"
        by simp
      from Some Inr pg processGuest_scoped_record [OF assms] have
        g: "Teams g \<noteq> [] \<and> (\<forall>t\<in>set (Teams g). TeamInfo_ID t = filterTeamID)"
        by metis
      from Cons.IH [OF run] obtain recs where
        "Guests result' = Guests ?result1 @ recs"
        "\<forall>g\<in>set recs. Error g = [] \<longrightarrow>
              Teams g \<noteq> [] \<and> (\<forall>t\<in>set (Teams g). TeamInfo_ID t = filterTeamID)"
        by blast
      with g show ?thesis
        by (intro exI [of _ "g # recs"]) simp
    qed
  qed
qed

lemma RunAudit_scoped:
  assumes resolve: "resolveTeamFilter client teamFilter s = (Inr filterTeamID, s1)"
    and active: "filterTeamID \<noteq> []"
    and run: "RunAudit time_Now client teamFilter inactiveDays verbose s
                = Some ((Some result, exitCode), s')"
  shows "\<forall>g\<in>set (Guests result). Error g = [] \<longrightarrow>
           Teams g \<noteq> [] \<and> (\<forall>t\<in>set (Teams g). TeamInfo_ID t = filterTeamID)"
proof -
  from run obtain allGuests s2 result0 where
    loop: "processGuests time_Now client filterTeamID inactiveDays verbose allGuests
             \<lparr>Guests = [], Summary = emptySummary, InactiveDays = inactiveDays\<rparr>
             ExitSuccess s2 = ((result0, exitCode), s')"
    and res: "result = result0\<lparr>Summary := (calcSummary (Guests result0) (Summary result0))
                \<lparr>TotalGuests := int (length (Guests result0))\<rparr>\<rparr>"
    by (auto simp: RunAudit_resolved [OF resolve] split: prod.splits sum.splits option.splits)
  from processGuests_scoped [OF active loop] res show ?thesis by auto
qed

text \<open>
  C6, as amended. With team scoping active (the identity of the filtered team is not
  empty), the record of a guest whose processing succeeds holds exactly the teams of
  the guest with the filtered identity, at least one; a guest whose teams were fetched
  and hold no such team is skipped, leaving the result, its counters and the exit code
  as they were; so every record of the result without error description has a team, and
  only teams of the filtered identity. The records that carry an error are outside
  this statement.
\<close>

theorem team_filter_scopes_result:
  "(filterTeamID \<noteq> [] \<longrightarrow>
    GetTeamsForUser client (User_Id u) s = (Inr found, s1) \<longrightarrow>
    processGuest time_Now client u filterTeamID inactiveDays verbose s = (Inr (Some g), s2) \<longrightarrow>
      Teams g =
        map (\<lambda>t. \<lparr>TeamInfo_ID = Team_Id t, TeamInfo_DisplayName = Team_DisplayName t\<rparr>)
          (filter (\<lambda>t. Team_Id t = filterTeamID) found)
      \<and> Teams g \<noteq> [])
   \<and> (filterTeamID \<noteq> [] \<longrightarrow>
       GetTeamsForUser client (User_Id u) s = (Inr found, s1) \<longrightarrow>
       filter (\<lambda>t. Team_Id t = filterTeamID) found = [] \<longrightarrow>
         processGuests time_Now client filterTeamID inactiveDays verbose (u # us) result
           exitCode s
         = processGuests time_Now client filterTeamID inactiveDays verbose us result
             exitCode s1)
   \<and> (resolveTeamFilter client teamFilter s0 = (Inr filterTeamID, s0') \<longrightarrow>
       filterTeamID \<noteq> [] \<longrightarrow>
       RunAudit time_Now client teamFilter inactiveDays verbose s0
         = Some ((Some result', exitCode'), s') \<longrightarrow>
         (\<forall>r\<in>set (Guests result'). Error r = [] \<longrightarrow>
            Teams r \<noteq> [] \<and> (\<forall>t\<in>set (Teams r). TeamInfo_ID t = filterTeamID)))"
proof (intro conjI)
  show "filterTeamID \<noteq> [] \<longrightarrow>
    GetTeamsForUser client (User_Id u) s = (Inr found, s1) \<longrightarrow>
    processGuest time_Now client u filterTeamID inactiveDays verbose s = (Inr (Some g), s2) \<longrightarrow>
      Teams g =
        map (\<lambda>t. \<lparr>TeamInfo_ID = Team_Id t, TeamInfo_DisplayName = Team_DisplayName t\<rparr>)
          (filter (\<lambda>t. Team_Id t = filterTeamID) found)
      \<and> Teams g \<noteq> []"
    using processGuest_scoped_teams by (intro impI)
  show "filterTeamID \<noteq> [] \<longrightarrow>
       GetTeamsForUser client (User_Id u) s = (Inr found, s1) \<longrightarrow>
       filter (\<lambda>t. Team_Id t = filterTeamID) found = [] \<longrightarrow>
         processGuests time_Now client filterTeamID inactiveDays verbose (u # us) result
           exitCode s
         = processGuests time_Now client filterTeamID inactiveDays verbose us result
             exitCode s1"
    by (simp add: processGuest_skips)
  show "resolveTeamFilter client teamFilter s0 = (Inr filterTeamID, s0') \<longrightarrow>
       filterTeamID \<noteq> [] \<longrightarrow>
       RunAudit time_Now client teamFilter inactiveDays verbose s0
         = Some ((Some result', exitCode'), s') \<longrightarrow>
         (\<forall>r\<in>set (Guests result'). Error r = [] \<longrightarrow>
            Teams r \<noteq> [] \<and> (\<forall>t\<in>set (Teams r). TeamInfo_ID t = filterTeamID))"
    using RunAudit_scoped by (intro impI)
qed

theorem team_filter_scopes_result_witness:
  "''team2'' \<noteq> []
   \<and> GetTeamsForUser (mockAsClient teamFilterScenario) (User_Id bob) startTime
       = (Inr [engineering, sales], startTime)
   \<and> processGuest (\<lambda>s. s) (mockAsClient teamFilterScenario) bob ''team2'' 0 False startTime
       = (Inr (Some bobSalesRecord), startTime)
   \<and> Teams bobSalesRecord = [salesInfo]
   \<and> GetTeamsForUser (mockAsClient teamFilterScenario) (User_Id jane) startTime
       = (Inr [engineering], startTime)
   \<and> filter (\<lambda>t. Team_Id t = ''team2'') [engineering] = []
   \<and> processGuests (\<lambda>s. s) (mockAsClient teamFilterScenario) ''team2'' 0 False [jane, bob]
         \<lparr>Guests = [], Summary = emptySummary, InactiveDays = 0\<rparr> ExitSuccess startTime
       = processGuests (\<lambda>s. s) (mockAsClient teamFilterScenario) ''team2'' 0 False [bob]
           \<lparr>Guests = [], Summary = emptySummary, InactiveDays = 0\<rparr> ExitSuccess startTime
   \<and> resolveTeamFilter (mockAsClient teamFilterScenario) ''Sales'' startTime
       = (Inr ''team2'', startTime)
   \<and> RunAudit (\<lambda>s. s) (mockAsClient teamFilterScenario) ''Sales'' 0 False startTime
       = Some ((Some teamFilterResult, ExitSuccess), startTime)
   \<and> Guests teamFilterResult = [bobSalesRecord]
   \<and> Teams bobSalesRecord \<noteq> []"
proof -
  have active: "''team2'' \<noteq> []" by simp
  have teamsBob: "GetTeamsForUser (mockAsClient teamFilterScenario) (User_Id bob) startTime
                    = (Inr [engineering, sales], startTime)"
    by (simp add: mock_defs teamFilterScenario_def)
  have recBob: "processGuest (\<lambda>s. s) (mockAsClient teamFilterScenario) bob ''team2'' 0 False
                  startTime = (Inr (Some bobSalesRecord), startTime)"
    by (simp add: audit_defs mock_defs record_defs teamFilterScenario_def)
  have teamsJane: "GetTeamsForUser (mockAsClient teamFilterScenario) (User_Id jane) startTime
                     = (Inr [engineering], startTime)"
    by (simp add: mock_defs teamFilterScenario_def)
  have none: "filter (\<lambda>t. Team_Id t = ''team2'') [engineering] = []"
    by (simp add: engineering_def)
  have resolve: "resolveTeamFilter (mockAsClient teamFilterScenario) ''Sales'' startTime
                   = (Inr ''team2'', startTime)"
    by (simp add: resolveTeamFilter_def mock_defs teamFilterScenario_def)
  have run: "RunAudit (\<lambda>s. s) (mockAsClient teamFilterScenario) ''Sales'' 0 False startTime
               = Some ((Some teamFilterResult, ExitSuccess), startTime)"
    by (simp add: audit_defs mock_defs record_defs teamFilterScenario_def teamFilterResult_def)
  have guests: "Guests teamFilterResult = [bobSalesRecord]"
    by (simp add: teamFilterResult_def)
  note kept = team_filter_scopes_result
    [where filterTeamID = "''team2''" and client = "mockAsClient teamFilterScenario"
       and u = bob and s = startTime and found = "[engineering, sales]" and ?s1.0 = startTime
       and time_Now = "\<lambda>s. s" and inactiveDays = 0 and verbose = False
       and g = bobSalesRecord and ?s2.0 = startTime
       and teamFilter = "''Sales''" and ?s0.0 = startTime and s0' = startTime
       and result' = teamFilterResult and exitCode' = ExitSuccess and s' = startTime]
  note skipped = team_filter_scopes_result
    [where filterTeamID = "''team2''" and client = "mockAsClient teamFilterScenario"
       and u = jane and s = startTime and found = "[engineering]" and ?s1.0 = startTime
       and time_Now = "\<lambda>s. s" and inactiveDays = 0 and verbose = False
       and us = "[bob]"
       and result = "\<lparr>Guests = [], Summary = emptySummary, InactiveDays = 0\<rparr>"
       and exitCode = ExitSuccess]
  from kept [THEN conjunct1, rule_format, OF active teamsBob recBob]
  have teams: "Teams bobSalesRecord = [salesInfo]"
    by (simp add: record_defs engineering_def sales_def)
  have "bobSalesRecord \<in> set (Guests teamFilterResult)" "Error bobSalesRecord = []"
    by (simp_all add: guests bobSalesRecord_def)
  with kept [THEN conjunct2, THEN conjunct2, rule_format, OF resolve active run]
  have scoped: "Teams bobSalesRecord \<noteq> []"
    by blast
  from skipped [THEN conjunct2, THEN conjunct1, rule_format, OF active teamsJane none]
  have skip:
    "processGuests (\<lambda>s. s) (mockAsClient teamFilterScenario) ''team2'' 0 False [jane, bob]
         \<lparr>Guests = [], Summary = emptySummary, InactiveDays = 0\<rparr> ExitSuccess startTime
       = processGuests (\<lambda>s. s) (mockAsClient teamFilterScenario) ''team2'' 0 False [bob]
           \<lparr>Guests = [], Summary = emptySummary, InactiveDays = 0\<rparr> ExitSuccess startTime" .
  from active teamsBob recBob teams teamsJane none skip resolve run guests scoped
  show ?thesis by (intro conjI)
qed

text \<open>
  The claim C6 as first stated, that the result of a run with a team filter holds only
  guests with a membership in the filtered team, fails for the run of the team-filter
  test when the lookup of the teams of the first guest fails: this guest, whom the
  mock has in Engineering only, is in the result of the run filtered to Sales, with a
  record without teams.
\<close>

theorem team_filter_counterexample:
  "resolveTeamFilter (mockAsClient teamFilterFailure) ''Sales'' startTime
     = (Inr ''team2'', startTime)
   \<and> teams teamFilterFailure (User_Id jane) = Some [engineering]
   \<and> filter (\<lambda>t. Team_Id t = ''team2'') [engineering] = []
   \<and> RunAudit (\<lambda>s. s) (mockAsClient teamFilterFailure) ''Sales'' 0 False startTime
       = Some ((Some teamFilterFailureResult, ExitPartialFailure), startTime)
   \<and> Guests teamFilterFailureResult = [janeStub, bobSalesRecord]
   \<and> Username janeStub = User_Username jane
   \<and> Teams janeStub = []"
  by (simp add: audit_defs mock_defs record_defs teamFilterScenario_def teamFilterFailure_def
        teamFilterFailureResult_def)

section \<open>Collecting the pages\<close>

lemma mock_two_pages:
  assumes "guestsErr m = None" and "length (guests m) = 250"
  shows "mock_GetGuestUsers m 0 perPage = Inr (take 200 (guests m))"
    and "mock_GetGuestUsers m 1 perPage = Inr (drop 200 (guests m))"
  using assms by (simp_all add: mock_GetGuestUsers_def perPage_def Let_def)

lemma mock_fetch_250:
  assumes "guestsErr m = None" and "length (guests m) = 250"
  shows "fetchGuests (logged (mockAsClient m)) 0 [] (w, [])
           = Some (Inr (guests m),
               (w, [EvGetGuestUsers 0 200 (Inr (take 200 (guests m))),
                    EvGetGuestUsers 1 200 (Inr (drop 200 (guests m)))]))"
proof -
  let ?c = "logged (mockAsClient m)"
  let ?ev0 = "EvGetGuestUsers 0 200 (Inr (take 200 (guests m)))"
  let ?ev1 = "EvGetGuestUsers 1 200 (Inr (drop 200 (guests m)))"
  have full: "fullPages ?c 1 0 (w, []) = Some (take 200 (guests m), (w, [?ev0]))"
    using mock_two_pages(1) [OF assms] assms(2)
    by (simp add: logged_calls mockAsClient_def perPage_def)
  have short: "GetGuestUsers ?c (0 + int 1) perPage (w, [?ev0])
                 = (Inr (drop 200 (guests m)), (w, [?ev0, ?ev1]))"
    using mock_two_pages(2) [OF assms]
    by (simp add: logged_calls mockAsClient_def perPage_def)
  have "int (length (drop 200 (guests m))) < perPage"
    using assms(2) by (simp add: perPage_def)
  from fetchGuests_short_page [OF full short this, of "[]"] show ?thesis by simp
qed

lemma mock_run_250:
  assumes "guestsErr m = None" and "length (guests m) = 250"
  shows "\<exists>result exitCode w' log.
           RunAudit time_Now (logged (mockAsClient m)) [] inactiveDays verbose (w, [])
             = Some ((Some result, exitCode), (w', log))
         \<and> filter isGetGuestUsers log
             = [EvGetGuestUsers 0 200 (Inr (take 200 (guests m))),
                EvGetGuestUsers 1 200 (Inr (drop 200 (guests m)))]
         \<and> length (Guests result) = 250
         \<and> map Username (Guests result) = map User_Username (guests m)"
proof -
  let ?c = "logged (mockAsClient m)"
  let ?log2 = "[EvGetGuestUsers 0 200 (Inr (take 200 (guests m))),
                EvGetGuestUsers 1 200 (Inr (drop 200 (guests m)))]"
  obtain result0 code0 w3 log3 where
    loop: "processGuests time_Now ?c [] inactiveDays verbose (guests m)
             \<lparr>Guests = [], Summary = emptySummary, InactiveDays = inactiveDays\<rparr>
             ExitSuccess (w, ?log2) = ((result0, code0), (w3, log3))"
    by (metis surj_pair)
  from processGuests_logged [OF loop] obtain es2 where
    es2: "log3 = ?log2 @ es2" "filter isGetGuestUsers es2 = []"
    by auto
  from processGuests_order [OF loop] have
    names: "map Username (Guests result0) = map User_Username (guests m)"
    by auto
  then have "length (Guests result0) = length (guests m)"
    by (metis length_map)
  with names es2 assms(2) loop mock_fetch_250 [OF assms, of w] show ?thesis
    by (simp add: RunAudit_unfiltered)
qed

lemma pages_from_Suc:
  "(page, n) # map (\<lambda>i. (page + 1 + int i, n)) [0..<k] = map (\<lambda>i. (page + int i, n)) [0..<Suc k]"
proof -
  have "map (\<lambda>i. (page + int i, n)) [0..<Suc k]
          = (page + int 0, n) # map ((\<lambda>i. (page + int i, n)) \<circ> Suc) [0..<k]"
    by (simp only: map_upt_Suc comp_def)
  then show ?thesis by (simp add: comp_def add.assoc add.commute)
qed

lemma fetchGuests_logged_pages_aux:
  "fetchGuests client page acc w = Some y
   \<Longrightarrow> \<forall>c s log r s' log'. client = logged c \<longrightarrow> w = (s, log) \<longrightarrow> y = (r, (s', log')) \<longrightarrow>
        (\<exists>es. log' = log @ es \<and> es \<noteq> []
           \<and> map pageCall es = map (\<lambda>i. (page + int i, perPage)) [0..<length es]
           \<and> (\<forall>ev\<in>set (butlast es). fullPageEv ev)
           \<and> (case r of Inl e \<Rightarrow> True | Inr gs \<Rightarrow> shortPageEv (last es)))"
proof (induction client page acc w y rule: fetchGuests.raw_induct [rotated 1, consumes 1])
  case (1 fetch client page acc w y)
  show ?case
  proof (intro allI impI)
    fix c s log r s' log'
    assume cl: "client = logged c" and w: "w = (s, log)" and y: "y = (r, (s', log'))"
    obtain out s1 where call: "GetGuestUsers c page perPage s = (out, s1)"
      by (cases "GetGuestUsers c page perPage s")
    let ?ev = "EvGetGuestUsers page perPage out"
    show "\<exists>es. log' = log @ es \<and> es \<noteq> []
           \<and> map pageCall es = map (\<lambda>i. (page + int i, perPage)) [0..<length es]
           \<and> (\<forall>ev\<in>set (butlast es). fullPageEv ev)
           \<and> (case r of Inl e \<Rightarrow> True | Inr gs \<Rightarrow> shortPageEv (last es))"
    proof (cases out)
      case (Inl e)
      with 1(2) cl w y call show ?thesis
        by (intro exI [of _ "[?ev]"]) (auto simp: logged_calls)
    next
      case (Inr users)
      show ?thesis
      proof (cases "int (length users) < perPage")
        case True
        with Inr 1(2) cl w y call show ?thesis
          by (intro exI [of _ "[?ev]"]) (auto simp: logged_calls)
      next
        case False
        with Inr 1(2) cl w y call have step:
          "fetch (logged c) (page + 1) (acc @ users) (s1, log @ [?ev]) = Some (r, (s', log'))"
          by (simp add: logged_calls)
        from 1(1) [OF step] obtain es where
          es: "log' = (log @ [?ev]) @ es" "es \<noteq> []"
          "map pageCall es = map (\<lambda>i. (page + 1 + int i, perPage)) [0..<length es]"
          "\<forall>ev\<in>set (butlast es). fullPageEv ev"
          "case r of Inl e \<Rightarrow> True | Inr gs \<Rightarrow> shortPageEv (last es)"
          by (elim allE [of _ c] allE [of _ s1] allE [of _ "log @ [?ev]"] allE [of _ r]
                allE [of _ s'] allE [of _ log']) auto
        have pages: "map pageCall (?ev # es)
                       = map (\<lambda>i. (page + int i, perPage)) [0..<length (?ev # es)]"
          using es(3) pages_from_Suc [of page perPage "length es"] by simp
        from es(1,2,4,5) Inr False show ?thesis
          by (intro exI [of _ "?ev # es"] conjI pages) (auto split: sum.splits)
      qed
    qed
  qed
qed

lemma fetchGuests_logged_pages:
  assumes "fetchGuests (logged client) page acc (s, log) = Some (r, (s', log'))"
  shows "\<exists>es. log' = log @ es \<and> es \<noteq> []
           \<and> map pageCall es = map (\<lambda>i. (page + int i, perPage)) [0..<length es]
           \<and> (\<forall>ev\<in>set (butlast es). fullPageEv ev)
           \<and> (case r of Inl e \<Rightarrow> True | Inr gs \<Rightarrow> shortPageEv (last es))"
  using fetchGuests_logged_pages_aux [OF assms] by blast

lemma filter_all_listing: "\<forall>ev\<in>set es. isGetGuestUsers ev \<Longrightarrow> filter isGetGuestUsers es = es"
  by (simp add: filter_id_conv)

lemma run_pages_in_log:
  assumes run: "RunAudit time_Now (logged client) teamFilter inactiveDays verbose (s, [])
                  = Some ((Some result, exitCode), (s', log))"
  shows "filter isGetGuestUsers log \<noteq> []
     \<and> map pageCall (filter isGetGuestUsers log)
         = map (\<lambda>i. (int i, 200)) [0..<length (filter isGetGuestUsers log)]
     \<and> (\<forall>ev\<in>set (butlast (filter isGetGuestUsers log)). fullPageEv ev)
     \<and> shortPageEv (last (filter isGetGuestUsers log))
     \<and> subseq (map Username (Guests result)) (map User_Username (listedGuests log))
     \<and> (teamFilter = [] \<longrightarrow>
           map Username (Guests result) = map User_Username (listedGuests log))"
proof -
  obtain r s1 log1 where
    resolve: "resolveTeamFilter (logged client) teamFilter (s, []) = (r, (s1, log1))"
    by (metis surj_pair)
  from resolveTeamFilter_logged [OF resolve] have no1: "filter isGetGuestUsers log1 = []"
    by auto
  from run resolve obtain filterTeamID where r: "r = Inr filterTeamID"
    by (cases r) (auto simp: RunAudit_def)
  from resolve r have nofilter: "teamFilter = [] \<longrightarrow> filterTeamID = []"
    by (auto simp: resolveTeamFilter_def)
  note unfold = RunAudit_resolved [OF resolve [unfolded r]]
  from run obtain fr s2 log2 where
    fetch: "fetchGuests (logged client) 0 [] (s1, log1) = Some (fr, (s2, log2))"
    by (auto simp: unfold split: option.splits)
  from run fetch obtain gs where fr: "fr = Inr gs"
    by (cases fr) (auto simp: unfold)
  from fetchGuests_logged [OF fetch] fr obtain es1 where
    es1: "log2 = log1 @ es1" "\<forall>ev\<in>set es1. isGetGuestUsers ev" "gs = listedGuests es1"
    by auto
  from fetchGuests_logged_pages [OF fetch] fr es1(1) have
    pages: "es1 \<noteq> []"
    "map pageCall es1 = map (\<lambda>i. (0 + int i, perPage)) [0..<length es1]"
    "\<forall>ev\<in>set (butlast es1). fullPageEv ev" "shortPageEv (last es1)"
    by auto
  obtain result0 code0 s3 log3 where
    loop: "processGuests time_Now (logged client) filterTeamID inactiveDays verbose gs
             \<lparr>Guests = [], Summary = emptySummary, InactiveDays = inactiveDays\<rparr>
             ExitSuccess (s2, log2) = ((result0, code0), (s3, log3))"
    by (metis surj_pair)
  with run fetch fr have guests: "Guests result = Guests result0" and log: "log = log3"
    by (auto simp: unfold)
  from processGuests_logged [OF loop] obtain es2 where
    es2: "log3 = log2 @ es2" "filter isGetGuestUsers es2 = []"
    by auto
  from processGuests_order [OF loop] have
    order: "subseq (map Username (Guests result0)) (map User_Username gs)"
    "filterTeamID = [] \<longrightarrow> map Username (Guests result0) = map User_Username gs"
    by auto
  have listing: "filter isGetGuestUsers log = es1"
    using log es2 es1(1) no1 filter_all_listing [OF es1(2)] by simp
  have listed: "listedGuests log = gs"
    using log es2 es1(1,3) no1
    by (simp add: listedGuests_append listedGuests_no_listing)
  from pages order nofilter show ?thesis
    by (simp add: listing listed guests perPage_def)
qed

text \<open>
  C7. When \<open>k\<close> full pages, asked for with the page indices 0, 1, ... and the page
  size 200, are followed by a page with fewer than 200 users (an empty page included),
  the run has collected the users of all these pages in the order of the calls; it then
  returns a result whose records follow the order of the collected guests, one record
  per guest when no team filter is set. Read on the log of a run that returned a result:
  its guest-listing calls asked for the pages 0, 1, 2, ... in this order, each with the
  page size 200; every call but the last answered with a full page and the last with a
  shorter one; and the records of the result follow the order of the guests these
  calls returned. Against the mock client with exactly 250 guests the run makes exactly
  two guest-listing calls, for the pages 0 and 1, and its result has the 250 guests in
  their order.
\<close>

theorem pagination_collects_all_guests:
  "(resolveTeamFilter client teamFilter s = (Inr filterTeamID, s1) \<longrightarrow>
    fullPages client k 0 s1 = Some (users, s2) \<longrightarrow>
    GetGuestUsers client (int k) perPage s2 = (Inr lastPage, s3) \<longrightarrow>
    int (length lastPage) < perPage \<longrightarrow>
      fetchGuests client 0 [] s1 = Some (Inr (users @ lastPage), s3)
      \<and> (\<exists>result exitCode s'.
             RunAudit time_Now client teamFilter inactiveDays verbose s
               = Some ((Some result, exitCode), s')
           \<and> subseq (map Username (Guests result)) (map User_Username (users @ lastPage))
           \<and> (filterTeamID = [] \<longrightarrow>
                 map Username (Guests result) = map User_Username (users @ lastPage))))
   \<and> perPage = 200
   \<and> (RunAudit time_NowL (logged clientL) teamFilterL inactiveDaysL verboseL (sL, [])
          = Some ((Some resultL, exitCodeL), (sL', logL)) \<longrightarrow>
        filter isGetGuestUsers logL \<noteq> []
        \<and> map pageCall (filter isGetGuestUsers logL)
            = map (\<lambda>i. (int i, 200)) [0..<length (filter isGetGuestUsers logL)]
        \<and> (\<forall>ev\<in>set (butlast (filter isGetGuestUsers logL)). fullPageEv ev)
        \<and> shortPageEv (last (filter isGetGuestUsers logL))
        \<and> subseq (map Username (Guests resultL)) (map User_Username (listedGuests logL))
        \<and> (teamFilterL = [] \<longrightarrow>
              map Username (Guests resultL) = map User_Username (listedGuests logL)))
   \<and> (guestsErr m = None \<longrightarrow> length (guests m) = 250 \<longrightarrow>
        (\<exists>result exitCode w' log.
           RunAudit time_Now' (logged (mockAsClient m)) [] inactiveDays' verbose' (w, [])
             = Some ((Some result, exitCode), (w', log))
         \<and> filter isGetGuestUsers log
             = [EvGetGuestUsers 0 200 (Inr (take 200 (guests m))),
                EvGetGuestUsers 1 200 (Inr (drop 200 (guests m)))]
         \<and> length (Guests result) = 250
         \<and> map Username (Guests result) = map User_Username (guests m)))"
proof -
  have pages:
    "resolveTeamFilter client teamFilter s = (Inr filterTeamID, s1) \<longrightarrow>
     fullPages client k 0 s1 = Some (users, s2) \<longrightarrow>
     GetGuestUsers client (int k) perPage s2 = (Inr lastPage, s3) \<longrightarrow>
     int (length lastPage) < perPage \<longrightarrow>
      fetchGuests client 0 [] s1 = Some (Inr (users @ lastPage), s3)
      \<and> (\<exists>result exitCode s'.
             RunAudit time_Now client teamFilter inactiveDays verbose s
               = Some ((Some result, exitCode), s')
           \<and> subseq (map Username (Guests result)) (map User_Username (users @ lastPage))
           \<and> (filterTeamID = [] \<longrightarrow>
                 map Username (Guests result) = map User_Username (users @ lastPage)))"
  proof (intro conjI impI)
    assume resolve: "resolveTeamFilter client teamFilter s = (Inr filterTeamID, s1)"
      and full: "fullPages client k 0 s1 = Some (users, s2)"
      and last: "GetGuestUsers client (int k) perPage s2 = (Inr lastPage, s3)"
      and short: "int (length lastPage) < perPage"
    from last have "GetGuestUsers client (0 + int k) perPage s2 = (Inr lastPage, s3)"
      by simp
    from fetchGuests_short_page [OF full this short, of "[]"]
    show fetch: "fetchGuests client 0 [] s1 = Some (Inr (users @ lastPage), s3)"
      by simp
    from RunAudit_after_listing [OF resolve fetch]
    show "\<exists>result exitCode s'.
             RunAudit time_Now client teamFilter inactiveDays verbose s
               = Some ((Some result, exitCode), s')
           \<and> subseq (map Username (Guests result)) (map User_Username (users @ lastPage))
           \<and> (filterTeamID = [] \<longrightarrow>
                 map Username (Guests result) = map User_Username (users @ lastPage))" .
  qed
  have size: "perPage = 200"
    by (simp add: perPage_def)
  have trace:
    "RunAudit time_NowL (logged clientL) teamFilterL inactiveDaysL verboseL (sL, [])
          = Some ((Some resultL, exitCodeL), (sL', logL)) \<longrightarrow>
        filter isGetGuestUsers logL \<noteq> []
        \<and> map pageCall (filter isGetGuestUsers logL)
            = map (\<lambda>i. (int i, 200)) [0..<length (filter isGetGuestUsers logL)]
        \<and> (\<forall>ev\<in>set (butlast (filter isGetGuestUsers logL)). fullPageEv ev)
        \<and> shortPageEv (last (filter isGetGuestUsers logL))
        \<and> subseq (map Username (Guests resultL)) (map User_Username (listedGuests logL))
        \<and> (teamFilterL = [] \<longrightarrow>
              map Username (Guests resultL) = map User_Username (listedGuests logL))"
  proof (rule impI)
    assume "RunAudit time_NowL (logged clientL) teamFilterL inactiveDaysL verboseL (sL, [])
          = Some ((Some resultL, exitCodeL), (sL', logL))"
    then show "filter isGetGuestUsers logL \<noteq> []
        \<and> map pageCall (filter isGetGuestUsers logL)
            = map (\<lambda>i. (int i, 200)) [0..<length (filter isGetGuestUsers logL)]
        \<and> (\<forall>ev\<in>set (butlast (filter isGetGuestUsers logL)). fullPageEv ev)
        \<and> shortPageEv (last (filter isGetGuestUsers logL))
        \<and> subseq (map Username (Guests resultL)) (map User_Username (listedGuests logL))
        \<and> (teamFilterL = [] \<longrightarrow>
              map Username (Guests resultL) = map User_Username (listedGuests logL))"
      by (rule run_pages_in_log)
  qed
  have mock:
    "guestsErr m = None \<longrightarrow> length (guests m) = 250 \<longrightarrow>
        (\<exists>result exitCode w' log.
           RunAudit time_Now' (logged (mockAsClient m)) [] inactiveDays' verbose' (w, [])
             = Some ((Some result, exitCode), (w', log))
         \<and> filter isGetGuestUsers log
             = [EvGetGuestUsers 0 200 (Inr (take 200 (guests m))),
                EvGetGuestUsers 1 200 (Inr (drop 200 (guests m)))]
         \<and> length (Guests result) = 250
         \<and> map Username (Guests result) = map User_Username (guests m))"
  proof (intro impI)
    assume "guestsErr m = None" and "length (guests m) = 250"
    then show "\<exists>result exitCode w' log.
           RunAudit time_Now' (logged (mockAsClient m)) [] inactiveDays' verbose' (w, [])
             = Some ((Some result, exitCode), (w', log))
         \<and> filter isGetGuestUsers log
             = [EvGetGuestUsers 0 200 (Inr (take 200 (guests m))),
                EvGetGuestUsers 1 200 (Inr (drop 200 (guests m)))]
         \<and> length (Guests result) = 250
         \<and> map Username (Guests result) = map User_Username (guests m)"
      by (rule mock_run_250)
  qed
  from pages size trace mock show ?thesis
    by (intro conjI)
qed

theorem pagination_collects_all_guests_witness:
  "resolveTeamFilter (mockAsClient manyGuests) [] startTime = (Inr [], startTime)
   \<and> fullPages (mockAsClient manyGuests) 1 0 startTime
       = Some (take 200 (guests manyGuests), startTime)
   \<and> GetGuestUsers (mockAsClient manyGuests) (int 1) perPage startTime
       = (Inr (drop 200 (guests manyGuests)), startTime)
   \<and> int (length (drop 200 (guests manyGuests))) < perPage
   \<and> guestsErr manyGuests = None
   \<and> length (guests manyGuests) = 250
   \<and> fetchGuests (mockAsClient manyGuests) 0 [] startTime
       = Some (Inr (take 200 (guests manyGuests) @ drop 200 (guests manyGuests)), startTime)
   \<and> (\<exists>result exitCode w' log.
         RunAudit fst (logged (mockAsClient manyGuests)) [] 0 False (startTime, [])
           = Some ((Some result, exitCode), (w', log))
       \<and> filter isGetGuestUsers log
           = [EvGetGuestUsers 0 200 (Inr (take 200 (guests manyGuests))),
              EvGetGuestUsers 1 200 (Inr (drop 200 (guests manyGuests)))]
       \<and> length (Guests result) = 250
       \<and> map Username (Guests result) = map User_Username (guests manyGuests))
   \<and> RunAudit fst (logged (mockAsClient teamFilterScenario)) ''Sales'' 0 False (startTime, [])
       = Some ((Some teamFilterResult, ExitSuccess), (startTime, teamFilterLog))
   \<and> filter isGetGuestUsers teamFilterLog = [EvGetGuestUsers 0 200 (Inr [jane, bob])]
   \<and> map pageCall (filter isGetGuestUsers teamFilterLog) = [(0, 200)]
   \<and> shortPageEv (last (filter isGetGuestUsers teamFilterLog))
   \<and> listedGuests teamFilterLog = [jane, bob]
   \<and> map Username (Guests teamFilterResult) = [''bob.smith'']
   \<and> subseq (map Username (Guests teamFilterResult))
         (map User_Username (listedGuests teamFilterLog))"
proof -
  have noErr: "guestsErr manyGuests = None"
    by (simp add: manyGuests_def emptyMock_def)
  have len: "length (guests manyGuests) = 250"
    by (simp add: manyGuests_def)
  have resolve: "resolveTeamFilter (mockAsClient manyGuests) [] startTime = (Inr [], startTime)"
    by (simp add: resolveTeamFilter_def)
  have full: "fullPages (mockAsClient manyGuests) 1 0 startTime
                = Some (take 200 (guests manyGuests), startTime)"
    using mock_two_pages(1) [OF noErr len] len by (simp add: mockAsClient_def perPage_def)
  have lastPage: "GetGuestUsers (mockAsClient manyGuests) (int 1) perPage startTime
                = (Inr (drop 200 (guests manyGuests)), startTime)"
    using mock_two_pages(2) [OF noErr len] by (simp add: mockAsClient_def)
  have short: "int (length (drop 200 (guests manyGuests))) < perPage"
    using len by (simp add: perPage_def)
  have run: "RunAudit fst (logged (mockAsClient teamFilterScenario)) ''Sales'' 0 False
               (startTime, [])
       = Some ((Some teamFilterResult, ExitSuccess), (startTime, teamFilterLog))"
    by (simp add: audit_defs mock_defs record_defs logged_calls teamFilterScenario_def
          teamFilterResult_def teamFilterLog_def)
  have listing: "filter isGetGuestUsers teamFilterLog = [EvGetGuestUsers 0 200 (Inr [jane, bob])]"
    by (simp add: teamFilterLog_def)
  have listed: "listedGuests teamFilterLog = [jane, bob]"
    by (simp add: teamFilterLog_def)
  have names: "map Username (Guests teamFilterResult) = [''bob.smith'']"
    by (simp add: teamFilterResult_def record_defs)
  note claim = pagination_collects_all_guests
    [where client = "mockAsClient manyGuests" and teamFilter = "[]" and s = startTime
       and filterTeamID = "[]" and ?s1.0 = startTime and k = 1
       and users = "take 200 (guests manyGuests)" and ?s2.0 = startTime
       and lastPage = "drop 200 (guests manyGuests)" and ?s3.0 = startTime
       and m = manyGuests and time_Now' = fst and inactiveDays' = 0 and verbose' = False
       and w = startTime
       and time_NowL = fst and clientL = "mockAsClient teamFilterScenario"
       and teamFilterL = "''Sales''" and inactiveDaysL = 0 and verboseL = False
       and sL = startTime and resultL = teamFilterResult and exitCodeL = ExitSuccess
       and sL' = startTime and logL = teamFilterLog]
  from claim [THEN conjunct1, rule_format, OF resolve full lastPage short] have fetch:
    "fetchGuests (mockAsClient manyGuests) 0 [] startTime
       = Some (Inr (take 200 (guests manyGuests) @ drop 200 (guests manyGuests)), startTime)"
    by blast
  from claim [THEN conjunct2, THEN conjunct2, THEN conjunct2, rule_format, OF noErr len]
  have two:
    "\<exists>result exitCode w' log.
         RunAudit fst (logged (mockAsClient manyGuests)) [] 0 False (startTime, [])
           = Some ((Some result, exitCode), (w', log))
       \<and> filter isGetGuestUsers log
           = [EvGetGuestUsers 0 200 (Inr (take 200 (guests manyGuests))),
              EvGetGuestUsers 1 200 (Inr (drop 200 (guests manyGuests)))]
       \<and> length (Guests result) = 250
       \<and> map Username (Guests result) = map User_Username (guests manyGuests)" .
  note trace = claim [THEN conjunct2, THEN conjunct2, THEN conjunct1, THEN mp, OF run]
  from trace listing have pages: "map pageCall (filter isGetGuestUsers teamFilterLog) = [(0, 200)]"
    by simp
  from trace have shortLast: "shortPageEv (last (filter isGetGuestUsers teamFilterLog))"
    by blast
  from trace have order:
    "subseq (map Username (Guests teamFilterResult))
       (map User_Username (listedGuests teamFilterLog))"
    by blast
  from resolve full lastPage short noErr len fetch two run listing pages shortLast listed
    names order
  show ?thesis by (intro conjI)
qed

section \<open>A last post that cannot be estimated\<close>

lemma getChannels_teamIDs:
  "getChannels client userID tis chs ids s = (Inr (chs', ids'), s')
     \<Longrightarrow> ids' = ids @ map TeamInfo_ID tis"
proof (induction tis arbitrary: chs ids s)
  case Nil
  then show ?case by simp
next
  case (Cons ti tis)
  from Cons.prems obtain found :: "Channel list" and s0 where
    "getChannels client userID tis
       (chs @ map (\<lambda>ch. \<lparr>TeamName = TeamInfo_DisplayName ti,
                           ChannelName = Channel_DisplayName ch\<rparr>) found)
       (ids @ [TeamInfo_ID ti]) s0 = (Inr (chs', ids'), s')"
    by (auto split: prod.splits sum.splits)
  from Cons.IH [OF this] show ?case by simp
qed

lemma last_post_failure_record:
  assumes teams: "GetTeamsForUser client (User_Id u) s = (Inr found, s1)"
    and scope: "filterTeams filterTeamID found \<noteq> []"
    and chans: "getChannels client (User_Id u) (filterTeams filterTeamID found) [] [] s1
                  = (Inr (chs, ids), s2)"
    and post: "GetLastPostDateForUser client (User_Id u) (User_Username u) ids s2
                 = (Inl err, s3)"
  shows "processGuest time_Now client u filterTeamID inactiveDays verbose s =
           (Inr (Some \<lparr>Username = User_Username u,
                        DisplayName = BuildDisplayName (User_FirstName u) (User_LastName u),
                        Email = User_Email u,
                        CreatedAt = MillisToTime (User_CreateAt u),
                        LastLogin = MillisToTime (User_LastActivityAt u),
                        LastPost = None,
                        Teams = filterTeams filterTeamID found,
                        Channels = chs,
                        Active = (User_DeleteAt u = 0),
                        Inactive = IsInactive time_Now (MillisToTime (User_LastActivityAt u))
                                     inactiveDays s3,
                        Error = []\<rparr>), s3)"
proof -
  from getChannels_teamIDs [OF chans] scope have "ids \<noteq> []" by simp
  with assms show ?thesis
    by (simp add: processGuest_def Let_def)
qed

lemma listing_not_last_post: "isGetGuestUsers ev \<Longrightarrow> \<not> isGetLastPostDateForUser ev"
  by (cases ev) simp_all

lemma only_last_post_failures:
  assumes run: "RunAudit time_Now (logged client) teamFilter inactiveDays verbose (s, [])
                  = Some ((res, exitCode), (s', log))"
    and only: "\<forall>ev\<in>set log. failedEv ev \<longrightarrow> isGetLastPostDateForUser ev"
  shows "\<exists>result. res = Some result \<and> exitCode = ExitSuccess
           \<and> FailedLookups (Summary result) = 0
           \<and> (\<forall>g\<in>set (Guests result). Error g = [])"
proof -
  obtain r s1 log1 where
    resolve: "resolveTeamFilter (logged client) teamFilter (s, []) = (r, (s1, log1))"
    by (metis surj_pair)
  from resolveTeamFilter_logged [OF resolve] have
    r: "case r of Inl e \<Rightarrow> log1 = [EvGetTeamByName teamFilter (Inl e)]
              | Inr x \<Rightarrow> filter failedEv log1 = []"
    by auto
  show ?thesis
  proof (cases r)
    case (Inl e)
    with run resolve r have "log = [EvGetTeamByName teamFilter (Inl e)]"
      by (simp add: RunAudit_def)
    with only have False by simp
    then show ?thesis ..
  next
    case (Inr filterTeamID)
    note unfold = RunAudit_resolved [OF resolve [unfolded Inr]]
    from run obtain fr s2 log2 where
      fetch: "fetchGuests (logged client) 0 [] (s1, log1) = Some (fr, (s2, log2))"
      by (auto simp: unfold split: option.splits)
    from fetchGuests_logged [OF fetch] obtain es1 where
      es1: "log2 = log1 @ es1" "es1 \<noteq> []" "\<forall>ev\<in>set es1. isGetGuestUsers ev"
      "case fr of
         Inl e \<Rightarrow> failedEv (last es1)
       | Inr gs \<Rightarrow> \<not> failedEv (last es1) \<and> gs = [] @ listedGuests es1"
      by auto
    show ?thesis
    proof (cases fr)
      case (Inl e)
      with run fetch have "log = log2" by (simp add: unfold)
      with es1(1,2) have "last es1 \<in> set log" by simp
      moreover from Inl es1(4) have "failedEv (last es1)" by simp
      moreover from es1(2,3) have "isGetGuestUsers (last es1)" by simp
      ultimately have False using only listing_not_last_post by blast
      then show ?thesis ..
    next
      case (Inr gs)
      obtain result0 code0 s3 log3 where
        loop: "processGuests time_Now (logged client) filterTeamID inactiveDays verbose gs
                 \<lparr>Guests = [], Summary = emptySummary, InactiveDays = inactiveDays\<rparr>
                 ExitSuccess (s2, log2) = ((result0, code0), (s3, log3))"
        by (metis surj_pair)
      with run fetch Inr have
        res: "res = Some (result0\<lparr>Summary := (calcSummary (Guests result0) (Summary result0))
                                  \<lparr>TotalGuests := int (length (Guests result0))\<rparr>\<rparr>)"
        and code: "exitCode = code0" and log: "log = log3"
        by (simp_all add: unfold)
      from processGuests_logged [OF loop] obtain es2 recs where
        es2: "log3 = log2 @ es2"
        and recs: "Guests result0 = recs"
        and clean: "filter fatalEv es2 = [] \<longrightarrow> (\<forall>g\<in>set recs. Error g = [])"
        by auto
      from only log es2 have "filter fatalEv es2 = []"
        by (auto simp: filter_empty_conv fatalEv_def)
      with clean have ok: "\<forall>g\<in>set recs. Error g = []" by simp
      then have "errorCount recs = 0"
        by (simp add: errorCount_def filter_empty_conv)
      with processGuests_invariant [OF loop] recs have
        "FailedLookups (Summary result0) = 0" "code0 = ExitSuccess"
        by (auto simp: emptySummary_def)
      with res code recs ok calcSummary_counts [of "Guests result0" "Summary result0"]
      show ?thesis by simp
    qed
  qed
qed

text \<open>
  C8. For a guest with at least one team in scope whose teams and channels were
  fetched, when the estimate of the last post fails: the record of the guest is
  completed, with no last post and no error description, and the loop goes on with the
  same counters and the same exit code. Read on the log of a run: when no call of the
  run failed but estimates of the last post, the run returns a result with the exit code
  \<open>ExitSuccess\<close>, a failed count of 0 and no record with an error.
\<close>

theorem last_post_failure_is_not_fatal:
  "(GetTeamsForUser client (User_Id u) s = (Inr found, s1) \<longrightarrow>
    filterTeams filterTeamID found \<noteq> [] \<longrightarrow>
    getChannels client (User_Id u) (filterTeams filterTeamID found) [] [] s1
      = (Inr (chs, ids), s2) \<longrightarrow>
    GetLastPostDateForUser client (User_Id u) (User_Username u) ids s2 = (Inl err, s3) \<longrightarrow>
      (\<exists>g. processGuest time_Now client u filterTeamID inactiveDays verbose s
               = (Inr (Some g), s3)
           \<and> LastPost g = None \<and> Error g = []
           \<and> Teams g = filterTeams filterTeamID found \<and> Channels g = chs
           \<and> processGuests time_Now client filterTeamID inactiveDays verbose (u # us) result
                exitCode s
              = processGuests time_Now client filterTeamID inactiveDays verbose us
                  (result\<lparr>Guests := Guests result @ [g]\<rparr>) exitCode s3))
   \<and> (RunAudit time_Now' (logged client') teamFilter' inactiveDays' verbose' (s', [])
          = Some ((res, exitCode'), (s'', log)) \<longrightarrow>
        (\<forall>ev\<in>set log. failedEv ev \<longrightarrow> isGetLastPostDateForUser ev) \<longrightarrow>
          (\<exists>result'. res = Some result' \<and> exitCode' = ExitSuccess
             \<and> FailedLookups (Summary result') = 0
             \<and> (\<forall>g\<in>set (Guests result'). Error g = [])))"
proof (intro conjI impI)
  assume "GetTeamsForUser client (User_Id u) s = (Inr found, s1)"
    and "filterTeams filterTeamID found \<noteq> []"
    and "getChannels client (User_Id u) (filterTeams filterTeamID found) [] [] s1
           = (Inr (chs, ids), s2)"
    and "GetLastPostDateForUser client (User_Id u) (User_Username u) ids s2 = (Inl err, s3)"
  from last_post_failure_record [OF this]
  show "\<exists>g. processGuest time_Now client u filterTeamID inactiveDays verbose s
               = (Inr (Some g), s3)
           \<and> LastPost g = None \<and> Error g = []
           \<and> Teams g = filterTeams filterTeamID found \<and> Channels g = chs
           \<and> processGuests time_Now client filterTeamID inactiveDays verbose (u # us) result
                exitCode s
              = processGuests time_Now client filterTeamID inactiveDays verbose us
                  (result\<lparr>Guests := Guests result @ [g]\<rparr>) exitCode s3"
    by simp
next
  assume "RunAudit time_Now' (logged client') teamFilter' inactiveDays' verbose' (s', [])
            = Some ((res, exitCode'), (s'', log))"
    and "\<forall>ev\<in>set log. failedEv ev \<longrightarrow> isGetLastPostDateForUser ev"
  then show "\<exists>result'. res = Some result' \<and> exitCode' = ExitSuccess
             \<and> FailedLookups (Summary result') = 0
             \<and> (\<forall>g\<in>set (Guests result'). Error g = [])"
    by (rule only_last_post_failures)
qed

theorem last_post_failure_is_not_fatal_witness:
  "GetTeamsForUser (mockAsClient lastPostFailure) (User_Id jane) startTime
     = (Inr [engineering], startTime)
   \<and> filterTeams [] [engineering] \<noteq> []
   \<and> getChannels (mockAsClient lastPostFailure) (User_Id jane) (filterTeams [] [engineering])
         [] [] startTime
       = (Inr ([\<lparr>TeamName = ''Engineering'', ChannelName = ''General''\<rparr>], [''team1'']),
          startTime)
   \<and> GetLastPostDateForUser (mockAsClient lastPostFailure) (User_Id jane)
         (User_Username jane) [''team1''] startTime
       = (Inl http500, startTime)
   \<and> processGuest (\<lambda>s. s) (mockAsClient lastPostFailure) jane [] 0 False startTime
       = (Inr (Some (janeRecord\<lparr>LastPost := None\<rparr>)), startTime)
   \<and> (\<exists>g. processGuest (\<lambda>s. s) (mockAsClient lastPostFailure) jane [] 0 False startTime
               = (Inr (Some g), startTime)
           \<and> LastPost g = None \<and> Error g = []
           \<and> Teams g = filterTeams [] [engineering]
           \<and> Channels g = [\<lparr>TeamName = ''Engineering'', ChannelName = ''General''\<rparr>]
           \<and> processGuests (\<lambda>s. s) (mockAsClient lastPostFailure) [] 0 False
                (jane # [bob, alice])
                \<lparr>Guests = [], Summary = emptySummary, InactiveDays = 0\<rparr> ExitSuccess startTime
              = processGuests (\<lambda>s. s) (mockAsClient lastPostFailure) [] 0 False [bob, alice]
                  (\<lparr>Guests = [], Summary = emptySummary, InactiveDays = 0\<rparr>
                     \<lparr>Guests := Guests \<lparr>Guests = [], Summary = emptySummary,
                                          InactiveDays = 0\<rparr> @ [g]\<rparr>)
                  ExitSuccess startTime)
   \<and> RunAudit fst (logged (mockAsClient lastPostFailure)) [] 0 False (startTime, [])
       = Some ((Some lastPostFailureResult, ExitSuccess), (startTime, lastPostFailureLog))
   \<and> filter failedEv lastPostFailureLog
       = [EvGetLastPostDateForUser ''user1'' ''jane.doe'' [''team1''] (Inl http500)]
   \<and> FailedLookups (Summary lastPostFailureResult) = 0
   \<and> map Error (Guests lastPostFailureResult) = [[], [], []]"
proof -
  have teamsJane: "GetTeamsForUser (mockAsClient lastPostFailure) (User_Id jane) startTime
                     = (Inr [engineering], startTime)"
    by (simp add: mock_defs basicScenario_def lastPostFailure_def)
  have scope: "filterTeams [] [engineering] \<noteq> []" by simp
  have chans: "getChannels (mockAsClient lastPostFailure) (User_Id jane)
                 (filterTeams [] [engineering]) [] [] startTime
       = (Inr ([\<lparr>TeamName = ''Engineering'', ChannelName = ''General''\<rparr>], [''team1'']),
          startTime)"
    by (simp add: mock_defs basicScenario_def lastPostFailure_def)
  have post: "GetLastPostDateForUser (mockAsClient lastPostFailure) (User_Id jane)
                (User_Username jane) [''team1''] startTime
       = (Inl http500, startTime)"
    by (simp add: mock_defs basicScenario_def lastPostFailure_def)
  have rec0: "processGuest (\<lambda>s. s) (mockAsClient lastPostFailure) jane [] 0 False startTime
       = (Inr (Some (janeRecord\<lparr>LastPost := None\<rparr>)), startTime)"
    by (simp add: audit_defs mock_defs record_defs basicScenario_def lastPostFailure_def)
  have run: "RunAudit fst (logged (mockAsClient lastPostFailure)) [] 0 False (startTime, [])
       = Some ((Some lastPostFailureResult, ExitSuccess), (startTime, lastPostFailureLog))"
    by (simp add: audit_defs mock_defs record_defs logged_calls basicScenario_def
          lastPostFailure_def lastPostFailureLog_def lastPostFailureResult_def)
  have failed: "filter failedEv lastPostFailureLog
       = [EvGetLastPostDateForUser ''user1'' ''jane.doe'' [''team1''] (Inl http500)]"
    by (simp add: lastPostFailureLog_def)
  have only: "\<forall>ev\<in>set lastPostFailureLog. failedEv ev \<longrightarrow> isGetLastPostDateForUser ev"
    by (simp add: lastPostFailureLog_def)
  have errors: "map Error (Guests lastPostFailureResult) = [[], [], []]"
    by (simp add: lastPostFailureResult_def record_defs)
  note claim = last_post_failure_is_not_fatal
    [where client = "mockAsClient lastPostFailure" and u = jane and s = startTime
       and found = "[engineering]" and ?s1.0 = startTime and filterTeamID = "[]"
       and chs = "[\<lparr>TeamName = ''Engineering'', ChannelName = ''General''\<rparr>]"
       and ids = "[''team1'']" and ?s2.0 = startTime and err = http500 and ?s3.0 = startTime
       and time_Now = "\<lambda>s. s" and inactiveDays = 0 and verbose = False
       and us = "[bob, alice]"
       and result = "\<lparr>Guests = [], Summary = emptySummary, InactiveDays = 0\<rparr>"
       and exitCode = ExitSuccess
       and time_Now' = fst and client' = "mockAsClient lastPostFailure" and teamFilter' = "[]"
       and inactiveDays' = 0 and verbose' = False and s' = startTime
       and res = "Some lastPostFailureResult" and exitCode' = ExitSuccess
       and s'' = startTime and log = lastPostFailureLog]
  note guest = claim [THEN conjunct1, rule_format, OF teamsJane scope chans post]
  from claim [THEN conjunct2, THEN mp, THEN mp, OF run only]
  have count: "FailedLookups (Summary lastPostFailureResult) = 0"
    by auto
  from teamsJane scope chans post rec0 guest run failed count errors show ?thesis
    by (intro conjI)
qed

section \<open>Failed guests under a team filter\<close>

lemma processGuests_append:
  "processGuests time_Now client filterTeamID inactiveDays verbose (us @ vs) result exitCode s =
     (case processGuests time_Now client filterTeamID inactiveDays verbose us result exitCode s of
        ((result1, exitCode1), s1) \<Rightarrow>
          processGuests time_Now client filterTeamID inactiveDays verbose vs result1 exitCode1 s1)"
  by (induction us arbitrary: result exitCode s)
     (simp_all split: prod.splits sum.splits option.splits)

lemma team_fetch_failure_step:
  assumes "GetTeamsForUser client (User_Id u) s = (Inl err, s1)"
  shows "processGuests time_Now client filterTeamID inactiveDays verbose (u # us) result
           exitCode s =
         processGuests time_Now client filterTeamID inactiveDays verbose us
           (result\<lparr>Guests := Guests result @ [stubRecord u (''failed to get teams: '' @ err)],
                   Summary := (Summary result)
                     \<lparr>FailedLookups := FailedLookups (Summary result) + 1\<rparr>\<rparr>)
           ExitPartialFailure s1"
  using assms by (simp add: processGuest_def)

lemma failed_guest_in_result:
  assumes resolve: "resolveTeamFilter client teamFilter s = (Inr filterTeamID, s1)"
    and fetch: "fetchGuests client 0 [] s1 = Some (Inr (before @ u # rest), s2)"
    and before: "processGuests time_Now client filterTeamID inactiveDays verbose before
                   \<lparr>Guests = [], Summary = emptySummary, InactiveDays = inactiveDays\<rparr>
                   ExitSuccess s2 = ((result1, exitCode1), s3)"
    and fail: "GetTeamsForUser client (User_Id u) s3 = (Inl err, s4)"
  shows "\<exists>result s' recs.
           RunAudit time_Now client teamFilter inactiveDays verbose s
             = Some ((Some result, ExitPartialFailure), s')
         \<and> Guests result
             = Guests result1 @ stubRecord u (''failed to get teams: '' @ err) # recs
         \<and> TotalGuests (Summary result) = int (length (Guests result1)) + 1 + int (length recs)
         \<and> FailedLookups (Summary result)
             = FailedLookups (Summary result1) + 1 + errorCount recs"
proof -
  let ?stub = "stubRecord u (''failed to get teams: '' @ err)"
  let ?result2 = "result1\<lparr>Guests := Guests result1 @ [?stub],
                   Summary := (Summary result1)
                     \<lparr>FailedLookups := FailedLookups (Summary result1) + 1\<rparr>\<rparr>"
  obtain result0 code0 s5 where
    rest: "processGuests time_Now client filterTeamID inactiveDays verbose rest ?result2
             ExitPartialFailure s4 = ((result0, code0), s5)"
    by (metis surj_pair)
  from processGuests_invariant [OF rest] obtain recs where
    recs: "Guests result0 = Guests ?result2 @ recs"
    "Summary result0 = (Summary ?result2)
       \<lparr>FailedLookups := FailedLookups (Summary ?result2) + errorCount recs\<rparr>"
    "code0 = ExitPartialFailure"
    by auto
  have loop: "processGuests time_Now client filterTeamID inactiveDays verbose
                (before @ u # rest)
                \<lparr>Guests = [], Summary = emptySummary, InactiveDays = inactiveDays\<rparr>
                ExitSuccess s2 = ((result0, code0), s5)"
    using before rest team_fetch_failure_step [OF fail]
    by (simp add: processGuests_append)
  from recs loop fetch calcSummary_counts [of "Guests result0" "Summary result0"]
  show ?thesis
    by (intro exI [of _ "result0\<lparr>Summary := (calcSummary (Guests result0) (Summary result0))
                                  \<lparr>TotalGuests := int (length (Guests result0))\<rparr>\<rparr>"]
          exI [of _ s5] exI [of _ recs])
       (simp add: RunAudit_resolved [OF resolve])
qed

lemma processGuests_logged_stub:
  "processGuests time_Now (logged client) filterTeamID inactiveDays verbose us result exitCode
       (s, log) = ((result', exitCode'), (s', log'))
   \<Longrightarrow> \<exists>es recs. log' = log @ es \<and> Guests result' = Guests result @ recs
        \<and> (\<forall>userID m. EvGetTeamsForUser userID (Inl m) \<in> set es \<longrightarrow>
              (\<exists>u\<in>set us. User_Id u = userID
                 \<and> stubRecord u (''failed to get teams: '' @ m) \<in> set recs))"
proof (induction us arbitrary: result exitCode s log)
  case Nil
  then show ?case by auto
next
  case (Cons u us)
  obtain out s1 log1 where
    pg: "processGuest time_Now (logged client) u filterTeamID inactiveDays verbose (s, log)
           = (out, (s1, log1))"
    by (metis surj_pair)
  from processGuest_logged [OF pg] obtain es1 where
    es1: "log1 = log @ es1"
    and outcome: "case out of
           Inl e \<Rightarrow>
             (\<exists>m. filter failedEv es1 = [EvGetTeamsForUser (User_Id u) (Inl m)]
                   \<and> e = ''failed to get teams: '' @ m)
             \<or> (\<exists>teamID m. filter failedEv es1
                               = [EvGetChannelsForTeamForUser teamID (User_Id u) (Inl m)])
         | Inr x \<Rightarrow> (\<forall>ev\<in>set (filter failedEv es1). isGetLastPostDateForUser ev)"
    by blast
  have here: "out = Inl (''failed to get teams: '' @ m) \<and> User_Id u = userID"
    if "EvGetTeamsForUser userID (Inl m) \<in> set es1" for userID m
  proof -
    from that have mem: "EvGetTeamsForUser userID (Inl m) \<in> set (filter failedEv es1)"
      by simp
    show ?thesis
    proof (cases out)
      case (Inl e)
      with outcome consider
        (teams) m' where "filter failedEv es1 = [EvGetTeamsForUser (User_Id u) (Inl m')]"
          "e = ''failed to get teams: '' @ m'"
        | (chans) teamID m' where
          "filter failedEv es1 = [EvGetChannelsForTeamForUser teamID (User_Id u) (Inl m')]"
        by auto
      then show ?thesis
      proof cases
        case teams
        from mem [unfolded teams(1)] have "userID = User_Id u" "m = m'" by simp_all
        with Inl teams(2) show ?thesis by simp
      next
        case chans
        from mem [unfolded chans] have False by simp
        then show ?thesis ..
      qed
    next
      case (Inr x)
      with outcome have "\<forall>ev\<in>set (filter failedEv es1). isGetLastPostDateForUser ev"
        by simp
      then have "isGetLastPostDateForUser (EvGetTeamsForUser userID (Inl m))"
        using mem by (rule bspec)
      then show ?thesis by simp
    qed
  qed
  obtain result1 code1 where
    next_args: "(result1, code1) =
       (case out of
          Inl e \<Rightarrow> (result\<lparr>Guests := Guests result @ [stubRecord u e],
                            Summary := (Summary result)
                              \<lparr>FailedLookups := FailedLookups (Summary result) + 1\<rparr>\<rparr>,
                     ExitPartialFailure)
        | Inr None \<Rightarrow> (result, exitCode)
        | Inr (Some g) \<Rightarrow> (result\<lparr>Guests := Guests result @ [g]\<rparr>, exitCode))"
    by (metis surj_pair)
  with pg Cons.prems have run:
    "processGuests time_Now (logged client) filterTeamID inactiveDays verbose us result1 code1
       (s1, log1) = ((result', exitCode'), (s', log'))"
    by (auto split: sum.splits option.splits)
  from next_args obtain new where
    new: "Guests result1 = Guests result @ new"
    "\<forall>e. out = Inl e \<longrightarrow> new = [stubRecord u e]"
    by (cases out) (auto split: option.splits)
  from Cons.IH [OF run] obtain es recs where
    ih: "log' = log1 @ es" "Guests result' = Guests result1 @ recs"
    "\<forall>userID m. EvGetTeamsForUser userID (Inl m) \<in> set es \<longrightarrow>
              (\<exists>u\<in>set us. User_Id u = userID
                 \<and> stubRecord u (''failed to get teams: '' @ m) \<in> set recs)"
    by blast
  have "\<exists>v\<in>set (u # us). User_Id v = userID
                 \<and> stubRecord v (''failed to get teams: '' @ m) \<in> set (new @ recs)"
    if "EvGetTeamsForUser userID (Inl m) \<in> set (es1 @ es)" for userID m
  proof (cases "EvGetTeamsForUser userID (Inl m) \<in> set es1")
    case True
    from here [OF True] new(2) show ?thesis by auto
  next
    case False
    with that have "EvGetTeamsForUser userID (Inl m) \<in> set es" by simp
    with ih(3) show ?thesis by auto
  qed
  with es1 ih(1,2) new(1) show ?case
    by (intro exI [of _ "es1 @ es"] exI [of _ "new @ recs"]) simp
qed

lemma failed_team_fetch_in_log:
  assumes run: "RunAudit time_Now (logged client) teamFilter inactiveDays verbose (s, [])
                  = Some ((res, exitCode), (s', log))"
    and ev: "EvGetTeamsForUser userID (Inl m) \<in> set log"
  shows "\<exists>result u. res = Some result \<and> exitCode = ExitPartialFailure
           \<and> u \<in> set (listedGuests log) \<and> User_Id u = userID
           \<and> stubRecord u (''failed to get teams: '' @ m) \<in> set (Guests result)
           \<and> TotalGuests (Summary result) = int (length (Guests result))
           \<and> FailedLookups (Summary result) = errorCount (Guests result)
           \<and> 1 \<le> FailedLookups (Summary result)"
proof -
  let ?ev = "EvGetTeamsForUser userID (Inl m)"
  obtain r s1 log1 where
    resolve: "resolveTeamFilter (logged client) teamFilter (s, []) = (r, (s1, log1))"
    by (metis surj_pair)
  from resolveTeamFilter_logged [OF resolve] have
    r: "case r of Inl e \<Rightarrow> log1 = [EvGetTeamByName teamFilter (Inl e)]
              | Inr x \<Rightarrow> filter failedEv log1 = []"
    by auto
  have notin1: "?ev \<notin> set log1"
    using r by (cases r) (auto simp: filter_empty_conv)
  show ?thesis
  proof (cases r)
    case (Inl e)
    with run resolve have "log = log1" by (simp add: RunAudit_def)
    with ev notin1 show ?thesis by simp
  next
    case (Inr filterTeamID)
    note unfold = RunAudit_resolved [OF resolve [unfolded Inr]]
    from run obtain fr s2 log2 where
      fetch: "fetchGuests (logged client) 0 [] (s1, log1) = Some (fr, (s2, log2))"
      by (auto simp: unfold split: option.splits)
    from fetchGuests_logged [OF fetch] obtain es1 where
      es1: "log2 = log1 @ es1" "\<forall>ev\<in>set es1. isGetGuestUsers ev"
      "case fr of
         Inl e \<Rightarrow> failedEv (last es1)
       | Inr gs \<Rightarrow> \<not> failedEv (last es1) \<and> gs = [] @ listedGuests es1"
      by auto
    from es1(2) have notin2: "?ev \<notin> set es1" by auto
    show ?thesis
    proof (cases fr)
      case (Inl e)
      with run fetch have "log = log2" by (simp add: unfold)
      with ev es1(1) notin1 notin2 show ?thesis by simp
    next
      case inner: (Inr gs)
      obtain result0 code0 s3 log3 where
        loop: "processGuests time_Now (logged client) filterTeamID inactiveDays verbose gs
                 \<lparr>Guests = [], Summary = emptySummary, InactiveDays = inactiveDays\<rparr>
                 ExitSuccess (s2, log2) = ((result0, code0), (s3, log3))"
        by (metis surj_pair)
      with run fetch inner have
        res: "res = Some (result0\<lparr>Summary := (calcSummary (Guests result0) (Summary result0))
                                  \<lparr>TotalGuests := int (length (Guests result0))\<rparr>\<rparr>)"
        and code: "exitCode = code0" and log: "log = log3"
        by (simp_all add: unfold)
      from processGuests_logged [OF loop] obtain es2' where
        "log3 = log2 @ es2'" "filter isGetGuestUsers es2' = []"
        by auto
      from processGuests_logged_stub [OF loop] obtain es2 recs where
        es2: "log3 = log2 @ es2" and recs: "Guests result0 = recs"
        and stubs: "\<forall>userID m. EvGetTeamsForUser userID (Inl m) \<in> set es2 \<longrightarrow>
              (\<exists>u\<in>set gs. User_Id u = userID
                 \<and> stubRecord u (''failed to get teams: '' @ m) \<in> set recs)"
        by auto
      from \<open>log3 = log2 @ es2'\<close> es2 \<open>filter isGetGuestUsers es2' = []\<close>
      have no2: "filter isGetGuestUsers es2 = []" by simp
      from ev log es2 es1(1) notin1 notin2 have "?ev \<in> set es2" by simp
      with stubs obtain u where
        u: "u \<in> set gs" "User_Id u = userID"
        "stubRecord u (''failed to get teams: '' @ m) \<in> set recs"
        by blast
      have listed: "listedGuests log = gs"
        using log es2 es1 inner no2 resolveTeamFilter_logged [OF resolve]
        by (auto simp: listedGuests_append listedGuests_no_listing)
      have "Error (stubRecord u (''failed to get teams: '' @ m)) \<noteq> []"
        by (simp add: stubRecord_def)
      with u(3) have "filter (\<lambda>g. Error g \<noteq> []) recs \<noteq> []"
        by (simp only: filter_empty_conv) blast
      then have count: "1 \<le> errorCount recs"
        by (cases "filter (\<lambda>g. Error g \<noteq> []) recs") (simp_all add: errorCount_def)
      from processGuests_invariant [OF loop] recs count have
        "FailedLookups (Summary result0) = errorCount recs" "code0 = ExitPartialFailure"
        by (auto simp: emptySummary_def)
      with res code recs u listed count
        calcSummary_counts [of "Guests result0" "Summary result0"]
      show ?thesis
        by (intro exI [of _ "result0\<lparr>Summary := (calcSummary (Guests result0) (Summary result0))
                                  \<lparr>TotalGuests := int (length (Guests result0))\<rparr>\<rparr>"]
              exI [of _ u]) simp
    qed
  qed
qed

text \<open>
  C9. With team scoping active, when the lookup of the teams of a guest fails, the loop
  appends the stub record of the guest, adds one to the failed count and sets the exit
  code \<open>ExitPartialFailure\<close>; the skip of the guests outside the filtered team does
  not apply. Read on the log of a run: when the team filter resolved to a team with a
  non-empty identity and the lookup of the teams of a user failed, the run returned a
  result that holds the stub record of a listed guest with this identity, which the
  total and the failed count include, and the exit code \<open>ExitPartialFailure\<close>.
\<close>

theorem failed_guest_kept_under_team_filter:
  "(filterTeamID \<noteq> [] \<longrightarrow>
    GetTeamsForUser client (User_Id u) s = (Inl err, s1) \<longrightarrow>
      processGuests time_Now client filterTeamID inactiveDays verbose (u # us) result
        exitCode s
      = processGuests time_Now client filterTeamID inactiveDays verbose us
          (result\<lparr>Guests := Guests result @ [stubRecord u (''failed to get teams: '' @ err)],
                  Summary := (Summary result)
                    \<lparr>FailedLookups := FailedLookups (Summary result) + 1\<rparr>\<rparr>)
          ExitPartialFailure s1)
   \<and> (RunAudit time_NowL (logged clientL) teamFilterL inactiveDaysL verboseL (sL, [])
          = Some ((res, exitCodeL), (sL', logL)) \<longrightarrow>
       EvGetTeamByName teamFilterL (Inr team) \<in> set logL \<longrightarrow>
       Team_Id team \<noteq> [] \<longrightarrow>
       EvGetTeamsForUser userID (Inl errL) \<in> set logL \<longrightarrow>
         (\<exists>resultL v. res = Some resultL \<and> exitCodeL = ExitPartialFailure
            \<and> v \<in> set (listedGuests logL) \<and> User_Id v = userID
            \<and> stubRecord v (''failed to get teams: '' @ errL) \<in> set (Guests resultL)
            \<and> TotalGuests (Summary resultL) = int (length (Guests resultL))
            \<and> FailedLookups (Summary resultL) = errorCount (Guests resultL)
            \<and> 1 \<le> FailedLookups (Summary resultL)))"
proof (intro conjI impI)
  assume "GetTeamsForUser client (User_Id u) s = (Inl err, s1)"
  then show "processGuests time_Now client filterTeamID inactiveDays verbose (u # us) result
        exitCode s
      = processGuests time_Now client filterTeamID inactiveDays verbose us
          (result\<lparr>Guests := Guests result @ [stubRecord u (''failed to get teams: '' @ err)],
                  Summary := (Summary result)
                    \<lparr>FailedLookups := FailedLookups (Summary result) + 1\<rparr>\<rparr>)
          ExitPartialFailure s1"
    by (rule team_fetch_failure_step)
next
  assume "RunAudit time_NowL (logged clientL) teamFilterL inactiveDaysL verboseL (sL, [])
            = Some ((res, exitCodeL), (sL', logL))"
    and "EvGetTeamsForUser userID (Inl errL) \<in> set logL"
  then show "\<exists>resultL v. res = Some resultL \<and> exitCodeL = ExitPartialFailure
            \<and> v \<in> set (listedGuests logL) \<and> User_Id v = userID
            \<and> stubRecord v (''failed to get teams: '' @ errL) \<in> set (Guests resultL)
            \<and> TotalGuests (Summary resultL) = int (length (Guests resultL))
            \<and> FailedLookups (Summary resultL) = errorCount (Guests resultL)
            \<and> 1 \<le> FailedLookups (Summary resultL)"
    by (rule failed_team_fetch_in_log)
qed

theorem failed_guest_kept_under_team_filter_witness:
  "''team2'' \<noteq> []
   \<and> GetTeamsForUser (mockAsClient teamFilterFailure) (User_Id jane) startTime
       = (Inl http500, startTime)
   \<and> processGuests (\<lambda>s. s) (mockAsClient teamFilterFailure) ''team2'' 0 False (jane # [bob])
         \<lparr>Guests = [], Summary = emptySummary, InactiveDays = 0\<rparr> ExitSuccess startTime
       = processGuests (\<lambda>s. s) (mockAsClient teamFilterFailure) ''team2'' 0 False [bob]
           (\<lparr>Guests = [], Summary = emptySummary, InactiveDays = 0\<rparr>
              \<lparr>Guests := Guests \<lparr>Guests = [], Summary = emptySummary, InactiveDays = 0\<rparr>
                           @ [stubRecord jane (''failed to get teams: '' @ http500)],
               Summary := (Summary \<lparr>Guests = [], Summary = emptySummary, InactiveDays = 0\<rparr>)
                 \<lparr>FailedLookups :=
                    FailedLookups (Summary \<lparr>Guests = [], Summary = emptySummary,
                                             InactiveDays = 0\<rparr>) + 1\<rparr>\<rparr>)
           ExitPartialFailure startTime
   \<and> RunAudit fst (logged (mockAsClient teamFilterFailure)) ''Sales'' 0 False (startTime, [])
       = Some ((Some teamFilterFailureResult, ExitPartialFailure),
               (startTime, teamFilterFailureLog))
   \<and> EvGetTeamByName ''Sales'' (Inr sales) \<in> set teamFilterFailureLog
   \<and> Team_Id sales \<noteq> []
   \<and> EvGetTeamsForUser ''user1'' (Inl http500) \<in> set teamFilterFailureLog
   \<and> teams teamFilterFailure (User_Id jane) = Some [engineering]
   \<and> Guests teamFilterFailureResult = [janeStub, bobSalesRecord]
   \<and> stubRecord jane (''failed to get teams: '' @ http500) = janeStub
   \<and> Summary teamFilterFailureResult
       = \<lparr>TotalGuests = 2, ActiveGuests = 1, InactiveGuests = 0, DeactivatedGuests = 0,
          FailedLookups = 1\<rparr>
   \<and> (\<exists>resultL v. Some teamFilterFailureResult = Some resultL
          \<and> ExitPartialFailure = ExitPartialFailure
          \<and> v \<in> set (listedGuests teamFilterFailureLog) \<and> User_Id v = ''user1''
          \<and> stubRecord v (''failed to get teams: '' @ http500) \<in> set (Guests resultL)
          \<and> TotalGuests (Summary resultL) = int (length (Guests resultL))
          \<and> FailedLookups (Summary resultL) = errorCount (Guests resultL)
          \<and> 1 \<le> FailedLookups (Summary resultL))"
proof -
  have active: "''team2'' \<noteq> []" by simp
  have fail: "GetTeamsForUser (mockAsClient teamFilterFailure) (User_Id jane) startTime
                = (Inl http500, startTime)"
    by (simp add: mock_defs teamFilterScenario_def teamFilterFailure_def)
  have run: "RunAudit fst (logged (mockAsClient teamFilterFailure)) ''Sales'' 0 False
               (startTime, [])
       = Some ((Some teamFilterFailureResult, ExitPartialFailure),
               (startTime, teamFilterFailureLog))"
    by (simp add: audit_defs mock_defs record_defs logged_calls teamFilterScenario_def
          teamFilterFailure_def teamFilterFailureResult_def teamFilterFailureLog_def)
  have lookup: "EvGetTeamByName ''Sales'' (Inr sales) \<in> set teamFilterFailureLog"
    by (simp add: teamFilterFailureLog_def)
  have team: "Team_Id sales \<noteq> []"
    by (simp add: sales_def)
  have event: "EvGetTeamsForUser ''user1'' (Inl http500) \<in> set teamFilterFailureLog"
    by (simp add: teamFilterFailureLog_def)
  have member: "teams teamFilterFailure (User_Id jane) = Some [engineering]"
    by (simp add: mock_defs teamFilterScenario_def teamFilterFailure_def)
  have guests: "Guests teamFilterFailureResult = [janeStub, bobSalesRecord]"
    by (simp add: teamFilterFailureResult_def)
  have stub: "stubRecord jane (''failed to get teams: '' @ http500) = janeStub"
    by (simp add: audit_defs mock_defs record_defs)
  have summary: "Summary teamFilterFailureResult
       = \<lparr>TotalGuests = 2, ActiveGuests = 1, InactiveGuests = 0, DeactivatedGuests = 0,
          FailedLookups = 1\<rparr>"
    by (simp add: teamFilterFailureResult_def)
  note claim = failed_guest_kept_under_team_filter
    [where filterTeamID = "''team2''" and client = "mockAsClient teamFilterFailure"
       and u = jane and s = startTime and err = http500 and ?s1.0 = startTime
       and time_Now = "\<lambda>s. s" and inactiveDays = 0 and verbose = False and us = "[bob]"
       and result = "\<lparr>Guests = [], Summary = emptySummary, InactiveDays = 0\<rparr>"
       and exitCode = ExitSuccess
       and time_NowL = fst and clientL = "mockAsClient teamFilterFailure"
       and teamFilterL = "''Sales''" and inactiveDaysL = 0 and verboseL = False
       and sL = startTime and res = "Some teamFilterFailureResult"
       and exitCodeL = ExitPartialFailure and sL' = startTime and logL = teamFilterFailureLog
       and team = sales and userID = "''user1''" and errL = http500]
  note step = claim [THEN conjunct1, rule_format, OF active fail]
  note kept = claim [THEN conjunct2, rule_format, OF run lookup team event]
  from active fail step run lookup team event member guests stub summary kept show ?thesis
    by (intro conjI)
qed

section \<open>The fallback to the standard output\<close>

text \<open>
  C10. When an output path is given and the file cannot be created, \<open>WriteOutput\<close>
  renders to the standard output and returns what the renderer returns there; in every
  case the error that \<open>WriteOutput\<close> returns is the error of the renderer, never
  the error of \<open>os.Create\<close>.
\<close>

theorem create_failure_falls_back:
  "(outputPath \<noteq> [] \<longrightarrow> os_Create env outputPath world = (Inl err, world1) \<longrightarrow>
      WriteOutput env result format outputPath world
        = render env format Stdout result world1)
   \<and> fst (WriteOutput env result format outputPath world)
       = fst (render env format (fst (chooseWriter env outputPath world)) result
                (snd (snd (chooseWriter env outputPath world))))"
  by (auto simp: WriteOutput_def chooseWriter_def split: prod.splits sum.splits option.splits)

theorem create_failure_falls_back_witness:
  "''/readonly/out.csv'' \<noteq> []
   \<and> os_Create demoEnv ''/readonly/out.csv'' ([], [])
       = (Inl ''open /readonly/out.csv: permission denied'', ([], []))
   \<and> WriteOutput demoEnv teamFilterResult ''csv'' ''/readonly/out.csv'' ([], [])
       = render demoEnv ''csv'' Stdout teamFilterResult ([], [])
   \<and> WriteOutput demoEnv teamFilterResult ''csv'' ''/readonly/out.csv'' ([], [])
       = (None, (''csv'', []))
   \<and> WriteOutput demoEnv teamFilterResult ''csv'' ''/tmp/out.csv'' ([], [])
       = (None, ([], [(''/tmp/out.csv'', ''csv'')]))"
proof -
  have path: "''/readonly/out.csv'' \<noteq> []" by simp
  have create: "os_Create demoEnv ''/readonly/out.csv'' ([], [])
       = (Inl ''open /readonly/out.csv: permission denied'', ([], []))"
    by (simp add: demoEnv_def)
  have stdout: "render demoEnv ''csv'' Stdout teamFilterResult ([], []) = (None, (''csv'', []))"
    by (simp add: render_def demoEnv_def demoWrite_def)
  have created: "WriteOutput demoEnv teamFilterResult ''csv'' ''/tmp/out.csv'' ([], [])
       = (None, ([], [(''/tmp/out.csv'', ''csv'')]))"
    by (simp add: WriteOutput_def chooseWriter_def render_def demoEnv_def demoWrite_def)
  note claim = create_failure_falls_back
    [where outputPath = "''/readonly/out.csv''" and env = demoEnv and world = "([], [])"
       and err = "''open /readonly/out.csv: permission denied''" and ?world1.0 = "([], [])"
       and result = teamFilterResult and format = "''csv''"]
  note fallback = claim [THEN conjunct1, rule_format, OF path create]
  from fallback stdout have out:
    "WriteOutput demoEnv teamFilterResult ''csv'' ''/readonly/out.csv'' ([], [])
       = (None, (''csv'', []))"
    by simp
  from path create fallback out created show ?thesis by (intro conjI)
qed

end
